theory Spec2Isabelle
  imports Main "HOL-Library.List_Lexorder" "HOL-Library.Char_ord" "HOL-Library.Sublist"
begin

section \<open>Data model of the room (src/types.ts, src/components/Room.tsx)\<close>

text \<open>
  A peer identity is the string produced by \<^verbatim>\<open>Math.random().toString(36).substring(7)\<close>:
  digits and lower-case letters. JavaScript compares strings code unit by code unit, a
  proper prefix being smaller; on such strings this is the lexicographic order of
  \<open>char list\<close>.
\<close>

type_synonym PeerIdentity = string

datatype ConnectionStatus =
  Initializing | Waiting_for_Peer | Negotiating | Connected | Reconnecting | Disconnected | Failed

text \<open>The three state properties of the browser's RTCPeerConnection that Room.tsx reads.\<close>

datatype RTCPeerConnectionState =
  PcNew | PcConnecting | PcConnected | PcDisconnected | PcFailed | PcClosed

datatype RTCSignalingState =
  Stable | HaveLocalOffer | HaveRemoteOffer | HaveLocalPranswer | HaveRemotePranswer | SigClosed

datatype RTCIceConnectionState =
  IceNew | IceChecking | IceConnected | IceCompleted | IceFailed | IceDisconnected | IceClosed

datatype RTCSdpType = SdpOffer | SdpAnswer | SdpPranswer | SdpRollback

record RTCSessionDescriptionInit =
  sdpType :: RTCSdpType
  sdpText :: string

type_synonym RTCIceCandidateInit = string

type_synonym MediaStreamTrack = string

record ChatMessage =
  chat_id :: string
  chat_text :: string
  chat_senderId :: string
  chat_timestamp :: int
  chat_isSystem :: "bool option"

text \<open>
  The \<^verbatim>\<open>type\<close> field of an envelope. \<open>Join\<close> is the member of \<^verbatim>\<open>SignalType\<close> in
  types.ts that the handler has no branch for; \<open>Announce\<close> is the type Room.tsx sends and
  receives for presence.
\<close>

datatype SignalType = Join | Announce | Offer | Answer | IceCandidate | Leave | Chat

record SignalMessage =
  msgType :: SignalType
  sdp :: "RTCSessionDescriptionInit option"
  candidate :: "RTCIceCandidateInit option"
  senderId :: PeerIdentity
  chatMessage :: "ChatMessage option"

text \<open>
  The connection engine is the browser's RTCPeerConnection, which is not part of the
  repository. It is a parameter of the model: an engine state of any type \<open>'e\<close> and the
  operations Room.tsx calls on it. An operation that rejects (its promise rejects, or
  the call throws) returns \<open>None\<close>.
\<close>

record 'e RTCPeerConnection =
  newPeerConnection :: 'e
  connectionState :: "'e \<Rightarrow> RTCPeerConnectionState"
  signalingState :: "'e \<Rightarrow> RTCSignalingState"
  iceConnectionState :: "'e \<Rightarrow> RTCIceConnectionState"
  remoteDescription :: "'e \<Rightarrow> RTCSessionDescriptionInit option"
  createDataChannel :: "string \<Rightarrow> 'e \<Rightarrow> 'e option"
  createOffer :: "'e \<Rightarrow> (RTCSessionDescriptionInit \<times> 'e) option"
  createAnswer :: "'e \<Rightarrow> (RTCSessionDescriptionInit \<times> 'e) option"
  setLocalDescription :: "RTCSessionDescriptionInit \<Rightarrow> 'e \<Rightarrow> 'e option"
  setRemoteDescription :: "RTCSessionDescriptionInit \<Rightarrow> 'e \<Rightarrow> 'e option"
  addIceCandidate :: "RTCIceCandidateInit \<Rightarrow> 'e \<Rightarrow> 'e option"
  addTrack :: "MediaStreamTrack \<Rightarrow> 'e \<Rightarrow> 'e option"

text \<open>Every call made on the engine is recorded, in order, with whether it succeeded.\<close>

datatype engine_call =
  NewPeerConnection
  | Close
  | CreateDataChannel string
  | CreateOffer
  | CreateAnswer
  | SetLocalDescription RTCSessionDescriptionInit
  | SetRemoteDescription RTCSessionDescriptionInit
  | AddIceCandidate RTCIceCandidateInit
  | AddTrack MediaStreamTrack

text \<open>
  The callbacks handed to \<^verbatim>\<open>setTimeout\<close> and \<^verbatim>\<open>setInterval\<close>: the first broadcast and
  the periodic tick of \<^verbatim>\<open>startAnnouncementLoop\<close>, the check armed by
  \<^verbatim>\<open>initiateConnection\<close>, and \<^verbatim>\<open>setTimeout(restartConnection, 2000)\<close>.
\<close>

datatype timer_callback = InitialAnnounce | AnnounceTick | NegotiationCheck | DelayedRestart

text \<open>
  The refs and React state of the \<^verbatim>\<open>Room\<close> component that the negotiation code reads
  or writes, together with its environment: the pending timers (identifier, delay in
  milliseconds, callback), the envelopes handed to \<^verbatim>\<open>channel.current.send\<close>, and the
  calls made on the engine. \<open>channel\<close> says that \<^verbatim>\<open>channel.current\<close> is not null, and
  \<open>remoteSrcObject\<close> that the remote video element shows a stream.
  \<open>showChatAtSubscribe\<close> is the \<^verbatim>\<open>showChat\<close> the signal handler reads: the handler
  registered with the channel is the closure of the render in which the effect on
  \<^verbatim>\<open>[roomId]\<close> ran, so it keeps the value \<^verbatim>\<open>showChat\<close> had then (false when the room
  is first mounted), whatever the chat panel does later.
\<close>

record 'e session =
  myId :: PeerIdentity
  peerConnection :: "'e option"
  channel :: bool
  isInitiator :: bool
  announceInterval :: "nat option"
  negotiationTimeout :: "nat option"
  iceCandidatesQueue :: "RTCIceCandidateInit list"
  localStream :: "MediaStreamTrack list option"
  status :: ConnectionStatus
  statusMessage :: string
  peerConnected :: bool
  remoteSrcObject :: bool
  messages :: "ChatMessage list"
  unreadCount :: nat
  showChatAtSubscribe :: bool
  timers :: "(nat \<times> nat \<times> timer_callback) list"
  nextTimerId :: nat
  sent :: "SignalMessage list"
  engineCalls :: "(engine_call \<times> bool) list"

datatype error = TypeError | OperationError

section \<open>Environment: timers, the channel, calls on the engine\<close>

text \<open>\<^verbatim>\<open>setTimeout\<close>/\<^verbatim>\<open>setInterval\<close>: a fresh identifier, returned with the new state.\<close>

definition setTimer :: "timer_callback \<Rightarrow> nat \<Rightarrow> 'e session \<Rightarrow> nat \<times> 'e session" where
  "setTimer cb delay s =
     (nextTimerId s,
      s\<lparr>timers := timers s @ [(nextTimerId s, delay, cb)], nextTimerId := Suc (nextTimerId s)\<rparr>)"

text \<open>\<^verbatim>\<open>clearTimeout\<close>/\<^verbatim>\<open>clearInterval\<close>: an unknown identifier is ignored.\<close>

definition clearTimer :: "nat \<Rightarrow> 'e session \<Rightarrow> 'e session" where
  "clearTimer i s = s\<lparr>timers := filter (\<lambda>t. fst t \<noteq> i) (timers s)\<rparr>"

definition send :: "SignalMessage \<Rightarrow> 'e session \<Rightarrow> 'e session" where
  "send m s = s\<lparr>sent := sent s @ [m]\<rparr>"

definition mkSignal :: "SignalType \<Rightarrow> PeerIdentity \<Rightarrow> SignalMessage" where
  "mkSignal t i = \<lparr>msgType = t, sdp = None, candidate = None, senderId = i, chatMessage = None\<rparr>"

text \<open>
  One call on \<^verbatim>\<open>peerConnection.current\<close>: the call and its outcome are recorded, and the
  engine is replaced by the one the call returns. With no engine nothing is called and
  the result is a failure.
\<close>

definition callEngine ::
  "engine_call \<Rightarrow> ('e \<Rightarrow> 'e option) \<Rightarrow> 'e session \<Rightarrow> bool \<times> 'e session" where
  "callEngine c f s =
     (case peerConnection s of
        None \<Rightarrow> (False, s)
      | Some e \<Rightarrow>
          (case f e of
             None \<Rightarrow> (False, s\<lparr>engineCalls := engineCalls s @ [(c, False)]\<rparr>)
           | Some e' \<Rightarrow>
               (True, s\<lparr>peerConnection := Some e', engineCalls := engineCalls s @ [(c, True)]\<rparr>)))"

text \<open>\<^verbatim>\<open>createOffer\<close> and \<^verbatim>\<open>createAnswer\<close> also return a description.\<close>

definition callCreate ::
  "engine_call \<Rightarrow> ('e \<Rightarrow> (RTCSessionDescriptionInit \<times> 'e) option) \<Rightarrow> 'e session
     \<Rightarrow> RTCSessionDescriptionInit option \<times> 'e session" where
  "callCreate c f s =
     (case peerConnection s of
        None \<Rightarrow> (None, s)
      | Some e \<Rightarrow>
          (case f e of
             None \<Rightarrow> (None, s\<lparr>engineCalls := engineCalls s @ [(c, False)]\<rparr>)
           | Some (d, e') \<Rightarrow>
               (Some d, s\<lparr>peerConnection := Some e', engineCalls := engineCalls s @ [(c, True)]\<rparr>)))"

definition rollback :: RTCSessionDescriptionInit where
  "rollback = \<lparr>sdpType = SdpRollback, sdpText = []\<rparr>"

section \<open>Room.tsx: connection set-up, announcing, restart\<close>

definition createPeerConnection :: "'e RTCPeerConnection \<Rightarrow> 'e session \<Rightarrow> 'e session" where
  "createPeerConnection pc s =
     (case peerConnection s of
        Some e \<Rightarrow> s
      | None \<Rightarrow> s\<lparr>peerConnection := Some (newPeerConnection pc),
                  engineCalls := engineCalls s @ [(NewPeerConnection, True)]\<rparr>)"

definition stopAnnouncing :: "'e session \<Rightarrow> 'e session" where
  "stopAnnouncing s =
     (case announceInterval s of
        None \<Rightarrow> s
      | Some i \<Rightarrow> (clearTimer i s)\<lparr>announceInterval := None\<rparr>)"

definition startAnnouncementLoop :: "'e session \<Rightarrow> 'e session" where
  "startAnnouncementLoop s =
     (let s1 = (case announceInterval s of None \<Rightarrow> s | Some i \<Rightarrow> clearTimer i s);
          s2 = snd (setTimer InitialAnnounce 500 s1);
          (i, s3) = setTimer AnnounceTick 2000 s2
      in s3\<lparr>announceInterval := Some i\<rparr>)"

text \<open>The \<^verbatim>\<open>forEach\<close> over the local tracks: a track that cannot be added is logged and skipped.\<close>

definition addTracks ::
  "'e RTCPeerConnection \<Rightarrow> MediaStreamTrack list \<Rightarrow> 'e session \<Rightarrow> 'e session" where
  "addTracks pc ts s = foldl (\<lambda>s' t. snd (callEngine (AddTrack t) (addTrack pc t) s')) s ts"

definition restartConnection :: "'e RTCPeerConnection \<Rightarrow> 'e session \<Rightarrow> 'e session" where
  "restartConnection pc s =
     (let s1 = (case peerConnection s of
                  None \<Rightarrow> s
                | Some e \<Rightarrow> s\<lparr>peerConnection := None,
                              engineCalls := engineCalls s @ [(Close, True)]\<rparr>);
          s2 = createPeerConnection pc s1;
          s3 = (case localStream s2 of
                  None \<Rightarrow> s2
                | Some ts \<Rightarrow> (case peerConnection s2 of None \<Rightarrow> s2 | Some e \<Rightarrow> addTracks pc ts s2));
          s4 = s3\<lparr>status := Waiting_for_Peer, statusMessage := ''Retrying connection...''\<rparr>
      in startAnnouncementLoop s4)"

definition handleRemoteDisconnect :: "'e RTCPeerConnection \<Rightarrow> 'e session \<Rightarrow> 'e session" where
  "handleRemoteDisconnect pc s =
     restartConnection pc
       (s\<lparr>status := Waiting_for_Peer, statusMessage := ''Peer left. Waiting...'',
          peerConnected := False, remoteSrcObject := False\<rparr>)"

text \<open>
  \<^verbatim>\<open>initiateConnection\<close>. Everything after the status update is inside \<^verbatim>\<open>try\<close>: a call
  that throws (the engine rejects, or \<^verbatim>\<open>channel.current\<close> is null) is logged and the
  function ends there, with what it had done so far.
\<close>

definition initiateConnection :: "'e RTCPeerConnection \<Rightarrow> 'e session \<Rightarrow> 'e session" where
  "initiateConnection pc s =
     (case peerConnection s of
        None \<Rightarrow> s
      | Some e \<Rightarrow>
          (let s1 = stopAnnouncing s;
               s2 = s1\<lparr>status := Negotiating, statusMessage := ''Calling peer...'',
                       isInitiator := True\<rparr>;
               (ok1, s3) = callEngine (CreateDataChannel ''keepalive'')
                             (createDataChannel pc ''keepalive'') s2
           in if \<not> ok1 then s3
              else (case callCreate CreateOffer (createOffer pc) s3 of
                      (None, s4) \<Rightarrow> s4
                    | (Some offer, s4) \<Rightarrow>
                        (let (ok2, s5) = callEngine (SetLocalDescription offer)
                                           (setLocalDescription pc offer) s4
                         in if \<not> ok2 then s5
                            else if \<not> channel s5 then s5
                            else
                              (let s6 = send ((mkSignal Offer (myId s5))\<lparr>sdp := Some offer\<rparr>) s5;
                                   s7 = (case negotiationTimeout s6 of
                                           None \<Rightarrow> s6
                                         | Some i \<Rightarrow> clearTimer i s6);
                                   (i, s8) = setTimer NegotiationCheck 10000 s7
                               in s8\<lparr>negotiationTimeout := Some i\<rparr>)))))"

section \<open>Room.tsx: the signal handler\<close>

text \<open>
  A handler runs to completion before the next event is taken: every \<^verbatim>\<open>await\<close> is
  modelled as the call it waits for, finished at once.

  The body of \<^verbatim>\<open>try\<close> in \<^verbatim>\<open>handleSignalMessage\<close> returns \<open>Inr\<close> of the new state, or
  \<open>Inl\<close> of the exception thrown together with the state reached when it was thrown.
\<close>

type_synonym 'e outcome = "(error \<times> 'e session) + 'e session"

text \<open>
  The announce branch. \<^verbatim>\<open>initiateConnection()\<close> is not awaited and catches its own
  exceptions, so the branch itself never throws.
\<close>

definition processAnnounce ::
  "'e RTCPeerConnection \<Rightarrow> SignalMessage \<Rightarrow> 'e session \<Rightarrow> 'e outcome" where
  "processAnnounce pc payload s =
     (case peerConnection s of
        None \<Rightarrow> Inl (TypeError, s)
      | Some e \<Rightarrow>
          (let pcState = connectionState pc e;
               sigState = signalingState pc e
           in if pcState = PcConnected then Inr s
              else if senderId payload < myId s then
                (if sigState \<noteq> Stable \<and> pcState \<noteq> PcFailed \<and> pcState \<noteq> PcDisconnected
                 then Inr s
                 else Inr (initiateConnection pc s))
              else Inr s))"

text \<open>
  The glare test of the offer branch. With a signaling state other than stable,
  \<^verbatim>\<open>Promise.all\<close> receives the rollback and the remote description: the array is built
  left to right, so the rollback is called first, then \<^verbatim>\<open>new RTCSessionDescription\<close>
  (which throws on a missing description), then \<^verbatim>\<open>setRemoteDescription\<close>; the engine
  runs them in that order, and the \<^verbatim>\<open>await\<close> throws if either rejects.
\<close>

definition applyRemoteOffer ::
  "'e RTCPeerConnection \<Rightarrow> RTCSessionDescriptionInit option \<Rightarrow> 'e session \<Rightarrow> 'e outcome" where
  "applyRemoteOffer pc d s =
     (case peerConnection s of
        None \<Rightarrow> Inl (TypeError, s)
      | Some e \<Rightarrow>
          if signalingState pc e \<noteq> Stable then
            (let (ok1, s1) = callEngine (SetLocalDescription rollback)
                               (setLocalDescription pc rollback) s
             in case d of
                  None \<Rightarrow> Inl (TypeError, s1)
                | Some d' \<Rightarrow>
                    (let (ok2, s2) = callEngine (SetRemoteDescription d')
                                       (setRemoteDescription pc d') s1
                     in if ok1 \<and> ok2 then Inr s2 else Inl (OperationError, s2)))
          else
            (case d of
               None \<Rightarrow> Inl (TypeError, s)
             | Some d' \<Rightarrow>
                 (let (ok, s1) = callEngine (SetRemoteDescription d')
                                   (setRemoteDescription pc d') s
                  in if ok then Inr s1 else Inl (OperationError, s1))))"

text \<open>
  The \<^verbatim>\<open>while\<close> loop over the queue: \<^verbatim>\<open>shift()\<close> removes the head, and a candidate the
  engine refuses is logged and the loop goes on. Only candidates that passed
  \<^verbatim>\<open>if (payload.candidate)\<close> are ever pushed, so the inner \<^verbatim>\<open>if (candidate)\<close> holds.
\<close>

function drainQueue :: "'e RTCPeerConnection \<Rightarrow> 'e session \<Rightarrow> 'e session" where
  "drainQueue pc s =
     (case iceCandidatesQueue s of
        [] \<Rightarrow> s
      | c # cs \<Rightarrow>
          drainQueue pc
            (snd (callEngine (AddIceCandidate c) (addIceCandidate pc c)
                    (s\<lparr>iceCandidatesQueue := cs\<rparr>))))"
  by pat_completeness auto
termination
  by (relation "measure (\<lambda>(pc, s). length (iceCandidatesQueue s))")
     (auto simp: callEngine_def split: option.splits)

declare drainQueue.simps [simp del]

text \<open>
  The end of the offer branch: \<^verbatim>\<open>createAnswer\<close>, \<^verbatim>\<open>setLocalDescription(answer)\<close>, and
  the Answer envelope handed to \<^verbatim>\<open>channel.current.send\<close>.
\<close>

definition answerRemoteOffer :: "'e RTCPeerConnection \<Rightarrow> 'e session \<Rightarrow> 'e outcome" where
  "answerRemoteOffer pc s =
     (case callCreate CreateAnswer (createAnswer pc) s of
        (None, s1) \<Rightarrow> Inl (OperationError, s1)
      | (Some answer, s1) \<Rightarrow>
          (let (ok, s2) = callEngine (SetLocalDescription answer)
                            (setLocalDescription pc answer) s1
           in if \<not> ok then Inl (OperationError, s2)
              else if \<not> channel s2 then Inl (TypeError, s2)
              else Inr (send ((mkSignal Answer (myId s2))\<lparr>sdp := Some answer\<rparr>) s2)))"

definition processOffer ::
  "'e RTCPeerConnection \<Rightarrow> SignalMessage \<Rightarrow> 'e session \<Rightarrow> 'e outcome" where
  "processOffer pc payload s =
     (let s1 = s\<lparr>status := Negotiating, statusMessage := ''Accepting connection...''\<rparr>;
          s2 = stopAnnouncing s1
      in case applyRemoteOffer pc (sdp payload) s2 of
           Inl x \<Rightarrow> Inl x
         | Inr s3 \<Rightarrow> answerRemoteOffer pc (drainQueue pc s3))"

definition processAnswer ::
  "'e RTCPeerConnection \<Rightarrow> SignalMessage \<Rightarrow> 'e session \<Rightarrow> 'e outcome" where
  "processAnswer pc payload s =
     (let s1 = s\<lparr>status := Negotiating, statusMessage := ''Finalizing connection...''\<rparr>
      in case peerConnection s1 of
           None \<Rightarrow> Inl (TypeError, s1)
         | Some e \<Rightarrow>
             if signalingState pc e = HaveLocalOffer then
               (case sdp payload of
                  None \<Rightarrow> Inl (TypeError, s1)
                | Some d \<Rightarrow>
                    (let (ok, s2) = callEngine (SetRemoteDescription d)
                                      (setRemoteDescription pc d) s1
                     in if ok then Inr s2 else Inl (OperationError, s2)))
             else Inr s1)"

text \<open>
  The ice-candidate branch. \<^verbatim>\<open>remoteDescription.type\<close> is a non-empty string whenever
  the description is not null, so the test is that the description is set. The inner
  \<^verbatim>\<open>try\<close> catches what \<^verbatim>\<open>addIceCandidate\<close> throws.
\<close>

definition processIceCandidate ::
  "'e RTCPeerConnection \<Rightarrow> SignalMessage \<Rightarrow> 'e session \<Rightarrow> 'e outcome" where
  "processIceCandidate pc payload s =
     (case candidate payload of
        None \<Rightarrow> Inr s
      | Some c \<Rightarrow>
          (case peerConnection s of
             None \<Rightarrow> Inl (TypeError, s)
           | Some e \<Rightarrow>
               if remoteDescription pc e \<noteq> None
               then Inr (snd (callEngine (AddIceCandidate c) (addIceCandidate pc c) s))
               else Inr (s\<lparr>iceCandidatesQueue := iceCandidatesQueue s @ [c]\<rparr>)))"

definition signalBody ::
  "'e RTCPeerConnection \<Rightarrow> SignalMessage \<Rightarrow> 'e session \<Rightarrow> 'e outcome" where
  "signalBody pc payload s =
     (case msgType payload of
        Announce \<Rightarrow> processAnnounce pc payload s
      | Offer \<Rightarrow> processOffer pc payload s
      | Answer \<Rightarrow> processAnswer pc payload s
      | IceCandidate \<Rightarrow> processIceCandidate pc payload s
      | Leave \<Rightarrow> Inr (handleRemoteDisconnect pc s)
      | _ \<Rightarrow> Inr s)"

text \<open>The chat branch: \<^verbatim>\<open>setMessages\<close> with the duplicate test, then the unread counter.\<close>

definition receiveChat :: "ChatMessage \<Rightarrow> 'e session \<Rightarrow> 'e session" where
  "receiveChat cm s =
     (let s1 = (if list_ex (\<lambda>m. chat_id m = chat_id cm) (messages s) then s
                else s\<lparr>messages := messages s @ [cm]\<rparr>)
      in if \<not> showChatAtSubscribe s1 then s1\<lparr>unreadCount := Suc (unreadCount s1)\<rparr> else s1)"

definition handleSignalMessage ::
  "'e RTCPeerConnection \<Rightarrow> SignalMessage \<Rightarrow> 'e session \<Rightarrow> 'e session" where
  "handleSignalMessage pc payload s =
     (if senderId payload = myId s then s
      else if msgType payload = Chat \<and> chatMessage payload \<noteq> None
        then receiveChat (the (chatMessage payload)) s
      else if peerConnection s = None then s
      else (case signalBody pc payload s of
              Inr s' \<Rightarrow> s'
            | Inl (err, s') \<Rightarrow>
                if msgType payload = Offer \<or> msgType payload = Answer
                then restartConnection pc s'
                else s'))"

section \<open>Room.tsx: engine callbacks and timer callbacks\<close>

definition onconnectionstatechange :: "'e RTCPeerConnection \<Rightarrow> 'e session \<Rightarrow> 'e session" where
  "onconnectionstatechange pc s =
     (case peerConnection s of
        None \<Rightarrow> s
      | Some e \<Rightarrow>
          (case connectionState pc e of
             PcConnected \<Rightarrow>
               (let s1 = s\<lparr>status := Connected, statusMessage := ''Securely connected'',
                           peerConnected := True\<rparr>;
                    s2 = (case announceInterval s1 of None \<Rightarrow> s1 | Some i \<Rightarrow> clearTimer i s1)
                in case negotiationTimeout s2 of None \<Rightarrow> s2 | Some i \<Rightarrow> clearTimer i s2)
           | PcDisconnected \<Rightarrow>
               s\<lparr>status := Disconnected, statusMessage := ''Peer disconnected'',
                 peerConnected := False\<rparr>
           | PcFailed \<Rightarrow>
               snd (setTimer DelayedRestart 2000
                      (s\<lparr>status := Failed, statusMessage := ''Connection failed. Retrying...''\<rparr>))
           | _ \<Rightarrow> s))"

definition onicecandidate :: "RTCIceCandidateInit \<Rightarrow> 'e session \<Rightarrow> 'e session" where
  "onicecandidate c s =
     (if channel s then send ((mkSignal IceCandidate (myId s))\<lparr>candidate := Some c\<rparr>) s else s)"

definition broadcastPresence :: "'e session \<Rightarrow> 'e session" where
  "broadcastPresence s = (if channel s then send (mkSignal Announce (myId s)) s else s)"

definition isConnected :: "'e RTCPeerConnection \<Rightarrow> 'e session \<Rightarrow> bool" where
  "isConnected pc s =
     (case peerConnection s of None \<Rightarrow> False | Some e \<Rightarrow> connectionState pc e = PcConnected)"

text \<open>The callback of \<^verbatim>\<open>setTimeout(..., 500)\<close> in \<^verbatim>\<open>startAnnouncementLoop\<close>.\<close>

definition initialAnnounce :: "'e RTCPeerConnection \<Rightarrow> 'e session \<Rightarrow> 'e session" where
  "initialAnnounce pc s = (if \<not> isConnected pc s then broadcastPresence s else s)"

text \<open>The callback of \<^verbatim>\<open>setInterval(..., 2000)\<close> in \<^verbatim>\<open>startAnnouncementLoop\<close>.\<close>

definition announceTick :: "'e RTCPeerConnection \<Rightarrow> 'e session \<Rightarrow> 'e session" where
  "announceTick pc s =
     (if isConnected pc s
      then (case announceInterval s of None \<Rightarrow> s | Some i \<Rightarrow> clearTimer i s)
      else broadcastPresence s)"

text \<open>The callback of \<^verbatim>\<open>setTimeout(..., 10000)\<close> in \<^verbatim>\<open>initiateConnection\<close>.\<close>

definition negotiationCheck :: "'e RTCPeerConnection \<Rightarrow> 'e session \<Rightarrow> 'e session" where
  "negotiationCheck pc s =
     (let pcState = map_option (connectionState pc) (peerConnection s);
          iceState = map_option (iceConnectionState pc) (peerConnection s)
      in if pcState \<noteq> Some PcConnected \<and> iceState \<noteq> Some IceConnected
         then restartConnection pc s
         else s)"

text \<open>
  A pending timer fires: a timeout is removed from the pending timers and its callback
  runs; an interval stays pending.
\<close>

definition fireTimer :: "'e RTCPeerConnection \<Rightarrow> nat \<Rightarrow> 'e session \<Rightarrow> 'e session" where
  "fireTimer pc i s =
     (case find (\<lambda>t. fst t = i) (timers s) of
        None \<Rightarrow> s
      | Some (_, _, cb) \<Rightarrow>
          (case cb of
             AnnounceTick \<Rightarrow> announceTick pc s
           | InitialAnnounce \<Rightarrow> initialAnnounce pc (clearTimer i s)
           | NegotiationCheck \<Rightarrow> negotiationCheck pc (clearTimer i s)
           | DelayedRestart \<Rightarrow> restartConnection pc (clearTimer i s)))"

text \<open>
  What can happen to a room once it is set up: an envelope arrives, a timer fires, the
  engine moves to another state and reports the change, the engine produces a local
  candidate, or the user presses \<^emph>\<open>Force Reconnect\<close>.
\<close>

datatype 'e event =
  Receive SignalMessage
  | TimerFires nat
  | EngineChange 'e
  | LocalCandidate RTCIceCandidateInit
  | ForceReconnect

definition step :: "'e RTCPeerConnection \<Rightarrow> 'e event \<Rightarrow> 'e session \<Rightarrow> 'e session" where
  "step pc ev s =
     (case ev of
        Receive payload \<Rightarrow> handleSignalMessage pc payload s
      | TimerFires i \<Rightarrow> fireTimer pc i s
      | EngineChange e' \<Rightarrow>
          (case peerConnection s of
             None \<Rightarrow> s
           | Some e \<Rightarrow> onconnectionstatechange pc (s\<lparr>peerConnection := Some e'\<rparr>))
      | LocalCandidate c \<Rightarrow> onicecandidate c s
      | ForceReconnect \<Rightarrow> restartConnection pc s)"

definition run :: "'e RTCPeerConnection \<Rightarrow> 'e event list \<Rightarrow> 'e session \<Rightarrow> 'e session" where
  "run pc evs s = foldl (\<lambda>s' ev. step pc ev s') s evs"

section \<open>A reference engine and a room to evaluate the handlers on\<close>

text \<open>
  The theorems below hold for every engine. To evaluate the handlers at concrete
  inputs the engine parameter is instantiated with \<open>browser\<close>: the offer/answer state
  machine of an RTCPeerConnection, in a first negotiation, for the calls Room.tsx
  makes. It refuses a description that does not fit the signaling state (a rollback
  is accepted in \<^verbatim>\<open>have-local-offer\<close> and in \<^verbatim>\<open>have-remote-offer\<close>), refuses a
  candidate while no remote description is set or when it does not start with
  \<^verbatim>\<open>candidate:\<close>, and refuses a track it already sends.
\<close>

record rtc =
  rtcConnection :: RTCPeerConnectionState
  rtcSignaling :: RTCSignalingState
  rtcIce :: RTCIceConnectionState
  rtcLocal :: "RTCSessionDescriptionInit option"
  rtcRemote :: "RTCSessionDescriptionInit option"
  rtcCandidates :: "RTCIceCandidateInit list"
  rtcTracks :: "MediaStreamTrack list"

definition freshRtc :: rtc where
  "freshRtc = \<lparr>rtcConnection = PcNew, rtcSignaling = Stable, rtcIce = IceNew,
               rtcLocal = None, rtcRemote = None, rtcCandidates = [], rtcTracks = []\<rparr>"

definition rtcSetLocal :: "RTCSessionDescriptionInit \<Rightarrow> rtc \<Rightarrow> rtc option" where
  "rtcSetLocal d e =
     (case sdpType d of
        SdpOffer \<Rightarrow>
          if rtcSignaling e = Stable
          then Some (e\<lparr>rtcSignaling := HaveLocalOffer, rtcLocal := Some d\<rparr>) else None
      | SdpAnswer \<Rightarrow>
          if rtcSignaling e = HaveRemoteOffer
          then Some (e\<lparr>rtcSignaling := Stable, rtcLocal := Some d\<rparr>) else None
      | SdpRollback \<Rightarrow>
          if rtcSignaling e = HaveLocalOffer
          then Some (e\<lparr>rtcSignaling := Stable, rtcLocal := None\<rparr>)
          else if rtcSignaling e = HaveRemoteOffer
          then Some (e\<lparr>rtcSignaling := Stable, rtcRemote := None\<rparr>)
          else None
      | SdpPranswer \<Rightarrow> None)"

definition rtcSetRemote :: "RTCSessionDescriptionInit \<Rightarrow> rtc \<Rightarrow> rtc option" where
  "rtcSetRemote d e =
     (case sdpType d of
        SdpOffer \<Rightarrow>
          if rtcSignaling e = Stable
          then Some (e\<lparr>rtcSignaling := HaveRemoteOffer, rtcRemote := Some d\<rparr>) else None
      | SdpAnswer \<Rightarrow>
          if rtcSignaling e = HaveLocalOffer
          then Some (e\<lparr>rtcSignaling := Stable, rtcRemote := Some d\<rparr>) else None
      | _ \<Rightarrow> None)"

definition rtcAddIceCandidate :: "RTCIceCandidateInit \<Rightarrow> rtc \<Rightarrow> rtc option" where
  "rtcAddIceCandidate c e =
     (if rtcRemote e = None \<or> \<not> prefix ''candidate:'' c then None
      else Some (e\<lparr>rtcCandidates := rtcCandidates e @ [c]\<rparr>))"

definition rtcAddTrack :: "MediaStreamTrack \<Rightarrow> rtc \<Rightarrow> rtc option" where
  "rtcAddTrack t e =
     (if t \<in> set (rtcTracks e) then None else Some (e\<lparr>rtcTracks := rtcTracks e @ [t]\<rparr>))"

definition browser :: "rtc RTCPeerConnection" where
  "browser =
     \<lparr>newPeerConnection = freshRtc,
      connectionState = rtcConnection,
      signalingState = rtcSignaling,
      iceConnectionState = rtcIce,
      remoteDescription = rtcRemote,
      createDataChannel = (\<lambda>label e. Some e),
      createOffer = (\<lambda>e. Some (\<lparr>sdpType = SdpOffer, sdpText = ''offer''\<rparr>, e)),
      createAnswer = (\<lambda>e. if rtcSignaling e = HaveRemoteOffer
                           then Some (\<lparr>sdpType = SdpAnswer, sdpText = ''answer''\<rparr>, e)
                           else None),
      setLocalDescription = rtcSetLocal,
      setRemoteDescription = rtcSetRemote,
      addIceCandidate = rtcAddIceCandidate,
      addTrack = rtcAddTrack\<rparr>"

text \<open>
  The room of identity \<open>i\<close> once \<^verbatim>\<open>init\<close> has subscribed: the engine with the
  microphone and camera tracks that \<^verbatim>\<open>startMedia\<close> added (\<^verbatim>\<open>init\<close> then adds them a
  second time, which the engine refuses), the channel open, and the announcement loop
  running.
\<close>

definition readyRtc :: rtc where
  "readyRtc = freshRtc\<lparr>rtcTracks := [''audio'', ''video'']\<rparr>"

definition room :: "PeerIdentity \<Rightarrow> rtc session" where
  "room i =
     \<lparr>myId = i, peerConnection = Some readyRtc, channel = True, isInitiator = False,
      announceInterval = Some 1, negotiationTimeout = None, iceCandidatesQueue = [],
      localStream = Some [''audio'', ''video''], status = Waiting_for_Peer,
      statusMessage = ''Searching for peer...'', peerConnected = False,
      remoteSrcObject = False, messages = [], unreadCount = 0,
      showChatAtSubscribe = False,
      timers = [(0, 500, InitialAnnounce), (1, 2000, AnnounceTick)], nextTimerId = 2,
      sent = [],
      engineCalls = [(NewPeerConnection, True), (AddTrack ''audio'', True),
                     (AddTrack ''video'', True), (AddTrack ''audio'', False),
                     (AddTrack ''video'', False)]\<rparr>"

definition remoteOffer :: RTCSessionDescriptionInit where
  "remoteOffer = \<lparr>sdpType = SdpOffer, sdpText = ''remote offer''\<rparr>"

definition remoteAnswer :: RTCSessionDescriptionInit where
  "remoteAnswer = \<lparr>sdpType = SdpAnswer, sdpText = ''remote answer''\<rparr>"

section \<open>Observations on a run\<close>

text \<open>The candidates handed to \<^verbatim>\<open>addIceCandidate\<close>, in call order, accepted or not.\<close>

fun addedCandidates :: "(engine_call \<times> bool) list \<Rightarrow> RTCIceCandidateInit list" where
  "addedCandidates [] = []"
| "addedCandidates ((AddIceCandidate c, ok) # cs) = c # addedCandidates cs"
| "addedCandidates (_ # cs) = addedCandidates cs"

text \<open>The candidates carried by a list of envelopes, in order.\<close>

fun candidatesOf :: "SignalMessage list \<Rightarrow> RTCIceCandidateInit list" where
  "candidatesOf [] = []"
| "candidatesOf (p # ps) =
     (case candidate p of None \<Rightarrow> candidatesOf ps | Some c \<Rightarrow> c # candidatesOf ps)"

text \<open>The Offer envelopes a room has sent.\<close>

definition offersSent :: "'e session \<Rightarrow> SignalMessage list" where
  "offersSent s = filter (\<lambda>m. msgType m = Offer) (sent s)"

text \<open>What a room shows of its role: its identity, its initiator flag and the offers it sent.\<close>

definition followerView :: "'e session \<Rightarrow> PeerIdentity \<times> bool \<times> SignalMessage list" where
  "followerView s = (myId s, isInitiator s, offersSent s)"

text \<open>The state an outcome carries, thrown or not.\<close>

definition outcomeState :: "'e outcome \<Rightarrow> 'e session" where
  "outcomeState r = (case r of Inl (err, s) \<Rightarrow> s | Inr s \<Rightarrow> s)"

text \<open>The \<^verbatim>\<open>catch\<close> of \<^verbatim>\<open>handleSignalMessage\<close> applied to an outcome of its \<^verbatim>\<open>try\<close> body.\<close>

definition caught :: "'e RTCPeerConnection \<Rightarrow> SignalMessage \<Rightarrow> 'e outcome \<Rightarrow> 'e session" where
  "caught pc payload r =
     (case r of
        Inr s' \<Rightarrow> s'
      | Inl (err, s') \<Rightarrow>
          if msgType payload = Offer \<or> msgType payload = Answer
          then restartConnection pc s'
          else s')"

text \<open>
  The room once \<^verbatim>\<open>restartConnection\<close> has closed its engine and built the new one, the
  local tracks added; the status update and the announcement loop follow.
\<close>

definition rebuilt :: "'e RTCPeerConnection \<Rightarrow> 'e session \<Rightarrow> 'e session" where
  "rebuilt pc s =
     (let s2 = s\<lparr>peerConnection := Some (newPeerConnection pc),
                 engineCalls := engineCalls s
                   @ (case peerConnection s of None \<Rightarrow> [] | Some e \<Rightarrow> [(Close, True)])
                   @ [(NewPeerConnection, True)]\<rparr>
      in case localStream s of None \<Rightarrow> s2 | Some ts \<Rightarrow> addTracks pc ts s2)"

text \<open>
  The calls by which the offer branch applies a remote offer \<open>d\<close> to an engine \<open>e\<close>, and
  whether the engine accepts them.
\<close>

definition offerCalls :: "'e RTCPeerConnection \<Rightarrow> 'e \<Rightarrow> RTCSessionDescriptionInit \<Rightarrow> engine_call list" where
  "offerCalls pc e d =
     (if signalingState pc e \<noteq> Stable
      then [SetLocalDescription rollback, SetRemoteDescription d]
      else [SetRemoteDescription d])"

definition offerAccepted :: "'e RTCPeerConnection \<Rightarrow> 'e \<Rightarrow> RTCSessionDescriptionInit \<Rightarrow> bool" where
  "offerAccepted pc e d =
     (if signalingState pc e \<noteq> Stable
      then (case setLocalDescription pc rollback e of
              None \<Rightarrow> False
            | Some e1 \<Rightarrow> setRemoteDescription pc d e1 \<noteq> None)
      else setRemoteDescription pc d e \<noteq> None)"

section \<open>What the spec's words mean on the engine\<close>

text \<open>
  Applying a list of items to an engine strictly in list order, one at a time,
  continuing past the items the engine refuses (spec 4.4, \<^emph>\<open>drainInto\<close>; spec 4.2,
  re-attaching the local tracks): the engine that results, and the calls with their
  outcomes.
\<close>

fun applyEach :: "('a \<Rightarrow> 'e \<Rightarrow> 'e option) \<Rightarrow> 'a list \<Rightarrow> 'e \<Rightarrow> 'e" where
  "applyEach f [] e = e"
| "applyEach f (x # xs) e = applyEach f xs (case f x e of None \<Rightarrow> e | Some e' \<Rightarrow> e')"

fun callsOfEach ::
  "('a \<Rightarrow> engine_call) \<Rightarrow> ('a \<Rightarrow> 'e \<Rightarrow> 'e option) \<Rightarrow> 'a list \<Rightarrow> 'e
     \<Rightarrow> (engine_call \<times> bool) list" where
  "callsOfEach mk f [] e = []"
| "callsOfEach mk f (x # xs) e =
     (mk x, f x e \<noteq> None) # callsOfEach mk f xs (case f x e of None \<Rightarrow> e | Some e' \<Rightarrow> e')"

text \<open>The locally owned media tracks of a room.\<close>

definition localTracks :: "'e session \<Rightarrow> MediaStreamTrack list" where
  "localTracks s = (case localStream s of None \<Rightarrow> [] | Some ts \<Rightarrow> ts)"

text \<open>
  The engine left by applying a remote offer \<open>d\<close> to an engine \<open>e\<close>, rolling the local
  description back first when \<open>e\<close> is not stable; \<open>None\<close> when the engine refuses.
\<close>

definition offerApplied ::
  "'e RTCPeerConnection \<Rightarrow> 'e \<Rightarrow> RTCSessionDescriptionInit \<Rightarrow> 'e option" where
  "offerApplied pc e d =
     (if signalingState pc e \<noteq> Stable
      then (case setLocalDescription pc rollback e of
              None \<Rightarrow> None
            | Some e1 \<Rightarrow> setRemoteDescription pc d e1)
      else setRemoteDescription pc d e)"

text \<open>
  The answer created on an engine \<open>e\<close> and the engine left once it is the local
  description; \<open>None\<close> when the engine refuses either step.
\<close>

definition answered ::
  "'e RTCPeerConnection \<Rightarrow> 'e \<Rightarrow> (RTCSessionDescriptionInit \<times> 'e) option" where
  "answered pc e =
     (case createAnswer pc e of
        None \<Rightarrow> None
      | Some (answer, e1) \<Rightarrow>
          (case setLocalDescription pc answer e1 of
             None \<Rightarrow> None
           | Some e2 \<Rightarrow> Some (answer, e2)))"

text \<open>
  Whether every step of handling an Offer envelope goes through in a room with engine
  \<open>e\<close>: the description is present and applied, the queued candidates are handed over
  in order, the answer is created and set, and the channel is there to send it. The
  result is the answer and the engine the room ends with.
\<close>

definition offerCompletes ::
  "'e RTCPeerConnection \<Rightarrow> 'e session \<Rightarrow> 'e \<Rightarrow> SignalMessage
     \<Rightarrow> (RTCSessionDescriptionInit \<times> 'e) option" where
  "offerCompletes pc s e payload =
     (case sdp payload of
        None \<Rightarrow> None
      | Some d \<Rightarrow>
          (case offerApplied pc e d of
             None \<Rightarrow> None
           | Some e2 \<Rightarrow>
               if channel s
               then answered pc (applyEach (addIceCandidate pc) (iceCandidatesQueue s) e2)
               else None))"

section \<open>Sample rooms, envelopes and events\<close>

text \<open>The offer the reference engine creates.\<close>

definition localOffer :: RTCSessionDescriptionInit where
  "localOffer = \<lparr>sdpType = SdpOffer, sdpText = ''offer''\<rparr>"

text \<open>The answer the reference engine creates.\<close>

definition localAnswer :: RTCSessionDescriptionInit where
  "localAnswer = \<lparr>sdpType = SdpAnswer, sdpText = ''answer''\<rparr>"

text \<open>Envelopes from a peer \<open>i\<close>.\<close>

definition offerFrom :: "PeerIdentity \<Rightarrow> SignalMessage" where
  "offerFrom i = (mkSignal Offer i)\<lparr>sdp := Some remoteOffer\<rparr>"

definition answerFrom :: "PeerIdentity \<Rightarrow> SignalMessage" where
  "answerFrom i = (mkSignal Answer i)\<lparr>sdp := Some remoteAnswer\<rparr>"

definition candidateFrom :: "PeerIdentity \<Rightarrow> RTCIceCandidateInit \<Rightarrow> SignalMessage" where
  "candidateFrom i c = (mkSignal IceCandidate i)\<lparr>candidate := Some c\<rparr>"

text \<open>An Answer envelope that carries an offer description.\<close>

definition misplacedAnswer :: SignalMessage where
  "misplacedAnswer = (mkSignal Answer ''b1'')\<lparr>sdp := Some remoteOffer\<rparr>"

definition hello :: ChatMessage where
  "hello = \<lparr>chat_id = ''k3x9'', chat_text = ''hello'', chat_senderId = ''a9'',
            chat_timestamp = 1700000000000, chat_isSystem = None\<rparr>"

definition helloEnvelope :: SignalMessage where
  "helloEnvelope = (mkSignal Chat ''a9'')\<lparr>chatMessage := Some hello\<rparr>"

definition threeCandidates :: "SignalMessage list" where
  "threeCandidates =
     [candidateFrom ''b1'' ''candidate:1'', candidateFrom ''b1'' ''bogus'',
      candidateFrom ''b1'' ''candidate:3'']"

text \<open>A room with one candidate queued.\<close>

definition staleRoom :: "rtc session" where
  "staleRoom = (room ''a9'')\<lparr>iceCandidatesQueue := [''candidate:1'']\<rparr>"

text \<open>A room with three candidates queued, the second one malformed.\<close>

definition queuedRoom :: "rtc session" where
  "queuedRoom = (room ''a9'')\<lparr>iceCandidatesQueue := [''candidate:1'', ''bogus'', ''candidate:3'']\<rparr>"

text \<open>
  A room of identity b1 whose engine is in connection state \<open>c\<close>, with the announcement
  interval and a negotiation timer both pending.
\<close>

definition roomIn :: "RTCPeerConnectionState \<Rightarrow> rtc session" where
  "roomIn c =
     (room ''b1'')\<lparr>peerConnection := Some (readyRtc\<lparr>rtcConnection := c\<rparr>),
                  negotiationTimeout := Some 2,
                  timers := [(0, 500, InitialAnnounce), (1, 2000, AnnounceTick),
                             (2, 10000, NegotiationCheck)],
                  nextTimerId := 3\<rparr>"

text \<open>An engine, and a room, with a remote description already set.\<close>

definition describedRtc :: rtc where
  "describedRtc = readyRtc\<lparr>rtcSignaling := HaveRemoteOffer, rtcRemote := Some remoteOffer\<rparr>"

text \<open>The engine of a room that has applied a remote offer and set its answer.\<close>

definition answeredRtc :: rtc where
  "answeredRtc = describedRtc\<lparr>rtcSignaling := Stable, rtcLocal := Some localAnswer\<rparr>"

definition describedRoom :: "rtc session" where
  "describedRoom = (room ''a9'')\<lparr>peerConnection := Some describedRtc\<rparr>"

text \<open>The room of identity a9 after it has sent an offer of its own.\<close>

definition glareRoom :: "rtc session" where
  "glareRoom = initiateConnection browser (room ''a9'')"

text \<open>The room of identity b1 after it has sent its offer.\<close>

definition callingRoom :: "rtc session" where
  "callingRoom = initiateConnection browser (room ''b1'')"

text \<open>What the room of identity a9 may live through while b1 is its only peer.\<close>

definition followerEvents :: "rtc event list" where
  "followerEvents =
     [Receive (mkSignal Announce ''b1''), TimerFires 0, TimerFires 1,
      Receive (mkSignal Announce ''b1''), Receive (candidateFrom ''b1'' ''candidate:1''),
      Receive (offerFrom ''b1''), EngineChange (describedRtc\<lparr>rtcConnection := PcFailed\<rparr>),
      TimerFires 2, Receive (mkSignal Announce ''b1'')]"

text \<open>
  The room of identity a9 once it has answered the offer of b1 and its engine has
  reported the connection state \<open>connected\<close>.
\<close>

definition connectedRoom :: "rtc session" where
  "connectedRoom =
     run browser
       [Receive (offerFrom ''b1''),
        EngineChange (answeredRtc\<lparr>rtcConnection := PcConnected, rtcIce := IceConnected\<rparr>)]
       (room ''a9'')"

text \<open>The reference engine of a browser in which \<^verbatim>\<open>createAnswer\<close> always fails.\<close>

definition answerlessBrowser :: "rtc RTCPeerConnection" where
  "answerlessBrowser = browser\<lparr>createAnswer := (\<lambda>e. None)\<rparr>"

text \<open>An Offer envelope that carries no description.\<close>

definition emptyOffer :: SignalMessage where
  "emptyOffer = mkSignal Offer ''b1''"

section \<open>Properties: calls on the engine and the local tracks\<close>

lemma addedCandidates_append [simp]:
  "addedCandidates (xs @ ys) = addedCandidates xs @ addedCandidates ys"
  by (induction xs rule: addedCandidates.induct) simp_all

lemma callEngine_frame [simp]:
  "myId (snd (callEngine c f s)) = myId s"
  "isInitiator (snd (callEngine c f s)) = isInitiator s"
  "sent (snd (callEngine c f s)) = sent s"
  "channel (snd (callEngine c f s)) = channel s"
  "iceCandidatesQueue (snd (callEngine c f s)) = iceCandidatesQueue s"
  "timers (snd (callEngine c f s)) = timers s"
  "nextTimerId (snd (callEngine c f s)) = nextTimerId s"
  "announceInterval (snd (callEngine c f s)) = announceInterval s"
  "negotiationTimeout (snd (callEngine c f s)) = negotiationTimeout s"
  "localStream (snd (callEngine c f s)) = localStream s"
  "status (snd (callEngine c f s)) = status s"
  "statusMessage (snd (callEngine c f s)) = statusMessage s"
  by (simp_all add: callEngine_def split: option.splits)

lemma callEngine_engine [simp]:
  "(peerConnection (snd (callEngine c f s)) = None) = (peerConnection s = None)"
  by (simp add: callEngine_def split: option.splits)

lemma callEngine_calls:
  "engineCalls (snd (callEngine c f s)) =
     engineCalls s @ (case peerConnection s of None \<Rightarrow> [] | Some e \<Rightarrow> [(c, f e \<noteq> None)])"
  by (simp add: callEngine_def split: option.splits)

lemma callCreate_frame [simp]:
  "myId (snd (callCreate c f s)) = myId s"
  "isInitiator (snd (callCreate c f s)) = isInitiator s"
  "sent (snd (callCreate c f s)) = sent s"
  "channel (snd (callCreate c f s)) = channel s"
  "iceCandidatesQueue (snd (callCreate c f s)) = iceCandidatesQueue s"
  "timers (snd (callCreate c f s)) = timers s"
  "nextTimerId (snd (callCreate c f s)) = nextTimerId s"
  "announceInterval (snd (callCreate c f s)) = announceInterval s"
  "negotiationTimeout (snd (callCreate c f s)) = negotiationTimeout s"
  "localStream (snd (callCreate c f s)) = localStream s"
  "status (snd (callCreate c f s)) = status s"
  "statusMessage (snd (callCreate c f s)) = statusMessage s"
  by (simp_all add: callCreate_def split: option.splits)

lemma callCreate_engine [simp]:
  "(peerConnection (snd (callCreate c f s)) = None) = (peerConnection s = None)"
  by (simp add: callCreate_def split: option.splits)

lemma callCreate_calls:
  "engineCalls (snd (callCreate c f s)) =
     engineCalls s @ (case peerConnection s of None \<Rightarrow> [] | Some e \<Rightarrow> [(c, f e \<noteq> None)])"
  by (simp add: callCreate_def split: option.splits)

lemma addTracks_frame [simp]:
  "myId (addTracks pc ts s) = myId s"
  "isInitiator (addTracks pc ts s) = isInitiator s"
  "sent (addTracks pc ts s) = sent s"
  "channel (addTracks pc ts s) = channel s"
  "iceCandidatesQueue (addTracks pc ts s) = iceCandidatesQueue s"
  "timers (addTracks pc ts s) = timers s"
  "nextTimerId (addTracks pc ts s) = nextTimerId s"
  "announceInterval (addTracks pc ts s) = announceInterval s"
  "negotiationTimeout (addTracks pc ts s) = negotiationTimeout s"
  "localStream (addTracks pc ts s) = localStream s"
  "status (addTracks pc ts s) = status s"
  "statusMessage (addTracks pc ts s) = statusMessage s"
  unfolding addTracks_def by (induction ts arbitrary: s; simp)+

lemma addTracks_engine [simp]:
  "(peerConnection (addTracks pc ts s) = None) = (peerConnection s = None)"
  unfolding addTracks_def by (induction ts arbitrary: s) simp_all

lemma addTracks_calls:
  "\<exists>cs. engineCalls (addTracks pc ts s) = engineCalls s @ cs
        \<and> set (map fst cs) \<subseteq> AddTrack ` set ts"
  unfolding addTracks_def
proof (induction ts arbitrary: s)
  case Nil
  then show ?case by simp
next
  case (Cons t ts)
  obtain cs where cs:
    "engineCalls (foldl (\<lambda>s' t. snd (callEngine (AddTrack t) (addTrack pc t) s'))
        (snd (callEngine (AddTrack t) (addTrack pc t) s)) ts)
       = engineCalls (snd (callEngine (AddTrack t) (addTrack pc t) s)) @ cs"
    "set (map fst cs) \<subseteq> AddTrack ` set ts"
    using Cons.IH by blast
  then show ?case
    by (cases "peerConnection s") (auto simp: callEngine_calls)
qed

section \<open>Self-echo and chat\<close>

text \<open>
  Claim C9. An envelope whose \<open>senderId\<close> is the local identity leaves the whole
  session as it was: no call on the engine, no status change, no change to the queue
  or the timers, nothing sent and no message appended.
\<close>

theorem self_echo_is_discarded:
  "senderId payload = myId s \<Longrightarrow> handleSignalMessage pc payload s = s"
  by (simp add: handleSignalMessage_def)

theorem self_echo_is_discarded_witness:
  "senderId ((mkSignal Offer ''b1'')\<lparr>sdp := Some remoteOffer\<rparr>) = myId (room ''b1'') \<and>
   handleSignalMessage browser ((mkSignal Offer ''b1'')\<lparr>sdp := Some remoteOffer\<rparr>) (room ''b1'')
     = room ''b1''"
proof
  show h: "senderId ((mkSignal Offer ''b1'')\<lparr>sdp := Some remoteOffer\<rparr>) = myId (room ''b1'')"
    by (simp add: mkSignal_def room_def)
  show "handleSignalMessage browser ((mkSignal Offer ''b1'')\<lparr>sdp := Some remoteOffer\<rparr>)
          (room ''b1'') = room ''b1''"
    by (rule self_echo_is_discarded [OF h])
qed

text \<open>
  Claim C10. A chat envelope whose message id already occurs in the message list
  leaves the list unchanged, so the same chat envelope delivered twice gives the
  message list of a single delivery.
\<close>

theorem chat_delivery_idempotent:
  assumes "msgType payload = Chat" and "chatMessage payload = Some cm"
  shows "(list_ex (\<lambda>m. chat_id m = chat_id cm) (messages s)
            \<longrightarrow> messages (handleSignalMessage pc payload s) = messages s)
         \<and> messages (handleSignalMessage pc payload (handleSignalMessage pc payload s))
             = messages (handleSignalMessage pc payload s)"
  using assms
  by (auto simp: handleSignalMessage_def receiveChat_def Let_def list_ex_iff)

theorem chat_delivery_idempotent_witness:
  "msgType helloEnvelope = Chat \<and> chatMessage helloEnvelope = Some hello
   \<and> list_ex (\<lambda>m. chat_id m = chat_id hello) (messages ((room ''b1'')\<lparr>messages := [hello]\<rparr>))
   \<and> messages (handleSignalMessage browser helloEnvelope ((room ''b1'')\<lparr>messages := [hello]\<rparr>))
       = [hello]
   \<and> messages (handleSignalMessage browser helloEnvelope
                 (handleSignalMessage browser helloEnvelope (room ''b1'')))
       = messages (handleSignalMessage browser helloEnvelope (room ''b1''))
   \<and> messages (handleSignalMessage browser helloEnvelope (room ''b1'')) = [hello]"
proof -
  have t: "msgType helloEnvelope = Chat" and c: "chatMessage helloEnvelope = Some hello"
    by (simp_all add: helloEnvelope_def mkSignal_def)
  have d: "list_ex (\<lambda>m. chat_id m = chat_id hello)
             (messages ((room ''b1'')\<lparr>messages := [hello]\<rparr>))"
    by simp
  note th = chat_delivery_idempotent [OF t c, of _ browser]
  have a: "messages (handleSignalMessage browser helloEnvelope
                       ((room ''b1'')\<lparr>messages := [hello]\<rparr>)) = [hello]"
    using th [of "(room ''b1'')\<lparr>messages := [hello]\<rparr>"] d by simp
  have b: "messages (handleSignalMessage browser helloEnvelope
                 (handleSignalMessage browser helloEnvelope (room ''b1'')))
       = messages (handleSignalMessage browser helloEnvelope (room ''b1''))"
    using th [of "room ''b1''"] by blast
  have e: "messages (handleSignalMessage browser helloEnvelope (room ''b1'')) = [hello]"
    by (simp add: handleSignalMessage_def helloEnvelope_def mkSignal_def room_def
        receiveChat_def)
  show ?thesis using t c d a b e by blast
qed

section \<open>Properties: announcing and restart\<close>

lemma addedCandidates_none:
  "\<forall>x \<in> set cs. \<forall>c. fst x \<noteq> AddIceCandidate c \<Longrightarrow> addedCandidates cs = []"
  by (induction cs rule: addedCandidates.induct) auto

lemma stopAnnouncing_eq:
  "stopAnnouncing s =
     s\<lparr>timers := filter (\<lambda>t. Some (fst t) \<noteq> announceInterval s) (timers s),
       announceInterval := None\<rparr>"
  by (cases "announceInterval s") (simp_all add: stopAnnouncing_def clearTimer_def)

lemma startAnnouncementLoop_eq:
  "startAnnouncementLoop s =
     s\<lparr>timers := filter (\<lambda>t. Some (fst t) \<noteq> announceInterval s) (timers s)
                   @ [(nextTimerId s, 500, InitialAnnounce),
                      (Suc (nextTimerId s), 2000, AnnounceTick)],
       nextTimerId := Suc (Suc (nextTimerId s)),
       announceInterval := Some (Suc (nextTimerId s))\<rparr>"
  by (cases "announceInterval s")
     (simp_all add: startAnnouncementLoop_def clearTimer_def setTimer_def Let_def)

lemma createPeerConnection_frame [simp]:
  "myId (createPeerConnection pc s) = myId s"
  "isInitiator (createPeerConnection pc s) = isInitiator s"
  "sent (createPeerConnection pc s) = sent s"
  "channel (createPeerConnection pc s) = channel s"
  "iceCandidatesQueue (createPeerConnection pc s) = iceCandidatesQueue s"
  "timers (createPeerConnection pc s) = timers s"
  "nextTimerId (createPeerConnection pc s) = nextTimerId s"
  "announceInterval (createPeerConnection pc s) = announceInterval s"
  "negotiationTimeout (createPeerConnection pc s) = negotiationTimeout s"
  "localStream (createPeerConnection pc s) = localStream s"
  "peerConnection (createPeerConnection pc s) \<noteq> None"
  by (simp_all add: createPeerConnection_def split: option.splits)

lemma restartConnection_eq:
  "restartConnection pc s =
     startAnnouncementLoop
       ((rebuilt pc s)\<lparr>status := Waiting_for_Peer, statusMessage := ''Retrying connection...''\<rparr>)"
  by (cases "peerConnection s"; cases "localStream s")
     (simp_all add: restartConnection_def rebuilt_def createPeerConnection_def Let_def)

lemma rebuilt_frame [simp]:
  "myId (rebuilt pc s) = myId s"
  "isInitiator (rebuilt pc s) = isInitiator s"
  "sent (rebuilt pc s) = sent s"
  "channel (rebuilt pc s) = channel s"
  "iceCandidatesQueue (rebuilt pc s) = iceCandidatesQueue s"
  "timers (rebuilt pc s) = timers s"
  "nextTimerId (rebuilt pc s) = nextTimerId s"
  "announceInterval (rebuilt pc s) = announceInterval s"
  "negotiationTimeout (rebuilt pc s) = negotiationTimeout s"
  "localStream (rebuilt pc s) = localStream s"
  by (simp_all add: rebuilt_def Let_def split: option.splits)

lemma rebuilt_engine [simp]: "peerConnection (rebuilt pc s) \<noteq> None"
  by (simp add: rebuilt_def Let_def split: option.splits del: not_None_eq)

lemma rebuilt_calls:
  "\<exists>cs. engineCalls (rebuilt pc s) =
          engineCalls s @ (case peerConnection s of None \<Rightarrow> [] | Some e \<Rightarrow> [(Close, True)])
            @ (NewPeerConnection, True) # cs
        \<and> (\<forall>x \<in> set cs. \<exists>t. fst x = AddTrack t)"
proof (cases "localStream s")
  case None
  then show ?thesis by (simp add: rebuilt_def)
next
  case (Some ts)
  let ?s2 = "s\<lparr>peerConnection := Some (newPeerConnection pc),
                 engineCalls := engineCalls s
                   @ (case peerConnection s of None \<Rightarrow> [] | Some e \<Rightarrow> [(Close, True)])
                   @ [(NewPeerConnection, True)]\<rparr>"
  obtain cs where "engineCalls (addTracks pc ts ?s2) = engineCalls ?s2 @ cs"
    "set (map fst cs) \<subseteq> AddTrack ` set ts"
    using addTracks_calls by blast
  then show ?thesis using Some by (auto simp: rebuilt_def Let_def)
qed

lemma restartConnection_frame [simp]:
  "myId (restartConnection pc s) = myId s"
  "isInitiator (restartConnection pc s) = isInitiator s"
  "sent (restartConnection pc s) = sent s"
  "channel (restartConnection pc s) = channel s"
  "iceCandidatesQueue (restartConnection pc s) = iceCandidatesQueue s"
  "negotiationTimeout (restartConnection pc s) = negotiationTimeout s"
  "localStream (restartConnection pc s) = localStream s"
  "peerConnection (restartConnection pc s) \<noteq> None"
  "status (restartConnection pc s) = Waiting_for_Peer"
  "statusMessage (restartConnection pc s) = ''Retrying connection...''"
  "engineCalls (restartConnection pc s) = engineCalls (rebuilt pc s)"
  "peerConnection (restartConnection pc s) = peerConnection (rebuilt pc s)"
  by (simp_all add: restartConnection_eq startAnnouncementLoop_eq)

lemma restartConnection_timers:
  "timers (restartConnection pc s) =
     filter (\<lambda>t. Some (fst t) \<noteq> announceInterval s) (timers s)
       @ [(nextTimerId s, 500, InitialAnnounce), (Suc (nextTimerId s), 2000, AnnounceTick)]"
  "announceInterval (restartConnection pc s) = Some (Suc (nextTimerId s))"
  "nextTimerId (restartConnection pc s) = Suc (Suc (nextTimerId s))"
  by (simp_all add: restartConnection_eq startAnnouncementLoop_eq)

lemma restartConnection_prefix:
  "prefix (engineCalls s) (engineCalls (restartConnection pc s))"
  using rebuilt_calls [of pc s] by (auto simp: prefix_def)

section \<open>Properties: draining the candidate queue\<close>

lemma drainQueue_Nil: "iceCandidatesQueue s = [] \<Longrightarrow> drainQueue pc s = s"
  by (simp add: drainQueue.simps)

lemma drainQueue_Cons:
  "iceCandidatesQueue s = c # cs \<Longrightarrow>
   drainQueue pc s =
     drainQueue pc (snd (callEngine (AddIceCandidate c) (addIceCandidate pc c)
                           (s\<lparr>iceCandidatesQueue := cs\<rparr>)))"
  by (subst drainQueue.simps) simp

lemma drainQueue_frame [simp]:
  "myId (drainQueue pc s) = myId s"
  "isInitiator (drainQueue pc s) = isInitiator s"
  "sent (drainQueue pc s) = sent s"
  "channel (drainQueue pc s) = channel s"
  "timers (drainQueue pc s) = timers s"
  "nextTimerId (drainQueue pc s) = nextTimerId s"
  "announceInterval (drainQueue pc s) = announceInterval s"
  "negotiationTimeout (drainQueue pc s) = negotiationTimeout s"
  "localStream (drainQueue pc s) = localStream s"
  "status (drainQueue pc s) = status s"
  "statusMessage (drainQueue pc s) = statusMessage s"
  "iceCandidatesQueue (drainQueue pc s) = []"
  "(peerConnection (drainQueue pc s) = None) = (peerConnection s = None)"
  by (induction pc s rule: drainQueue.induct;
      subst drainQueue.simps; simp split: list.splits)+

lemma drainQueue_calls:
  "peerConnection s \<noteq> None \<Longrightarrow>
   map fst (engineCalls (drainQueue pc s)) =
     map fst (engineCalls s) @ map AddIceCandidate (iceCandidatesQueue s)"
proof (induction pc s rule: drainQueue.induct)
  case (1 pc s)
  show ?case
  proof (cases "iceCandidatesQueue s")
    case Nil
    then show ?thesis by (simp add: drainQueue_Nil)
  next
    case (Cons c cs)
    let ?s1 = "snd (callEngine (AddIceCandidate c) (addIceCandidate pc c)
                      (s\<lparr>iceCandidatesQueue := cs\<rparr>))"
    have "map fst (engineCalls (drainQueue pc ?s1)) =
            map fst (engineCalls ?s1) @ map AddIceCandidate (iceCandidatesQueue ?s1)"
      using "1.IH" [OF Cons] "1.prems" by simp
    then show ?thesis
      using Cons "1.prems" by (auto simp: drainQueue_Cons [OF Cons] callEngine_calls)
  qed
qed

lemma drainQueue_prefix: "prefix (engineCalls s) (engineCalls (drainQueue pc s))"
proof (induction pc s rule: drainQueue.induct)
  case (1 pc s)
  show ?case
  proof (cases "iceCandidatesQueue s")
    case Nil
    then show ?thesis by (simp add: drainQueue_Nil)
  next
    case (Cons c cs)
    have "prefix (engineCalls s)
            (engineCalls (snd (callEngine (AddIceCandidate c) (addIceCandidate pc c)
                                 (s\<lparr>iceCandidatesQueue := cs\<rparr>))))"
      by (simp add: callEngine_calls)
    then show ?thesis
      using "1.IH" [OF Cons] by (simp add: drainQueue_Cons [OF Cons])
  qed
qed

section \<open>The candidate queue across a restart\<close>

text \<open>
  Claim C4, as amended. \<^verbatim>\<open>restartConnection\<close> closes the engine and builds a new one but
  does not touch \<^verbatim>\<open>iceCandidatesQueue\<close>: the queue after the restart is the queue before
  it, so a candidate enqueued before the restart is still queued for the new engine.
\<close>

theorem restart_keeps_queue:
  "iceCandidatesQueue (restartConnection pc s) = iceCandidatesQueue s"
  by simp

text \<open>
  The claim as stated fails: a candidate queued in a room survives the restart, and the
  next Offer hands it to the engine built by that restart.
\<close>

theorem restart_empties_queue_counterexample:
  "iceCandidatesQueue (restartConnection browser staleRoom) = [''candidate:1'']
   \<and> map_option rtcCandidates
       (peerConnection (handleSignalMessage browser (offerFrom ''b1'')
                          (restartConnection browser staleRoom)))
     = Some [''candidate:1'']"
  by (simp add: handleSignalMessage_def signalBody_def processOffer_def applyRemoteOffer_def
     answerRemoteOffer_def restartConnection_eq startAnnouncementLoop_eq rebuilt_def addTracks_def
     stopAnnouncing_eq
     offerFrom_def mkSignal_def remoteOffer_def staleRoom_def room_def browser_def
     callEngine_def callCreate_def send_def drainQueue_Nil drainQueue_Cons
     rtcSetRemote_def rtcSetLocal_def rtcAddIceCandidate_def rtcAddTrack_def readyRtc_def
     freshRtc_def Let_def)

section \<open>Engine state changes\<close>

lemma fireTimer_DelayedRestart:
  "find (\<lambda>t. fst t = i) (timers s) = Some (j, d, DelayedRestart) \<Longrightarrow>
   fireTimer pc i s = restartConnection pc (clearTimer i s)"
  by (simp add: fireTimer_def)

lemma fireTimer_NegotiationCheck:
  "find (\<lambda>t. fst t = i) (timers s) = Some (j, d, NegotiationCheck) \<Longrightarrow>
   fireTimer pc i s = negotiationCheck pc (clearTimer i s)"
  by (simp add: fireTimer_def)

lemma find_fresh:
  "i \<notin> fst ` set ts \<Longrightarrow> find (\<lambda>t. fst t = i) (ts @ [(i, d, cb)]) = Some (i, d, cb)"
  by (induction ts) auto




section \<open>Properties: the handlers on the engine\<close>

lemma drainQueue_exact:
  "peerConnection s = Some e \<Longrightarrow>
   drainQueue pc s =
     s\<lparr>iceCandidatesQueue := [],
       peerConnection := Some (applyEach (addIceCandidate pc) (iceCandidatesQueue s) e),
       engineCalls := engineCalls s
         @ callsOfEach AddIceCandidate (addIceCandidate pc) (iceCandidatesQueue s) e\<rparr>"
proof (induction pc s arbitrary: e rule: drainQueue.induct)
  case (1 pc s)
  show ?case
  proof (cases "iceCandidatesQueue s")
    case Nil
    then show ?thesis using "1.prems" by (simp add: drainQueue_Nil)
  next
    case (Cons c cs)
    let ?s1 = "snd (callEngine (AddIceCandidate c) (addIceCandidate pc c)
                      (s\<lparr>iceCandidatesQueue := cs\<rparr>))"
    let ?e1 = "case addIceCandidate pc c e of None \<Rightarrow> e | Some e' \<Rightarrow> e'"
    have p1: "peerConnection ?s1 = Some ?e1"
      using "1.prems" by (simp add: callEngine_def split: option.splits)
    have s1: "?s1 = s\<lparr>iceCandidatesQueue := cs, peerConnection := Some ?e1,
                      engineCalls := engineCalls s
                        @ [(AddIceCandidate c, addIceCandidate pc c e \<noteq> None)]\<rparr>"
      using "1.prems" by (simp add: callEngine_def split: option.splits)
    show ?thesis
      unfolding drainQueue_Cons [OF Cons] "1.IH" [OF Cons p1]
      by (simp add: s1 Cons del: not_None_eq)
  qed
qed

lemma addTracks_exact:
  "peerConnection s = Some e \<Longrightarrow>
   addTracks pc ts s =
     s\<lparr>peerConnection := Some (applyEach (addTrack pc) ts e),
       engineCalls := engineCalls s @ callsOfEach AddTrack (addTrack pc) ts e\<rparr>"
  unfolding addTracks_def
proof (induction ts arbitrary: s e)
  case Nil
  then show ?case by simp
next
  case (Cons t ts)
  let ?s1 = "snd (callEngine (AddTrack t) (addTrack pc t) s)"
  let ?e1 = "case addTrack pc t e of None \<Rightarrow> e | Some e' \<Rightarrow> e'"
  have p1: "peerConnection ?s1 = Some ?e1"
    using Cons.prems by (simp add: callEngine_def split: option.splits)
  have s1: "?s1 = s\<lparr>peerConnection := Some ?e1,
                    engineCalls := engineCalls s @ [(AddTrack t, addTrack pc t e \<noteq> None)]\<rparr>"
    using Cons.prems by (simp add: callEngine_def split: option.splits)
  show ?case
    using Cons.IH [OF p1] by (simp add: s1 del: not_None_eq)
qed

lemma restartConnection_exact:
  "restartConnection pc s =
     s\<lparr>peerConnection := Some (applyEach (addTrack pc) (localTracks s) (newPeerConnection pc)),
       engineCalls := engineCalls s
         @ (case peerConnection s of None \<Rightarrow> [] | Some e \<Rightarrow> [(Close, True)])
         @ (NewPeerConnection, True)
           # callsOfEach AddTrack (addTrack pc) (localTracks s) (newPeerConnection pc),
       status := Waiting_for_Peer, statusMessage := ''Retrying connection...'',
       timers := filter (\<lambda>t. Some (fst t) \<noteq> announceInterval s) (timers s)
                   @ [(nextTimerId s, 500, InitialAnnounce),
                      (Suc (nextTimerId s), 2000, AnnounceTick)],
       nextTimerId := Suc (Suc (nextTimerId s)),
       announceInterval := Some (Suc (nextTimerId s))\<rparr>"
proof (cases "localStream s")
  case None
  then show ?thesis
    by (simp add: restartConnection_eq startAnnouncementLoop_eq rebuilt_def localTracks_def)
next
  case (Some ts)
  let ?s2 = "s\<lparr>peerConnection := Some (newPeerConnection pc),
                 engineCalls := engineCalls s
                   @ (case peerConnection s of None \<Rightarrow> [] | Some e \<Rightarrow> [(Close, True)])
                   @ [(NewPeerConnection, True)]\<rparr>"
  have "addTracks pc ts ?s2 =
          ?s2\<lparr>peerConnection := Some (applyEach (addTrack pc) ts (newPeerConnection pc)),
              engineCalls := engineCalls ?s2
                @ callsOfEach AddTrack (addTrack pc) ts (newPeerConnection pc)\<rparr>"
    by (rule addTracks_exact) simp
  then show ?thesis
    using Some
    by (simp add: restartConnection_eq startAnnouncementLoop_eq rebuilt_def localTracks_def Let_def)
qed

section \<open>Properties: initiating\<close>

lemma initiateConnection_accepted:
  assumes "peerConnection s = Some e"
      and "createDataChannel pc ''keepalive'' e = Some e1"
      and "createOffer pc e1 = Some (offer, e2)"
      and "setLocalDescription pc offer e2 = Some e3"
      and "channel s"
  shows "sent (initiateConnection pc s) = sent s @ [(mkSignal Offer (myId s))\<lparr>sdp := Some offer\<rparr>]"
    and "negotiationTimeout (initiateConnection pc s) = Some (nextTimerId s)"
    and "timers (initiateConnection pc s) =
           filter (\<lambda>t. Some (fst t) \<noteq> announceInterval s \<and> Some (fst t) \<noteq> negotiationTimeout s)
             (timers s) @ [(nextTimerId s, 10000, NegotiationCheck)]"
    and "peerConnection (initiateConnection pc s) = Some e3"
    and "engineCalls (initiateConnection pc s) =
           engineCalls s @ [(CreateDataChannel ''keepalive'', True), (CreateOffer, True),
                            (SetLocalDescription offer, True)]"
  using assms
  by (cases "negotiationTimeout s";
      simp add: initiateConnection_def stopAnnouncing_eq callEngine_def callCreate_def
        send_def setTimer_def clearTimer_def Let_def conj_commute)+

lemma initiateConnection_frame [simp]:
  "myId (initiateConnection pc s) = myId s"
  "iceCandidatesQueue (initiateConnection pc s) = iceCandidatesQueue s"
  "channel (initiateConnection pc s) = channel s"
  by (simp_all add: initiateConnection_def stopAnnouncing_eq split_beta send_def setTimer_def
      clearTimer_def Let_def split: option.splits)

lemma initiateConnection_engine [simp]:
  "(peerConnection (initiateConnection pc s) = None) = (peerConnection s = None)"
proof (cases "peerConnection s")
  case None
  then show ?thesis by (simp add: initiateConnection_def)
next
  case (Some e)
  then show ?thesis
    by (simp add: initiateConnection_def stopAnnouncing_eq split_beta send_def setTimer_def
        clearTimer_def Let_def split: option.split del: not_None_eq)
qed

lemma initiateConnection_isInitiator:
  "peerConnection s \<noteq> None \<Longrightarrow> isInitiator (initiateConnection pc s)"
  by (auto simp add: initiateConnection_def stopAnnouncing_eq split_beta send_def setTimer_def
      clearTimer_def Let_def split: option.splits)

section \<open>The negotiation timer\<close>

lemma negotiationCheck_restart:
  "peerConnection s = Some e \<Longrightarrow> connectionState pc e \<noteq> PcConnected \<Longrightarrow>
   iceConnectionState pc e \<noteq> IceConnected \<Longrightarrow>
   negotiationCheck pc s = restartConnection pc s"
  by (simp add: negotiationCheck_def)

lemma negotiationCheck_connected:
  "peerConnection s = Some e \<Longrightarrow>
   connectionState pc e = PcConnected \<or> iceConnectionState pc e = IceConnected \<Longrightarrow>
   negotiationCheck pc s = s"
  by (auto simp add: negotiationCheck_def)

lemma clearTimer_frame [simp]:
  "myId (clearTimer i s) = myId s"
  "peerConnection (clearTimer i s) = peerConnection s"
  "isInitiator (clearTimer i s) = isInitiator s"
  "sent (clearTimer i s) = sent s"
  "channel (clearTimer i s) = channel s"
  "iceCandidatesQueue (clearTimer i s) = iceCandidatesQueue s"
  "nextTimerId (clearTimer i s) = nextTimerId s"
  "announceInterval (clearTimer i s) = announceInterval s"
  "negotiationTimeout (clearTimer i s) = negotiationTimeout s"
  "localStream (clearTimer i s) = localStream s"
  "engineCalls (clearTimer i s) = engineCalls s"
  "timers (clearTimer i s) = filter (\<lambda>t. fst t \<noteq> i) (timers s)"
  by (simp_all add: clearTimer_def)

lemma restartConnection_rebuilds:
  "peerConnection s = Some e \<Longrightarrow>
   prefix (engineCalls s @ [(Close, True), (NewPeerConnection, True)])
     (engineCalls (restartConnection pc s))"
  using rebuilt_calls [of pc s] by (auto simp: prefix_def)



section \<open>Properties: the offer branch\<close>

lemma handleSignalMessage_signal:
  "senderId p \<noteq> myId s \<Longrightarrow> msgType p \<noteq> Chat \<Longrightarrow> peerConnection s \<noteq> None \<Longrightarrow>
   handleSignalMessage pc p s = caught pc p (signalBody pc p s)"
  by (simp add: handleSignalMessage_def caught_def del: not_None_eq)

lemma caught_calls:
  "\<exists>cs. engineCalls (caught pc p r) = engineCalls (outcomeState r) @ cs
        \<and> (\<forall>x \<in> set cs. \<forall>c. fst x \<noteq> AddIceCandidate c)"
proof (cases r)
  case (Inl x)
  obtain err s' where x: "x = (err, s')" by (cases x)
  obtain cs where "engineCalls (rebuilt pc s') =
          engineCalls s' @ (case peerConnection s' of None \<Rightarrow> [] | Some e \<Rightarrow> [(Close, True)])
            @ (NewPeerConnection, True) # cs" "\<forall>x \<in> set cs. \<exists>t. fst x = AddTrack t"
    using rebuilt_calls by blast
  then have "engineCalls (rebuilt pc s') =
          engineCalls s' @ ((case peerConnection s' of None \<Rightarrow> [] | Some e \<Rightarrow> [(Close, True)])
            @ (NewPeerConnection, True) # cs)
        \<and> (\<forall>x \<in> set ((case peerConnection s' of None \<Rightarrow> [] | Some e \<Rightarrow> [(Close, True)])
            @ (NewPeerConnection, True) # cs). \<forall>c. fst x \<noteq> AddIceCandidate c)"
    by (auto split: option.splits)
  then show ?thesis
    using Inl x by (auto simp: caught_def outcomeState_def)
next
  case (Inr s')
  then show ?thesis by (simp add: caught_def outcomeState_def)
qed

lemma caught_frame [simp]:
  "iceCandidatesQueue (caught pc p r) = iceCandidatesQueue (outcomeState r)"
  "myId (caught pc p r) = myId (outcomeState r)"
  "sent (caught pc p r) = sent (outcomeState r)"
  "isInitiator (caught pc p r) = isInitiator (outcomeState r)"
  "(peerConnection (caught pc p r) = None) = (peerConnection (outcomeState r) = None \<and>
      (\<forall>err s'. r = Inl (err, s') \<longrightarrow> msgType p \<noteq> Offer \<and> msgType p \<noteq> Answer))"
  by (auto simp: caught_def outcomeState_def split: sum.splits simp del: not_None_eq)

lemma answerRemoteOffer_calls:
  assumes e: "peerConnection s = Some e"
  shows "\<exists>cs. engineCalls (outcomeState (answerRemoteOffer pc s)) =
                engineCalls s @ (CreateAnswer, createAnswer pc e \<noteq> None) # cs
             \<and> (\<forall>x \<in> set cs. \<forall>c. fst x \<noteq> AddIceCandidate c)"
proof (cases "createAnswer pc e")
  case None
  then show ?thesis using e
    by (simp add: answerRemoteOffer_def callCreate_def outcomeState_def)
next
  case (Some r)
  obtain answer e' where r: "r = (answer, e')" by (cases r)
  show ?thesis
    using e Some r
    by (cases "setLocalDescription pc answer e'")
       (auto simp: answerRemoteOffer_def callCreate_def callEngine_def outcomeState_def send_def)
qed

lemma answerRemoteOffer_frame [simp]:
  "iceCandidatesQueue (outcomeState (answerRemoteOffer pc s)) = iceCandidatesQueue s"
  "myId (outcomeState (answerRemoteOffer pc s)) = myId s"
  "isInitiator (outcomeState (answerRemoteOffer pc s)) = isInitiator s"
  "(peerConnection (outcomeState (answerRemoteOffer pc s)) = None) = (peerConnection s = None)"
  by (auto simp: answerRemoteOffer_def outcomeState_def split_beta send_def Let_def
      split: option.splits simp del: not_None_eq)

lemma applyRemoteOffer_calls:
  "peerConnection s = Some e \<Longrightarrow>
   map fst (engineCalls (outcomeState (applyRemoteOffer pc (Some d) s))) =
     map fst (engineCalls s) @ offerCalls pc e d"
  by (auto simp: applyRemoteOffer_def offerCalls_def outcomeState_def callEngine_def Let_def
      split: option.splits)

lemma applyRemoteOffer_frame [simp]:
  "iceCandidatesQueue (outcomeState (applyRemoteOffer pc d s)) = iceCandidatesQueue s"
  "myId (outcomeState (applyRemoteOffer pc d s)) = myId s"
  "sent (outcomeState (applyRemoteOffer pc d s)) = sent s"
  "isInitiator (outcomeState (applyRemoteOffer pc d s)) = isInitiator s"
  "(peerConnection (outcomeState (applyRemoteOffer pc d s)) = None) = (peerConnection s = None)"
  by (auto simp: applyRemoteOffer_def outcomeState_def split_beta Let_def
      split: option.splits simp del: not_None_eq)

lemma applyRemoteOffer_accepted:
  "peerConnection s = Some e \<Longrightarrow>
   (\<exists>s3. applyRemoteOffer pc (Some d) s = Inr s3) = offerAccepted pc e d"
  by (auto simp: applyRemoteOffer_def offerAccepted_def callEngine_def Let_def
      split: option.splits)


lemma applyRemoteOffer_outcomes:
  "peerConnection s = Some e \<Longrightarrow>
   engineCalls (outcomeState (applyRemoteOffer pc (Some d) s)) =
     engineCalls s @
       (if signalingState pc e \<noteq> Stable
        then [(SetLocalDescription rollback, setLocalDescription pc rollback e \<noteq> None),
              (SetRemoteDescription d,
               setRemoteDescription pc d
                 (case setLocalDescription pc rollback e of None \<Rightarrow> e | Some e1 \<Rightarrow> e1) \<noteq> None)]
        else [(SetRemoteDescription d, setRemoteDescription pc d e \<noteq> None)])"
  by (auto simp: applyRemoteOffer_def outcomeState_def callEngine_def Let_def
      split: option.splits)

lemma stopAnnouncing_frame [simp]:
  "myId (stopAnnouncing s) = myId s"
  "peerConnection (stopAnnouncing s) = peerConnection s"
  "isInitiator (stopAnnouncing s) = isInitiator s"
  "sent (stopAnnouncing s) = sent s"
  "channel (stopAnnouncing s) = channel s"
  "iceCandidatesQueue (stopAnnouncing s) = iceCandidatesQueue s"
  "engineCalls (stopAnnouncing s) = engineCalls s"
  by (simp_all add: stopAnnouncing_eq)

lemma drainQueue_engine:
  "peerConnection s \<noteq> None \<Longrightarrow> \<exists>e'. peerConnection (drainQueue pc s) = Some e'"
  using drainQueue_frame(13) [of pc s] by (cases "peerConnection (drainQueue pc s)") auto

lemma handle_offer:
  assumes "senderId p \<noteq> myId s" "msgType p = Offer" "peerConnection s = Some e"
  shows "handleSignalMessage pc p s =
           caught pc p
             (case applyRemoteOffer pc (sdp p)
                     (stopAnnouncing (s\<lparr>status := Negotiating,
                                         statusMessage := ''Accepting connection...''\<rparr>)) of
                Inl x \<Rightarrow> Inl x
              | Inr s3 \<Rightarrow> answerRemoteOffer pc (drainQueue pc s3))"
  using assms
  by (simp add: handleSignalMessage_signal signalBody_def processOffer_def Let_def)

lemma offer_calls_any:
  assumes "senderId p \<noteq> myId s" "msgType p = Offer" "sdp p = Some d" "peerConnection s = Some e"
  shows "prefix (engineCalls (outcomeState (applyRemoteOffer pc (Some d)
                   (stopAnnouncing (s\<lparr>status := Negotiating,
                                       statusMessage := ''Accepting connection...''\<rparr>)))))
           (engineCalls (handleSignalMessage pc p s))"
proof -
  let ?s2 = "stopAnnouncing (s\<lparr>status := Negotiating,
                               statusMessage := ''Accepting connection...''\<rparr>)"
  let ?r0 = "applyRemoteOffer pc (Some d) ?s2"
  note h = handle_offer [OF assms(1,2,4), of pc]
  show ?thesis
  proof (cases ?r0)
    case (Inl x)
    then show ?thesis
      using caught_calls [of pc p "Inl x"] assms(3) by (auto simp: h prefix_def)
  next
    case (Inr s3)
    have e3: "peerConnection s3 \<noteq> None"
      using applyRemoteOffer_frame(5) [of pc "Some d" ?s2] assms(4) Inr
      by (simp add: outcomeState_def del: not_None_eq)
    obtain e4 where e4: "peerConnection (drainQueue pc s3) = Some e4"
      using drainQueue_engine [OF e3, of pc] by (elim exE)
    obtain cs where cs: "engineCalls (outcomeState (answerRemoteOffer pc (drainQueue pc s3))) =
                engineCalls (drainQueue pc s3) @ (CreateAnswer, createAnswer pc e4 \<noteq> None) # cs"
      using answerRemoteOffer_calls [OF e4] by blast
    obtain cs' where cs': "engineCalls (caught pc p (answerRemoteOffer pc (drainQueue pc s3))) =
        engineCalls (outcomeState (answerRemoteOffer pc (drainQueue pc s3))) @ cs'"
      using caught_calls by blast
    have "prefix (engineCalls s3) (engineCalls (drainQueue pc s3))"
      by (rule drainQueue_prefix)
    then have "prefix (engineCalls s3)
                 (engineCalls (caught pc p (answerRemoteOffer pc (drainQueue pc s3))))"
      by (auto simp: cs cs' prefix_def)
    then show ?thesis using Inr assms(3) by (simp add: h outcomeState_def)
  qed
qed

lemma offer_calls_accepted:
  assumes "senderId p \<noteq> myId s" "msgType p = Offer" "sdp p = Some d" "peerConnection s = Some e"
    and acc: "offerAccepted pc e d"
  shows "\<exists>cs. map fst (engineCalls (handleSignalMessage pc p s)) =
                map fst (engineCalls s) @ offerCalls pc e d
                  @ map AddIceCandidate (iceCandidatesQueue s) @ CreateAnswer # cs
             \<and> (\<forall>c. AddIceCandidate c \<notin> set cs)"
    and "iceCandidatesQueue (handleSignalMessage pc p s) = []"
proof -
  let ?s2 = "stopAnnouncing (s\<lparr>status := Negotiating,
                               statusMessage := ''Accepting connection...''\<rparr>)"
  have e2: "peerConnection ?s2 = Some e" using assms(4) by simp
  note h = handle_offer [OF assms(1,2,4), of pc]
  obtain s3 where s3: "applyRemoteOffer pc (Some d) ?s2 = Inr s3"
    using applyRemoteOffer_accepted [OF e2, of pc d] acc by blast
  have c3: "map fst (engineCalls s3) = map fst (engineCalls s) @ offerCalls pc e d"
    using applyRemoteOffer_calls [OF e2, of pc d] s3 by (simp add: outcomeState_def)
  have q3: "iceCandidatesQueue s3 = iceCandidatesQueue s"
    using applyRemoteOffer_frame(1) [of pc "Some d" ?s2] s3 by (simp add: outcomeState_def)
  have e3: "peerConnection s3 \<noteq> None"
    using applyRemoteOffer_frame(5) [of pc "Some d" ?s2] e2 s3
    by (simp add: outcomeState_def del: not_None_eq)
  obtain e4 where e4: "peerConnection (drainQueue pc s3) = Some e4"
    using drainQueue_engine [OF e3, of pc] by (elim exE)
  have c4: "map fst (engineCalls (drainQueue pc s3)) =
              map fst (engineCalls s3) @ map AddIceCandidate (iceCandidatesQueue s3)"
    by (rule drainQueue_calls [OF e3])
  obtain cs where cs: "engineCalls (outcomeState (answerRemoteOffer pc (drainQueue pc s3))) =
                engineCalls (drainQueue pc s3) @ (CreateAnswer, createAnswer pc e4 \<noteq> None) # cs"
      "\<forall>x \<in> set cs. \<forall>c. fst x \<noteq> AddIceCandidate c"
    using answerRemoteOffer_calls [OF e4] by blast
  obtain cs' where cs': "engineCalls (caught pc p (answerRemoteOffer pc (drainQueue pc s3))) =
        engineCalls (outcomeState (answerRemoteOffer pc (drainQueue pc s3))) @ cs'"
      "\<forall>x \<in> set cs'. \<forall>c. fst x \<noteq> AddIceCandidate c"
    using caught_calls by blast
  have hh: "handleSignalMessage pc p s = caught pc p (answerRemoteOffer pc (drainQueue pc s3))"
    using s3 assms(3) by (simp add: h)
  have A: "map fst (engineCalls (handleSignalMessage pc p s)) =
          map fst (engineCalls s) @ offerCalls pc e d
            @ map AddIceCandidate (iceCandidatesQueue s) @ CreateAnswer # map fst (cs @ cs')"
    unfolding hh cs'(1) cs(1) by (simp add: c4 c3 q3)
  have B: "\<forall>c. AddIceCandidate c \<notin> set (map fst (cs @ cs'))"
  proof
    fix c
    show "AddIceCandidate c \<notin> set (map fst (cs @ cs'))"
      using cs(2) cs'(2) by fastforce
  qed
  show "\<exists>cs. map fst (engineCalls (handleSignalMessage pc p s)) =
                map fst (engineCalls s) @ offerCalls pc e d
                  @ map AddIceCandidate (iceCandidatesQueue s) @ CreateAnswer # cs
             \<and> (\<forall>c. AddIceCandidate c \<notin> set cs)"
    by (rule exI [of _ "map fst (cs @ cs')"]) (rule conjI [OF A B])
  show "iceCandidatesQueue (handleSignalMessage pc p s) = []"
    by (simp add: hh)
qed

section \<open>Properties: the offer branch on the engine\<close>

lemma applyRemoteOffer_applied:
  assumes "peerConnection s = Some e" and "offerApplied pc e d = Some e2"
  shows "applyRemoteOffer pc (Some d) s =
           Inr (s\<lparr>peerConnection := Some e2,
                  engineCalls := engineCalls s @ map (\<lambda>c. (c, True)) (offerCalls pc e d)\<rparr>)"
  using assms
  by (auto simp: applyRemoteOffer_def offerApplied_def offerCalls_def callEngine_def Let_def
      split: option.splits if_splits)

lemma applyRemoteOffer_refused:
  assumes "peerConnection s = Some e"
    and "d = None \<or> (\<exists>d'. d = Some d' \<and> offerApplied pc e d' = None)"
  shows "\<exists>err e' pre. applyRemoteOffer pc d s =
           Inl (err, s\<lparr>peerConnection := Some e', engineCalls := engineCalls s @ pre\<rparr>)"
proof (cases d)
  case None
  show ?thesis
  proof (cases "signalingState pc e = Stable")
    case True
    have "applyRemoteOffer pc d s = Inl (TypeError, s\<lparr>peerConnection := Some e,
            engineCalls := engineCalls s @ []\<rparr>)"
      using assms(1) None True by (simp add: applyRemoteOffer_def)
    then show ?thesis by blast
  next
    case False
    have "applyRemoteOffer pc d s = Inl (TypeError, s\<lparr>peerConnection :=
              Some (case setLocalDescription pc rollback e of None \<Rightarrow> e | Some e1 \<Rightarrow> e1),
            engineCalls := engineCalls s @
              [(SetLocalDescription rollback, setLocalDescription pc rollback e \<noteq> None)]\<rparr>)"
      using assms(1) None False
      by (simp add: applyRemoteOffer_def callEngine_def split_beta split: option.splits)
    then show ?thesis by blast
  qed
next
  case (Some d')
  then have refused: "offerApplied pc e d' = None" using assms(2) by simp
  show ?thesis
  proof (cases "signalingState pc e = Stable")
    case True
    have "applyRemoteOffer pc d s = Inl (OperationError, s\<lparr>peerConnection := Some e,
            engineCalls := engineCalls s @ [(SetRemoteDescription d', False)]\<rparr>)"
      using assms(1) Some True refused
      by (simp add: applyRemoteOffer_def offerApplied_def callEngine_def)
    then show ?thesis by blast
  next
    case False
    show ?thesis
    proof (cases "setLocalDescription pc rollback e")
      case None
      have "applyRemoteOffer pc d s = Inl (OperationError, s\<lparr>peerConnection :=
                Some (case setRemoteDescription pc d' e of None \<Rightarrow> e | Some e1 \<Rightarrow> e1),
              engineCalls := engineCalls s @
                [(SetLocalDescription rollback, False),
                 (SetRemoteDescription d', setRemoteDescription pc d' e \<noteq> None)]\<rparr>)"
        using assms(1) Some False None
        by (simp add: applyRemoteOffer_def callEngine_def split_beta split: option.splits)
      then show ?thesis by blast
    next
      case (Some e1)
      have "applyRemoteOffer pc d s = Inl (OperationError, s\<lparr>peerConnection := Some e1,
              engineCalls := engineCalls s @
                [(SetLocalDescription rollback, True), (SetRemoteDescription d', False)]\<rparr>)"
        using assms(1) \<open>d = Some d'\<close> False Some refused
        by (simp add: applyRemoteOffer_def offerApplied_def callEngine_def)
      then show ?thesis by blast
    qed
  qed
qed

lemma answerRemoteOffer_answered:
  assumes "peerConnection s = Some e" and "answered pc e = Some (answer, e5)" and "channel s"
  shows "answerRemoteOffer pc s =
           Inr (s\<lparr>peerConnection := Some e5,
                  engineCalls := engineCalls s
                    @ [(CreateAnswer, True), (SetLocalDescription answer, True)],
                  sent := sent s @ [(mkSignal Answer (myId s))\<lparr>sdp := Some answer\<rparr>]\<rparr>)"
  using assms
  by (auto simp: answerRemoteOffer_def answered_def callCreate_def callEngine_def send_def
      split: option.splits)

lemma answerRemoteOffer_refused:
  assumes "peerConnection s = Some e" and "answered pc e = None \<or> \<not> channel s"
  shows "\<exists>err e' pre. answerRemoteOffer pc s =
           Inl (err, s\<lparr>peerConnection := Some e', engineCalls := engineCalls s @ pre\<rparr>)"
proof (cases "createAnswer pc e")
  case None
  have "answerRemoteOffer pc s = Inl (OperationError, s\<lparr>peerConnection := Some e,
          engineCalls := engineCalls s @ [(CreateAnswer, False)]\<rparr>)"
    using assms(1) None by (simp add: answerRemoteOffer_def callCreate_def)
  then show ?thesis by blast
next
  case (Some r)
  obtain answer e1 where r: "r = (answer, e1)" by (cases r)
  show ?thesis
  proof (cases "setLocalDescription pc answer e1")
    case None
    have "answerRemoteOffer pc s = Inl (OperationError, s\<lparr>peerConnection := Some e1,
            engineCalls := engineCalls s
              @ [(CreateAnswer, True), (SetLocalDescription answer, False)]\<rparr>)"
      using assms(1) Some r None
      by (simp add: answerRemoteOffer_def callCreate_def callEngine_def)
    then show ?thesis by blast
  next
    case (Some e2)
    then have "\<not> channel s"
      using assms(2) \<open>createAnswer pc e = Some r\<close> r by (simp add: answered_def)
    then have "answerRemoteOffer pc s = Inl (TypeError, s\<lparr>peerConnection := Some e2,
            engineCalls := engineCalls s
              @ [(CreateAnswer, True), (SetLocalDescription answer, True)]\<rparr>)"
      using assms(1) \<open>createAnswer pc e = Some r\<close> r Some
      by (simp add: answerRemoteOffer_def callCreate_def callEngine_def)
    then show ?thesis by blast
  qed
qed

lemma restart_after_throw:
  "restartConnection pc
     (s\<lparr>status := st, statusMessage := m, timers := ts, announceInterval := None,
        iceCandidatesQueue := q, peerConnection := Some e', engineCalls := engineCalls s @ pre\<rparr>) =
   s\<lparr>status := Waiting_for_Peer, statusMessage := ''Retrying connection...'',
     iceCandidatesQueue := q,
     peerConnection := Some (applyEach (addTrack pc) (localTracks s) (newPeerConnection pc)),
     engineCalls := engineCalls s @ pre
       @ (Close, True) # (NewPeerConnection, True)
         # callsOfEach AddTrack (addTrack pc) (localTracks s) (newPeerConnection pc),
     timers := ts @ [(nextTimerId s, 500, InitialAnnounce),
                     (Suc (nextTimerId s), 2000, AnnounceTick)],
     nextTimerId := Suc (Suc (nextTimerId s)),
     announceInterval := Some (Suc (nextTimerId s))\<rparr>"
  by (simp add: restartConnection_exact localTracks_def)

lemma handle_offer_completes:
  assumes "senderId p \<noteq> myId s" and "msgType p = Offer" and "peerConnection s = Some e"
    and d: "sdp p = Some d" and e2: "offerApplied pc e d = Some e2"
    and c: "offerCompletes pc s e p = Some (answer, e5)"
  shows "handleSignalMessage pc p s =
           s\<lparr>status := Negotiating, statusMessage := ''Accepting connection...'',
             timers := filter (\<lambda>t. Some (fst t) \<noteq> announceInterval s) (timers s),
             announceInterval := None,
             iceCandidatesQueue := [],
             peerConnection := Some e5,
             engineCalls := engineCalls s @ map (\<lambda>c. (c, True)) (offerCalls pc e d)
               @ callsOfEach AddIceCandidate (addIceCandidate pc) (iceCandidatesQueue s) e2
               @ [(CreateAnswer, True), (SetLocalDescription answer, True)],
             sent := sent s @ [(mkSignal Answer (myId s))\<lparr>sdp := Some answer\<rparr>]\<rparr>"
proof -
  let ?s2 = "stopAnnouncing (s\<lparr>status := Negotiating,
                               statusMessage := ''Accepting connection...''\<rparr>)"
  let ?e3 = "applyEach (addIceCandidate pc) (iceCandidatesQueue s) e2"
  have ch: "channel s" and an: "answered pc ?e3 = Some (answer, e5)"
    using c d e2 by (auto simp: offerCompletes_def split: if_splits)
  have p2: "peerConnection ?s2 = Some e" using assms(3) by simp
  let ?s3 = "?s2\<lparr>peerConnection := Some e2,
                 engineCalls := engineCalls ?s2 @ map (\<lambda>c. (c, True)) (offerCalls pc e d)\<rparr>"
  have a3: "applyRemoteOffer pc (sdp p) ?s2 = Inr ?s3"
    unfolding d by (rule applyRemoteOffer_applied [OF p2 e2])
  have p3: "peerConnection ?s3 = Some e2" by simp
  let ?s4 = "?s3\<lparr>iceCandidatesQueue := [], peerConnection := Some ?e3,
                 engineCalls := engineCalls ?s3
                   @ callsOfEach AddIceCandidate (addIceCandidate pc) (iceCandidatesQueue s) e2\<rparr>"
  have d4: "drainQueue pc ?s3 = ?s4"
    using drainQueue_exact [OF p3, of pc] by simp
  have p4: "peerConnection ?s4 = Some ?e3" and c4: "channel ?s4"
    using ch by simp_all
  have "handleSignalMessage pc p s = caught pc p (answerRemoteOffer pc ?s4)"
    using handle_offer [OF assms(1,2,3), of pc] a3 d4 by simp
  also have "\<dots> = ?s4\<lparr>peerConnection := Some e5,
                  engineCalls := engineCalls ?s4
                    @ [(CreateAnswer, True), (SetLocalDescription answer, True)],
                  sent := sent ?s4 @ [(mkSignal Answer (myId ?s4))\<lparr>sdp := Some answer\<rparr>]\<rparr>"
    unfolding answerRemoteOffer_answered [OF p4 an c4] by (simp add: caught_def)
  finally show ?thesis by (simp add: stopAnnouncing_eq)
qed

lemma handle_offer_fails:
  assumes "senderId p \<noteq> myId s" and "msgType p = Offer" and "peerConnection s = Some e"
    and c: "offerCompletes pc s e p = None"
  shows "\<exists>pre q. handleSignalMessage pc p s =
           s\<lparr>status := Waiting_for_Peer, statusMessage := ''Retrying connection...'',
             iceCandidatesQueue := q,
             peerConnection :=
               Some (applyEach (addTrack pc) (localTracks s) (newPeerConnection pc)),
             engineCalls := engineCalls s @ pre
               @ (Close, True) # (NewPeerConnection, True)
                 # callsOfEach AddTrack (addTrack pc) (localTracks s) (newPeerConnection pc),
             timers := filter (\<lambda>t. Some (fst t) \<noteq> announceInterval s) (timers s)
                         @ [(nextTimerId s, 500, InitialAnnounce),
                            (Suc (nextTimerId s), 2000, AnnounceTick)],
             nextTimerId := Suc (Suc (nextTimerId s)),
             announceInterval := Some (Suc (nextTimerId s))\<rparr>
         \<and> (q = iceCandidatesQueue s \<or> q = [])"
proof -
  let ?T = "filter (\<lambda>t. Some (fst t) \<noteq> announceInterval s) (timers s)"
  let ?s2 = "stopAnnouncing (s\<lparr>status := Negotiating,
                               statusMessage := ''Accepting connection...''\<rparr>)"
  have s2: "?s2 = s\<lparr>status := Negotiating, statusMessage := ''Accepting connection...'',
                    timers := ?T, announceInterval := None\<rparr>"
    by (simp add: stopAnnouncing_eq)
  have p2: "peerConnection ?s2 = Some e" using assms(3) by simp
  note h = handle_offer [OF assms(1,2,3), of pc]
  let ?final = "\<lambda>pre q. s\<lparr>status := Waiting_for_Peer, statusMessage := ''Retrying connection...'',
             iceCandidatesQueue := q,
             peerConnection :=
               Some (applyEach (addTrack pc) (localTracks s) (newPeerConnection pc)),
             engineCalls := engineCalls s @ pre
               @ (Close, True) # (NewPeerConnection, True)
                 # callsOfEach AddTrack (addTrack pc) (localTracks s) (newPeerConnection pc),
             timers := ?T @ [(nextTimerId s, 500, InitialAnnounce),
                            (Suc (nextTimerId s), 2000, AnnounceTick)],
             nextTimerId := Suc (Suc (nextTimerId s)),
             announceInterval := Some (Suc (nextTimerId s))\<rparr>"
  have thrown: "handleSignalMessage pc p s = ?final pre q"
    if "handleSignalMessage pc p s =
          restartConnection pc
            (s\<lparr>status := Negotiating, statusMessage := ''Accepting connection...'',
               timers := ?T, announceInterval := None, iceCandidatesQueue := q,
               peerConnection := Some e', engineCalls := engineCalls s @ pre\<rparr>)"
    for pre q e'
    unfolding that by (rule restart_after_throw)
  show ?thesis
  proof (cases "sdp p = None \<or> (\<exists>d'. sdp p = Some d' \<and> offerApplied pc e d' = None)")
    case True
    obtain err e' pre where
      "applyRemoteOffer pc (sdp p) ?s2 =
         Inl (err, ?s2\<lparr>peerConnection := Some e', engineCalls := engineCalls ?s2 @ pre\<rparr>)"
      using applyRemoteOffer_refused [OF p2 True] by blast
    then have "handleSignalMessage pc p s =
          restartConnection pc
            (s\<lparr>status := Negotiating, statusMessage := ''Accepting connection...'',
               timers := ?T, announceInterval := None,
               iceCandidatesQueue := iceCandidatesQueue s,
               peerConnection := Some e', engineCalls := engineCalls s @ pre\<rparr>)"
      using assms(2) by (simp add: h caught_def s2)
    then have "handleSignalMessage pc p s = ?final pre (iceCandidatesQueue s)"
      by (rule thrown)
    then show ?thesis by blast
  next
    case False
    then obtain d e2 where d: "sdp p = Some d" and e2: "offerApplied pc e d = Some e2"
      by (cases "sdp p") auto
    let ?e3 = "applyEach (addIceCandidate pc) (iceCandidatesQueue s) e2"
    have an: "answered pc ?e3 = None \<or> \<not> channel s"
      using c d e2 by (auto simp: offerCompletes_def split: if_splits)
    let ?log = "map (\<lambda>c. (c, True)) (offerCalls pc e d)
                  @ callsOfEach AddIceCandidate (addIceCandidate pc) (iceCandidatesQueue s) e2"
    let ?s3 = "?s2\<lparr>peerConnection := Some e2,
                 engineCalls := engineCalls ?s2 @ map (\<lambda>c. (c, True)) (offerCalls pc e d)\<rparr>"
    have a3: "applyRemoteOffer pc (sdp p) ?s2 = Inr ?s3"
      unfolding d by (rule applyRemoteOffer_applied [OF p2 e2])
    have p3: "peerConnection ?s3 = Some e2" by simp
    let ?s4 = "?s3\<lparr>iceCandidatesQueue := [], peerConnection := Some ?e3,
                 engineCalls := engineCalls ?s3
                   @ callsOfEach AddIceCandidate (addIceCandidate pc) (iceCandidatesQueue s) e2\<rparr>"
    have d4: "drainQueue pc ?s3 = ?s4"
      using drainQueue_exact [OF p3, of pc] by simp
    have p4: "peerConnection ?s4 = Some ?e3" by simp
    have an4: "answered pc ?e3 = None \<or> \<not> channel ?s4" using an by simp
    obtain err e' pre where
      "answerRemoteOffer pc ?s4 =
         Inl (err, ?s4\<lparr>peerConnection := Some e', engineCalls := engineCalls ?s4 @ pre\<rparr>)"
      using answerRemoteOffer_refused [OF p4 an4] by blast
    then have "handleSignalMessage pc p s =
          restartConnection pc
            (s\<lparr>status := Negotiating, statusMessage := ''Accepting connection...'',
               timers := ?T, announceInterval := None, iceCandidatesQueue := [],
               peerConnection := Some e', engineCalls := engineCalls s @ (?log @ pre)\<rparr>)"
      using assms(2) a3 d4 by (simp add: h caught_def s2)
    then have "handleSignalMessage pc p s = ?final (?log @ pre) []"
      by (rule thrown)
    then show ?thesis by blast
  qed
qed

section \<open>Glare\<close>

text \<open>
  Claim C2. For an Offer envelope from a peer, received while the signaling state is
  not stable, the first two calls the handler makes on the engine are
  \<^verbatim>\<open>setLocalDescription({type: "rollback"})\<close> and then \<^verbatim>\<open>setRemoteDescription\<close> of the
  offer, the second on the engine the rollback left; received in the stable state,
  the first call is \<^verbatim>\<open>setRemoteDescription\<close> of the offer, with no rollback before it.
  When the engine accepts these calls and the answer, the room ends with the engine
  obtained from the one the remote offer was applied to (after the rollback, under
  glare): the queued candidates handed to it in order, the answer created and set on
  it; and the Answer is sent. The state after the handler is given field by field.
\<close>

theorem offer_glare_rollback:
  assumes "senderId payload \<noteq> myId s" and "msgType payload = Offer"
    and "sdp payload = Some d" and "peerConnection s = Some e"
  shows "(signalingState pc e \<noteq> Stable \<longrightarrow>
            prefix (engineCalls s @
                     [(SetLocalDescription rollback, setLocalDescription pc rollback e \<noteq> None),
                      (SetRemoteDescription d,
                       setRemoteDescription pc d
                         (case setLocalDescription pc rollback e of None \<Rightarrow> e | Some e1 \<Rightarrow> e1)
                         \<noteq> None)])
                   (engineCalls (handleSignalMessage pc payload s)))
       \<and> (signalingState pc e = Stable \<longrightarrow>
            prefix (engineCalls s @ [(SetRemoteDescription d, setRemoteDescription pc d e \<noteq> None)])
                   (engineCalls (handleSignalMessage pc payload s)))
       \<and> (signalingState pc e \<noteq> Stable \<and> setLocalDescription pc rollback e = Some e1
            \<and> setRemoteDescription pc d e1 = Some e2
            \<and> answered pc (applyEach (addIceCandidate pc) (iceCandidatesQueue s) e2)
                = Some (answer, e5)
            \<and> channel s \<longrightarrow>
            handleSignalMessage pc payload s =
              s\<lparr>status := Negotiating, statusMessage := ''Accepting connection...'',
                timers := filter (\<lambda>t. Some (fst t) \<noteq> announceInterval s) (timers s),
                announceInterval := None,
                iceCandidatesQueue := [],
                peerConnection := Some e5,
                engineCalls := engineCalls s
                  @ [(SetLocalDescription rollback, True), (SetRemoteDescription d, True)]
                  @ callsOfEach AddIceCandidate (addIceCandidate pc) (iceCandidatesQueue s) e2
                  @ [(CreateAnswer, True), (SetLocalDescription answer, True)],
                sent := sent s @ [(mkSignal Answer (myId s))\<lparr>sdp := Some answer\<rparr>]\<rparr>)
       \<and> (signalingState pc e = Stable \<and> setRemoteDescription pc d e = Some e2
            \<and> answered pc (applyEach (addIceCandidate pc) (iceCandidatesQueue s) e2)
                = Some (answer, e5)
            \<and> channel s \<longrightarrow>
            handleSignalMessage pc payload s =
              s\<lparr>status := Negotiating, statusMessage := ''Accepting connection...'',
                timers := filter (\<lambda>t. Some (fst t) \<noteq> announceInterval s) (timers s),
                announceInterval := None,
                iceCandidatesQueue := [],
                peerConnection := Some e5,
                engineCalls := engineCalls s
                  @ [(SetRemoteDescription d, True)]
                  @ callsOfEach AddIceCandidate (addIceCandidate pc) (iceCandidatesQueue s) e2
                  @ [(CreateAnswer, True), (SetLocalDescription answer, True)],
                sent := sent s @ [(mkSignal Answer (myId s))\<lparr>sdp := Some answer\<rparr>]\<rparr>)"
proof (intro conjI impI; (elim conjE)?)
  let ?s2 = "stopAnnouncing (s\<lparr>status := Negotiating,
                               statusMessage := ''Accepting connection...''\<rparr>)"
  have e2: "peerConnection ?s2 = Some e" using assms(4) by simp
  note any = offer_calls_any [OF assms, of pc] applyRemoteOffer_outcomes [OF e2, of pc d]
  {
    assume "signalingState pc e \<noteq> Stable"
    then show "prefix (engineCalls s @
                     [(SetLocalDescription rollback, setLocalDescription pc rollback e \<noteq> None),
                      (SetRemoteDescription d,
                       setRemoteDescription pc d
                         (case setLocalDescription pc rollback e of None \<Rightarrow> e | Some e1 \<Rightarrow> e1)
                         \<noteq> None)])
                   (engineCalls (handleSignalMessage pc payload s))"
      using any by (simp del: not_None_eq)
  }
  {
    assume "signalingState pc e = Stable"
    then show "prefix (engineCalls s @ [(SetRemoteDescription d, setRemoteDescription pc d e \<noteq> None)])
                   (engineCalls (handleSignalMessage pc payload s))"
      using any by (simp del: not_None_eq)
  }
next
  assume g: "signalingState pc e \<noteq> Stable" and r: "setLocalDescription pc rollback e = Some e1"
    and a: "setRemoteDescription pc d e1 = Some e2"
    and an: "answered pc (applyEach (addIceCandidate pc) (iceCandidatesQueue s) e2)
               = Some (answer, e5)"
    and ch: "channel s"
  have ap: "offerApplied pc e d = Some e2" using g r a by (simp add: offerApplied_def)
  have co: "offerCompletes pc s e payload = Some (answer, e5)"
    using assms(3) ap an ch by (simp add: offerCompletes_def)
  show "handleSignalMessage pc payload s =
              s\<lparr>status := Negotiating, statusMessage := ''Accepting connection...'',
                timers := filter (\<lambda>t. Some (fst t) \<noteq> announceInterval s) (timers s),
                announceInterval := None,
                iceCandidatesQueue := [],
                peerConnection := Some e5,
                engineCalls := engineCalls s
                  @ [(SetLocalDescription rollback, True), (SetRemoteDescription d, True)]
                  @ callsOfEach AddIceCandidate (addIceCandidate pc) (iceCandidatesQueue s) e2
                  @ [(CreateAnswer, True), (SetLocalDescription answer, True)],
                sent := sent s @ [(mkSignal Answer (myId s))\<lparr>sdp := Some answer\<rparr>]\<rparr>"
    using handle_offer_completes [OF assms(1,2,4,3) ap co] g by (simp add: offerCalls_def)
next
  assume g: "signalingState pc e = Stable"
    and a: "setRemoteDescription pc d e = Some e2"
    and an: "answered pc (applyEach (addIceCandidate pc) (iceCandidatesQueue s) e2)
               = Some (answer, e5)"
    and ch: "channel s"
  have ap: "offerApplied pc e d = Some e2" using g a by (simp add: offerApplied_def)
  have co: "offerCompletes pc s e payload = Some (answer, e5)"
    using assms(3) ap an ch by (simp add: offerCompletes_def)
  show "handleSignalMessage pc payload s =
              s\<lparr>status := Negotiating, statusMessage := ''Accepting connection...'',
                timers := filter (\<lambda>t. Some (fst t) \<noteq> announceInterval s) (timers s),
                announceInterval := None,
                iceCandidatesQueue := [],
                peerConnection := Some e5,
                engineCalls := engineCalls s
                  @ [(SetRemoteDescription d, True)]
                  @ callsOfEach AddIceCandidate (addIceCandidate pc) (iceCandidatesQueue s) e2
                  @ [(CreateAnswer, True), (SetLocalDescription answer, True)],
                sent := sent s @ [(mkSignal Answer (myId s))\<lparr>sdp := Some answer\<rparr>]\<rparr>"
    using handle_offer_completes [OF assms(1,2,4,3) ap co] g by (simp add: offerCalls_def)
qed


theorem offer_glare_rollback_witness:
  "senderId (offerFrom ''b1'') \<noteq> myId glareRoom
   \<and> msgType (offerFrom ''b1'') = Offer
   \<and> sdp (offerFrom ''b1'') = Some remoteOffer
   \<and> peerConnection glareRoom =
       Some (readyRtc\<lparr>rtcSignaling := HaveLocalOffer, rtcLocal := Some localOffer\<rparr>)
   \<and> signalingState browser (readyRtc\<lparr>rtcSignaling := HaveLocalOffer, rtcLocal := Some localOffer\<rparr>)
       \<noteq> Stable
   \<and> prefix (engineCalls glareRoom @
               [(SetLocalDescription rollback, True), (SetRemoteDescription remoteOffer, True)])
        (engineCalls (handleSignalMessage browser (offerFrom ''b1'') glareRoom))
   \<and> setLocalDescription browser rollback
         (readyRtc\<lparr>rtcSignaling := HaveLocalOffer, rtcLocal := Some localOffer\<rparr>) = Some readyRtc
   \<and> setRemoteDescription browser remoteOffer readyRtc = Some describedRtc
   \<and> answered browser
         (applyEach (addIceCandidate browser) (iceCandidatesQueue glareRoom) describedRtc)
       = Some (localAnswer, answeredRtc)
   \<and> channel glareRoom
   \<and> peerConnection (handleSignalMessage browser (offerFrom ''b1'') glareRoom) = Some answeredRtc
   \<and> rtcSignaling answeredRtc = Stable
   \<and> rtcRemote answeredRtc = Some remoteOffer
   \<and> rtcLocal answeredRtc = Some localAnswer
   \<and> sent (handleSignalMessage browser (offerFrom ''b1'') glareRoom) =
       [(mkSignal Offer ''a9'')\<lparr>sdp := Some localOffer\<rparr>,
        (mkSignal Answer ''a9'')\<lparr>sdp := Some localAnswer\<rparr>]
   \<and> peerConnection (room ''a9'') = Some readyRtc
   \<and> signalingState browser readyRtc = Stable
   \<and> prefix (engineCalls (room ''a9'') @ [(SetRemoteDescription remoteOffer, True)])
        (engineCalls (handleSignalMessage browser (offerFrom ''b1'') (room ''a9'')))
   \<and> answered browser
         (applyEach (addIceCandidate browser) (iceCandidatesQueue (room ''a9'')) describedRtc)
       = Some (localAnswer, answeredRtc)
   \<and> channel (room ''a9'')
   \<and> peerConnection (handleSignalMessage browser (offerFrom ''b1'') (room ''a9'')) = Some answeredRtc
   \<and> engineCalls (handleSignalMessage browser (offerFrom ''b1'') (room ''a9'')) =
       engineCalls (room ''a9'') @
         [(SetRemoteDescription remoteOffer, True), (CreateAnswer, True),
          (SetLocalDescription localAnswer, True)]"
proof -
  have g: "glareRoom =
     (room ''a9'')\<lparr>peerConnection :=
                     Some (readyRtc\<lparr>rtcSignaling := HaveLocalOffer, rtcLocal := Some localOffer\<rparr>),
                  isInitiator := True, announceInterval := None, negotiationTimeout := Some 2,
                  status := Negotiating, statusMessage := ''Calling peer...'',
                  timers := [(0, 500, InitialAnnounce), (2, 10000, NegotiationCheck)],
                  nextTimerId := 3,
                  sent := [(mkSignal Offer ''a9'')\<lparr>sdp := Some localOffer\<rparr>],
                  engineCalls := engineCalls (room ''a9'') @
                    [(CreateDataChannel ''keepalive'', True), (CreateOffer, True),
                     (SetLocalDescription localOffer, True)]\<rparr>"
    by (simp add: glareRoom_def initiateConnection_def room_def stopAnnouncing_eq callEngine_def
        callCreate_def browser_def rtcSetLocal_def readyRtc_def freshRtc_def send_def setTimer_def
        localOffer_def mkSignal_def)
  have s1: "senderId (offerFrom ''b1'') \<noteq> myId glareRoom"
    and s2: "senderId (offerFrom ''b1'') \<noteq> myId (room ''a9'')"
    and t: "msgType (offerFrom ''b1'') = Offer"
    and d: "sdp (offerFrom ''b1'') = Some remoteOffer"
    and p1: "peerConnection glareRoom =
       Some (readyRtc\<lparr>rtcSignaling := HaveLocalOffer, rtcLocal := Some localOffer\<rparr>)"
    and p2: "peerConnection (room ''a9'') = Some readyRtc"
    and ch1: "channel glareRoom" and ch2: "channel (room ''a9'')"
    and q1: "iceCandidatesQueue glareRoom = []" and q2: "iceCandidatesQueue (room ''a9'') = []"
    and m1: "myId glareRoom = ''a9''" and m2: "myId (room ''a9'') = ''a9''"
    and st1: "sent glareRoom = [(mkSignal Offer ''a9'')\<lparr>sdp := Some localOffer\<rparr>]"
    by (simp_all add: g offerFrom_def mkSignal_def room_def)
  have n1: "signalingState browser
              (readyRtc\<lparr>rtcSignaling := HaveLocalOffer, rtcLocal := Some localOffer\<rparr>) \<noteq> Stable"
    and n2: "signalingState browser readyRtc = Stable"
    and rb: "setLocalDescription browser rollback
               (readyRtc\<lparr>rtcSignaling := HaveLocalOffer, rtcLocal := Some localOffer\<rparr>)
             = Some readyRtc"
    and sr: "setRemoteDescription browser remoteOffer readyRtc = Some describedRtc"
    and an: "answered browser describedRtc = Some (localAnswer, answeredRtc)"
    and f: "rtcSignaling answeredRtc = Stable" "rtcRemote answeredRtc = Some remoteOffer"
      "rtcLocal answeredRtc = Some localAnswer"
    by (simp_all add: browser_def readyRtc_def freshRtc_def describedRtc_def answeredRtc_def
        answered_def rtcSetLocal_def rtcSetRemote_def rollback_def remoteOffer_def
        localAnswer_def)
  have an1: "answered browser
         (applyEach (addIceCandidate browser) (iceCandidatesQueue glareRoom) describedRtc)
       = Some (localAnswer, answeredRtc)"
    and an2: "answered browser
         (applyEach (addIceCandidate browser) (iceCandidatesQueue (room ''a9'')) describedRtc)
       = Some (localAnswer, answeredRtc)"
    by (simp_all add: q1 q2 an)
  note T1 = offer_glare_rollback [OF s1 t d p1, of browser readyRtc describedRtc localAnswer
      answeredRtc]
  note T2 = offer_glare_rollback [OF s2 t d p2, of browser readyRtc describedRtc localAnswer
      answeredRtc]
  have r1: "prefix (engineCalls glareRoom @
               [(SetLocalDescription rollback, True), (SetRemoteDescription remoteOffer, True)])
        (engineCalls (handleSignalMessage browser (offerFrom ''b1'') glareRoom))"
    using T1 [THEN conjunct1, rule_format, OF n1]
    by (simp add: browser_def rtcSetLocal_def rtcSetRemote_def rollback_def remoteOffer_def
        readyRtc_def freshRtc_def)
  have r2: "prefix (engineCalls (room ''a9'') @ [(SetRemoteDescription remoteOffer, True)])
        (engineCalls (handleSignalMessage browser (offerFrom ''b1'') (room ''a9'')))"
    using T2 [THEN conjunct2, THEN conjunct1, rule_format, OF n2]
    by (simp add: browser_def rtcSetRemote_def remoteOffer_def readyRtc_def freshRtc_def)
  note E1 = T1 [THEN conjunct2, THEN conjunct2, THEN conjunct1, rule_format,
      OF conjI [OF n1 conjI [OF rb conjI [OF sr conjI [OF an1 ch1]]]]]
  have r3: "peerConnection (handleSignalMessage browser (offerFrom ''b1'') glareRoom)
              = Some answeredRtc"
    and r4: "sent (handleSignalMessage browser (offerFrom ''b1'') glareRoom) =
       [(mkSignal Offer ''a9'')\<lparr>sdp := Some localOffer\<rparr>,
        (mkSignal Answer ''a9'')\<lparr>sdp := Some localAnswer\<rparr>]"
    using E1 by (simp_all add: m1 st1)
  note E2 = T2 [THEN conjunct2, THEN conjunct2, THEN conjunct2, rule_format,
      OF conjI [OF n2 conjI [OF sr conjI [OF an2 ch2]]]]
  have r5: "peerConnection (handleSignalMessage browser (offerFrom ''b1'') (room ''a9''))
              = Some answeredRtc"
    and r6: "engineCalls (handleSignalMessage browser (offerFrom ''b1'') (room ''a9'')) =
       engineCalls (room ''a9'') @
         [(SetRemoteDescription remoteOffer, True), (CreateAnswer, True),
          (SetLocalDescription localAnswer, True)]"
    using E2 by (simp_all add: q2)
  show ?thesis
    using s1 t d p1 n1 r1 rb sr an1 ch1 r3 f r4 p2 n2 r2 an2 ch2 r5 r6 by (intro conjI)
qed

section \<open>The candidate queue\<close>

lemma handle_candidate:
  assumes "senderId p \<noteq> myId s" "msgType p = IceCandidate" "peerConnection s = Some e"
  shows "handleSignalMessage pc p s =
           (case candidate p of
              None \<Rightarrow> s
            | Some c \<Rightarrow>
                if remoteDescription pc e \<noteq> None
                then snd (callEngine (AddIceCandidate c) (addIceCandidate pc c) s)
                else s\<lparr>iceCandidatesQueue := iceCandidatesQueue s @ [c]\<rparr>)"
  using assms
  by (simp add: handleSignalMessage_signal signalBody_def processIceCandidate_def caught_def
      split: option.splits del: not_None_eq)

lemma enqueue_all:
  assumes "peerConnection s = Some e" "remoteDescription pc e = None"
    and "\<forall>p \<in> set ps. msgType p = IceCandidate \<and> senderId p \<noteq> myId s"
  shows "foldl (\<lambda>s' p. handleSignalMessage pc p s') s ps =
           s\<lparr>iceCandidatesQueue := iceCandidatesQueue s @ candidatesOf ps\<rparr>"
  using assms
proof (induction ps arbitrary: s)
  case Nil
  then show ?case by simp
next
  case (Cons p ps)
  let ?s1 = "handleSignalMessage pc p s"
  have h: "?s1 = (case candidate p of None \<Rightarrow> s
                  | Some c \<Rightarrow> s\<lparr>iceCandidatesQueue := iceCandidatesQueue s @ [c]\<rparr>)"
    using handle_candidate [of p s e pc] Cons.prems by (simp split: option.splits)
  have "foldl (\<lambda>s' p. handleSignalMessage pc p s') ?s1 ps =
          ?s1\<lparr>iceCandidatesQueue := iceCandidatesQueue ?s1 @ candidatesOf ps\<rparr>"
    by (rule Cons.IH) (use Cons.prems h in \<open>auto split: option.splits\<close>)
  then show ?case by (simp add: h split: option.splits)
qed

lemma addedCandidates_names:
  "addedCandidates xs = addedCandidates (map (\<lambda>c. (c, True)) (map fst xs))"
  by (induction xs rule: addedCandidates.induct) auto

lemma addedCandidates_queue:
  "addedCandidates (map ((\<lambda>c. (c, True)) \<circ> AddIceCandidate) q) = q"
  by (induction q) auto

lemma addedCandidates_offerCalls:
  "addedCandidates (map (\<lambda>c. (c, True)) (offerCalls pc e d)) = []"
  by (simp add: offerCalls_def)

lemma addedCandidates_offer:
  assumes "map fst xs = map fst ys @ offerCalls pc e d @ map AddIceCandidate q @ CreateAnswer # cs"
    and "\<forall>c. AddIceCandidate c \<notin> set cs"
  shows "addedCandidates xs = addedCandidates ys @ q"
proof -
  have "addedCandidates (map (\<lambda>c. (c, True)) cs) = []"
    by (rule addedCandidates_none) (use assms(2) in auto)
  then have "addedCandidates (map (\<lambda>c. (c, True)) (map fst xs)) =
          addedCandidates (map (\<lambda>c. (c, True)) (map fst ys)) @ q"
    unfolding assms(1) by (simp add: addedCandidates_queue addedCandidates_offerCalls)
  then show ?thesis
    using addedCandidates_names [of xs] addedCandidates_names [of ys] by simp
qed

text \<open>
  Claim C3. An IceCandidate envelope from a peer, received when the engine has a remote
  description, is handed to \<^verbatim>\<open>addIceCandidate\<close> at once and the queue is not touched:
  the room afterwards is the room before with the engine that \<^verbatim>\<open>addIceCandidate\<close>
  returned (the engine as it was when the candidate is refused) and that one call
  logged. Received when the engine has no remote description, its candidate is
  appended to the queue. When the candidates of a sequence of such envelopes have
  been queued and an Offer arrives whose description the engine accepts, the handler
  hands every queued candidate to \<^verbatim>\<open>addIceCandidate\<close>, oldest first, whether or not
  the engine accepts each one, and leaves the queue empty; when the answer is then
  created and sent, the room's engine is the one obtained from the engine holding the
  remote offer by applying the queued candidates in order, skipping the refused ones,
  and then answering.
\<close>

theorem ice_candidates_fifo:
  assumes "peerConnection s = Some e"
    and "\<forall>p \<in> set ps. msgType p = IceCandidate \<and> senderId p \<noteq> myId s"
    and "msgType po = Offer" and "senderId po \<noteq> myId s" and "sdp po = Some d"
  shows "(remoteDescription pc e \<noteq> None \<longrightarrow>
            (\<forall>p \<in> set ps. \<forall>c. candidate p = Some c \<longrightarrow>
               engineCalls (handleSignalMessage pc p s) =
                 engineCalls s @ [(AddIceCandidate c, addIceCandidate pc c e \<noteq> None)]
               \<and> iceCandidatesQueue (handleSignalMessage pc p s) = iceCandidatesQueue s
               \<and> handleSignalMessage pc p s =
                   s\<lparr>peerConnection :=
                       Some (case addIceCandidate pc c e of None \<Rightarrow> e | Some e' \<Rightarrow> e'),
                     engineCalls := engineCalls s
                       @ [(AddIceCandidate c, addIceCandidate pc c e \<noteq> None)]\<rparr>))
       \<and> (remoteDescription pc e = None \<longrightarrow>
            foldl (\<lambda>s' p. handleSignalMessage pc p s') s ps =
              s\<lparr>iceCandidatesQueue := iceCandidatesQueue s @ candidatesOf ps\<rparr>
            \<and> (offerAccepted pc e d \<longrightarrow>
                 iceCandidatesQueue
                   (handleSignalMessage pc po (foldl (\<lambda>s' p. handleSignalMessage pc p s') s ps)) = []
               \<and> addedCandidates (engineCalls
                   (handleSignalMessage pc po (foldl (\<lambda>s' p. handleSignalMessage pc p s') s ps)))
                   = addedCandidates (engineCalls s) @ iceCandidatesQueue s @ candidatesOf ps)
            \<and> (offerApplied pc e d = Some e2
                 \<and> answered pc (applyEach (addIceCandidate pc)
                                  (iceCandidatesQueue s @ candidatesOf ps) e2)
                     = Some (answer, e5)
                 \<and> channel s \<longrightarrow>
                 handleSignalMessage pc po (foldl (\<lambda>s' p. handleSignalMessage pc p s') s ps) =
                   s\<lparr>status := Negotiating, statusMessage := ''Accepting connection...'',
                     timers := filter (\<lambda>t. Some (fst t) \<noteq> announceInterval s) (timers s),
                     announceInterval := None,
                     iceCandidatesQueue := [],
                     peerConnection := Some e5,
                     engineCalls := engineCalls s @ map (\<lambda>c. (c, True)) (offerCalls pc e d)
                       @ callsOfEach AddIceCandidate (addIceCandidate pc)
                           (iceCandidatesQueue s @ candidatesOf ps) e2
                       @ [(CreateAnswer, True), (SetLocalDescription answer, True)],
                     sent := sent s @ [(mkSignal Answer (myId s))\<lparr>sdp := Some answer\<rparr>]\<rparr>))"
proof (intro conjI impI ballI allI; (elim conjE)?)
  fix p c
  assume r: "remoteDescription pc e \<noteq> None" and p: "p \<in> set ps" and c: "candidate p = Some c"
  have h: "handleSignalMessage pc p s = snd (callEngine (AddIceCandidate c) (addIceCandidate pc c) s)"
    using handle_candidate [of p s e pc] assms(1,2) p c r by (simp del: not_None_eq)
  show "engineCalls (handleSignalMessage pc p s) =
          engineCalls s @ [(AddIceCandidate c, addIceCandidate pc c e \<noteq> None)]"
    using assms(1) by (simp add: h callEngine_calls del: not_None_eq)
  show "iceCandidatesQueue (handleSignalMessage pc p s) = iceCandidatesQueue s"
    by (simp add: h)
  show "handleSignalMessage pc p s =
          s\<lparr>peerConnection := Some (case addIceCandidate pc c e of None \<Rightarrow> e | Some e' \<Rightarrow> e'),
            engineCalls := engineCalls s
              @ [(AddIceCandidate c, addIceCandidate pc c e \<noteq> None)]\<rparr>"
    using assms(1) by (simp add: h callEngine_def split: option.splits)
next
  assume r: "remoteDescription pc e = None"
  show f: "foldl (\<lambda>s' p. handleSignalMessage pc p s') s ps =
              s\<lparr>iceCandidatesQueue := iceCandidatesQueue s @ candidatesOf ps\<rparr>"
    by (rule enqueue_all [OF assms(1) r assms(2)])
  let ?s1 = "s\<lparr>iceCandidatesQueue := iceCandidatesQueue s @ candidatesOf ps\<rparr>"
  have a: "senderId po \<noteq> myId ?s1" "peerConnection ?s1 = Some e"
    using assms by simp_all
  {
    assume acc: "offerAccepted pc e d"
    note oc = offer_calls_accepted [OF a(1) assms(3) assms(5) a(2) acc]
    show "iceCandidatesQueue
            (handleSignalMessage pc po (foldl (\<lambda>s' p. handleSignalMessage pc p s') s ps)) = []"
      unfolding f by (rule oc(2))
    obtain cs where cs: "map fst (engineCalls (handleSignalMessage pc po ?s1)) =
                  map fst (engineCalls ?s1) @ offerCalls pc e d
                    @ map AddIceCandidate (iceCandidatesQueue ?s1) @ CreateAnswer # cs"
               "\<forall>c. AddIceCandidate c \<notin> set cs"
      using oc(1) by blast
    show "addedCandidates (engineCalls
            (handleSignalMessage pc po (foldl (\<lambda>s' p. handleSignalMessage pc p s') s ps)))
            = addedCandidates (engineCalls s) @ iceCandidatesQueue s @ candidatesOf ps"
      unfolding f using addedCandidates_offer [OF cs] by simp
  }
  assume ap: "offerApplied pc e d = Some e2"
    and an: "answered pc (applyEach (addIceCandidate pc)
                           (iceCandidatesQueue s @ candidatesOf ps) e2) = Some (answer, e5)"
    and ch: "channel s"
  have co: "offerCompletes pc ?s1 e po = Some (answer, e5)"
    using assms(5) ap an ch by (simp add: offerCompletes_def)
  show "handleSignalMessage pc po (foldl (\<lambda>s' p. handleSignalMessage pc p s') s ps) =
          s\<lparr>status := Negotiating, statusMessage := ''Accepting connection...'',
            timers := filter (\<lambda>t. Some (fst t) \<noteq> announceInterval s) (timers s),
            announceInterval := None,
            iceCandidatesQueue := [],
            peerConnection := Some e5,
            engineCalls := engineCalls s @ map (\<lambda>c. (c, True)) (offerCalls pc e d)
              @ callsOfEach AddIceCandidate (addIceCandidate pc)
                  (iceCandidatesQueue s @ candidatesOf ps) e2
              @ [(CreateAnswer, True), (SetLocalDescription answer, True)],
            sent := sent s @ [(mkSignal Answer (myId s))\<lparr>sdp := Some answer\<rparr>]\<rparr>"
    unfolding f using handle_offer_completes [OF a(1) assms(3) a(2) assms(5) ap co] by simp
qed


theorem ice_candidates_fifo_witness:
  "peerConnection (room ''a9'') = Some readyRtc
   \<and> list_all (\<lambda>p. msgType p = IceCandidate \<and> senderId p \<noteq> myId (room ''a9'')) threeCandidates
   \<and> msgType (offerFrom ''b1'') = Offer
   \<and> senderId (offerFrom ''b1'') \<noteq> myId (room ''a9'')
   \<and> sdp (offerFrom ''b1'') = Some remoteOffer
   \<and> remoteDescription browser readyRtc = None
   \<and> offerAccepted browser readyRtc remoteOffer
   \<and> iceCandidatesQueue
         (foldl (\<lambda>s' p. handleSignalMessage browser p s') (room ''a9'') threeCandidates)
       = [''candidate:1'', ''bogus'', ''candidate:3'']
   \<and> iceCandidatesQueue
         (handleSignalMessage browser (offerFrom ''b1'')
            (foldl (\<lambda>s' p. handleSignalMessage browser p s') (room ''a9'') threeCandidates))
       = []
   \<and> addedCandidates (engineCalls
         (handleSignalMessage browser (offerFrom ''b1'')
            (foldl (\<lambda>s' p. handleSignalMessage browser p s') (room ''a9'') threeCandidates)))
       = [''candidate:1'', ''bogus'', ''candidate:3'']
   \<and> peerConnection describedRoom = Some describedRtc
   \<and> remoteDescription browser describedRtc \<noteq> None
   \<and> engineCalls (handleSignalMessage browser (candidateFrom ''b1'' ''candidate:1'') describedRoom)
       = engineCalls describedRoom @ [(AddIceCandidate ''candidate:1'', True)]
   \<and> engineCalls (handleSignalMessage browser (candidateFrom ''b1'' ''bogus'') describedRoom)
       = engineCalls describedRoom @ [(AddIceCandidate ''bogus'', False)]
   \<and> peerConnection (handleSignalMessage browser (candidateFrom ''b1'' ''candidate:1'') describedRoom)
       = Some (describedRtc\<lparr>rtcCandidates := [''candidate:1'']\<rparr>)
   \<and> peerConnection (handleSignalMessage browser (candidateFrom ''b1'' ''bogus'') describedRoom)
       = Some describedRtc
   \<and> offerApplied browser readyRtc remoteOffer = Some describedRtc
   \<and> answered browser
         (applyEach (addIceCandidate browser)
            (iceCandidatesQueue (room ''a9'') @ candidatesOf threeCandidates) describedRtc)
       = Some (localAnswer, answeredRtc\<lparr>rtcCandidates := [''candidate:1'', ''candidate:3'']\<rparr>)
   \<and> channel (room ''a9'')
   \<and> peerConnection
         (handleSignalMessage browser (offerFrom ''b1'')
            (foldl (\<lambda>s' p. handleSignalMessage browser p s') (room ''a9'') threeCandidates))
       = Some (answeredRtc\<lparr>rtcCandidates := [''candidate:1'', ''candidate:3'']\<rparr>)
   \<and> engineCalls
         (handleSignalMessage browser (offerFrom ''b1'')
            (foldl (\<lambda>s' p. handleSignalMessage browser p s') (room ''a9'') threeCandidates))
       = engineCalls (room ''a9'') @
           [(SetRemoteDescription remoteOffer, True), (AddIceCandidate ''candidate:1'', True),
            (AddIceCandidate ''bogus'', False), (AddIceCandidate ''candidate:3'', True),
            (CreateAnswer, True), (SetLocalDescription localAnswer, True)]"
proof -
  have p1: "peerConnection (room ''a9'') = Some readyRtc"
    and p2: "peerConnection describedRoom = Some describedRtc"
    by (simp_all add: room_def describedRoom_def)
  have ps1: "\<forall>p \<in> set threeCandidates. msgType p = IceCandidate \<and> senderId p \<noteq> myId (room ''a9'')"
    and ps2: "\<forall>p \<in> set threeCandidates. msgType p = IceCandidate \<and> senderId p \<noteq> myId describedRoom"
    by (simp_all add: threeCandidates_def candidateFrom_def mkSignal_def room_def describedRoom_def)
  have o: "msgType (offerFrom ''b1'') = Offer" "senderId (offerFrom ''b1'') \<noteq> myId (room ''a9'')"
    "sdp (offerFrom ''b1'') = Some remoteOffer" "senderId (offerFrom ''b1'') \<noteq> myId describedRoom"
    by (simp_all add: offerFrom_def mkSignal_def room_def describedRoom_def)
  have r1: "remoteDescription browser readyRtc = None"
    and r2: "remoteDescription browser describedRtc \<noteq> None"
    and acc: "offerAccepted browser readyRtc remoteOffer"
    by (simp_all add: browser_def readyRtc_def freshRtc_def describedRtc_def offerAccepted_def rtcSetRemote_def
        remoteOffer_def)
  have cq: "candidatesOf threeCandidates = [''candidate:1'', ''bogus'', ''candidate:3'']"
    by (simp add: threeCandidates_def candidateFrom_def mkSignal_def)
  have q0: "iceCandidatesQueue (room ''a9'') = []" "addedCandidates (engineCalls (room ''a9'')) = []"
    by (simp_all add: room_def)
  note t1 = ice_candidates_fifo [OF p1 ps1 o(1) o(2) o(3), of browser, THEN conjunct2,
      rule_format, OF r1]
  have a: "iceCandidatesQueue
         (foldl (\<lambda>s' p. handleSignalMessage browser p s') (room ''a9'') threeCandidates)
       = [''candidate:1'', ''bogus'', ''candidate:3'']"
    using t1 [THEN conjunct1] by (simp add: cq q0)
  have b: "iceCandidatesQueue
         (handleSignalMessage browser (offerFrom ''b1'')
            (foldl (\<lambda>s' p. handleSignalMessage browser p s') (room ''a9'') threeCandidates))
       = []"
    using t1 [THEN conjunct2, THEN conjunct1, rule_format, OF acc] by blast
  have c: "addedCandidates (engineCalls
         (handleSignalMessage browser (offerFrom ''b1'')
            (foldl (\<lambda>s' p. handleSignalMessage browser p s') (room ''a9'') threeCandidates)))
       = addedCandidates (engineCalls (room ''a9'')) @ iceCandidatesQueue (room ''a9'')
           @ candidatesOf threeCandidates"
    using t1 [THEN conjunct2, THEN conjunct1, rule_format, OF acc] by blast
  note t2 = ice_candidates_fifo [OF p2 ps2 o(1) o(4) o(3), of browser, THEN conjunct1,
      rule_format, OF r2]
  have d: "engineCalls (handleSignalMessage browser (candidateFrom ''b1'' ''candidate:1'') describedRoom)
       = engineCalls describedRoom @ [(AddIceCandidate ''candidate:1'', True)]"
    using t2 [of "candidateFrom ''b1'' ''candidate:1''" "''candidate:1''", THEN conjunct1]
    by (simp add: threeCandidates_def candidateFrom_def mkSignal_def browser_def
        rtcAddIceCandidate_def describedRtc_def)
  have e: "engineCalls (handleSignalMessage browser (candidateFrom ''b1'' ''bogus'') describedRoom)
       = engineCalls describedRoom @ [(AddIceCandidate ''bogus'', False)]"
    using t2 [of "candidateFrom ''b1'' ''bogus''" "''bogus''", THEN conjunct1]
    by (simp add: threeCandidates_def candidateFrom_def mkSignal_def browser_def
        rtcAddIceCandidate_def describedRtc_def)
  have d': "peerConnection
              (handleSignalMessage browser (candidateFrom ''b1'' ''candidate:1'') describedRoom)
            = Some (describedRtc\<lparr>rtcCandidates := [''candidate:1'']\<rparr>)"
    using t2 [of "candidateFrom ''b1'' ''candidate:1''" "''candidate:1''",
        THEN conjunct2, THEN conjunct2]
    by (simp add: threeCandidates_def candidateFrom_def mkSignal_def browser_def
        rtcAddIceCandidate_def describedRtc_def readyRtc_def freshRtc_def)
  have e': "peerConnection
              (handleSignalMessage browser (candidateFrom ''b1'' ''bogus'') describedRoom)
            = Some describedRtc"
    using t2 [of "candidateFrom ''b1'' ''bogus''" "''bogus''", THEN conjunct2, THEN conjunct2]
    by (simp add: threeCandidates_def candidateFrom_def mkSignal_def browser_def
        rtcAddIceCandidate_def describedRtc_def)
  have ap: "offerApplied browser readyRtc remoteOffer = Some describedRtc"
    and ch: "channel (room ''a9'')"
    by (simp_all add: offerApplied_def browser_def rtcSetRemote_def remoteOffer_def
        describedRtc_def readyRtc_def freshRtc_def room_def)
  have an: "answered browser
         (applyEach (addIceCandidate browser)
            (iceCandidatesQueue (room ''a9'') @ candidatesOf threeCandidates) describedRtc)
       = Some (localAnswer, answeredRtc\<lparr>rtcCandidates := [''candidate:1'', ''candidate:3'']\<rparr>)"
    by (simp add: cq q0 answered_def browser_def rtcAddIceCandidate_def rtcSetLocal_def
        describedRtc_def answeredRtc_def localAnswer_def readyRtc_def freshRtc_def)
  note t3 = t1 [THEN conjunct2, THEN conjunct2, rule_format, OF conjI [OF ap conjI [OF an ch]]]
  have f: "peerConnection
         (handleSignalMessage browser (offerFrom ''b1'')
            (foldl (\<lambda>s' p. handleSignalMessage browser p s') (room ''a9'') threeCandidates))
       = Some (answeredRtc\<lparr>rtcCandidates := [''candidate:1'', ''candidate:3'']\<rparr>)"
    using t3 by simp
  have g: "engineCalls
         (handleSignalMessage browser (offerFrom ''b1'')
            (foldl (\<lambda>s' p. handleSignalMessage browser p s') (room ''a9'') threeCandidates))
       = engineCalls (room ''a9'') @
           [(SetRemoteDescription remoteOffer, True), (AddIceCandidate ''candidate:1'', True),
            (AddIceCandidate ''bogus'', False), (AddIceCandidate ''candidate:3'', True),
            (CreateAnswer, True), (SetLocalDescription localAnswer, True)]"
    by (subst t3)
      (simp add: offerCalls_def cq q0 browser_def rtcAddIceCandidate_def describedRtc_def
        readyRtc_def freshRtc_def)
  have ps1': "list_all (\<lambda>p. msgType p = IceCandidate \<and> senderId p \<noteq> myId (room ''a9''))
                threeCandidates"
    using ps1 by (simp add: list_all_iff)
  show ?thesis
    using p1 ps1' o(1,2,3) r1 acc a b c [unfolded cq q0 append_Nil] p2 r2 d e d' e' ap an ch f g
    by (intro conjI)
qed

section \<open>The answer branch\<close>

lemma handle_answer:
  assumes "senderId p \<noteq> myId s" "msgType p = Answer" "peerConnection s = Some e"
  shows "handleSignalMessage pc p s = caught pc p (processAnswer pc p s)"
  using assms by (simp add: handleSignalMessage_signal signalBody_def)

lemma handle_answer_fails:
  assumes "senderId p \<noteq> myId s" and "msgType p = Answer" and "peerConnection s = Some e"
    and "signalingState pc e = HaveLocalOffer"
    and "sdp p = None \<or> (\<exists>d. sdp p = Some d \<and> setRemoteDescription pc d e = None)"
  shows "handleSignalMessage pc p s =
           s\<lparr>status := Waiting_for_Peer, statusMessage := ''Retrying connection...'',
             peerConnection :=
               Some (applyEach (addTrack pc) (localTracks s) (newPeerConnection pc)),
             engineCalls := engineCalls s
               @ (case sdp p of None \<Rightarrow> [] | Some d \<Rightarrow> [(SetRemoteDescription d, False)])
               @ (Close, True) # (NewPeerConnection, True)
                 # callsOfEach AddTrack (addTrack pc) (localTracks s) (newPeerConnection pc),
             timers := filter (\<lambda>t. Some (fst t) \<noteq> announceInterval s) (timers s)
                         @ [(nextTimerId s, 500, InitialAnnounce),
                            (Suc (nextTimerId s), 2000, AnnounceTick)],
             nextTimerId := Suc (Suc (nextTimerId s)),
             announceInterval := Some (Suc (nextTimerId s))\<rparr>"
  using assms
  by (auto simp: handle_answer processAnswer_def caught_def callEngine_def Let_def
      restartConnection_exact localTracks_def)

text \<open>
  Claim C5, as amended. For an Answer envelope from a peer, handled by a room that has
  an engine: when the signaling state is \<^verbatim>\<open>have-local-offer\<close> and the envelope carries a
  description, the handler calls \<^verbatim>\<open>setRemoteDescription\<close> with it, and the engine
  returned for an accepted answer becomes the engine of the room; in every other
  signaling state no call is made on the engine, which stays as it was with its
  descriptions. The Answer is not ignored there: outside \<^verbatim>\<open>have-local-offer\<close> the room
  afterwards is the room before with its status overwritten by Negotiating and its
  status message by \<^verbatim>\<open>Finalizing connection...\<close>, and nothing else changed.
\<close>

theorem answer_needs_local_offer:
  assumes "senderId payload \<noteq> myId s" and "msgType payload = Answer"
    and "peerConnection s = Some e"
  shows "(signalingState pc e = HaveLocalOffer \<and> sdp payload = Some d \<longrightarrow>
            prefix (engineCalls s @ [(SetRemoteDescription d, setRemoteDescription pc d e \<noteq> None)])
              (engineCalls (handleSignalMessage pc payload s))
            \<and> (\<forall>e'. setRemoteDescription pc d e = Some e' \<longrightarrow>
                 handleSignalMessage pc payload s =
                   s\<lparr>status := Negotiating, statusMessage := ''Finalizing connection...'',
                     peerConnection := Some e',
                     engineCalls := engineCalls s @ [(SetRemoteDescription d, True)]\<rparr>))
       \<and> (signalingState pc e \<noteq> HaveLocalOffer \<longrightarrow>
            handleSignalMessage pc payload s =
              s\<lparr>status := Negotiating, statusMessage := ''Finalizing connection...''\<rparr>)"
proof (intro conjI impI allI; (elim conjE)?)
  assume h: "signalingState pc e = HaveLocalOffer" and d: "sdp payload = Some d"
  show "prefix (engineCalls s @ [(SetRemoteDescription d, setRemoteDescription pc d e \<noteq> None)])
              (engineCalls (handleSignalMessage pc payload s))"
  proof (cases "setRemoteDescription pc d e")
    case None
    have "handleSignalMessage pc payload s =
            restartConnection pc
              (s\<lparr>status := Negotiating, statusMessage := ''Finalizing connection...'',
                 engineCalls := engineCalls s @ [(SetRemoteDescription d, False)]\<rparr>)"
      using assms h d None
      by (simp add: handle_answer processAnswer_def caught_def callEngine_def Let_def)
    then show ?thesis
      using None
        restartConnection_prefix [of "s\<lparr>status := Negotiating,
                 statusMessage := ''Finalizing connection...'',
                 engineCalls := engineCalls s @ [(SetRemoteDescription d, False)]\<rparr>" pc]
      by simp
  next
    case (Some e')
    then show ?thesis
      using assms h d
      by (simp add: handle_answer processAnswer_def caught_def callEngine_def Let_def)
  qed
next
  fix e'
  assume h: "signalingState pc e = HaveLocalOffer" and d: "sdp payload = Some d"
    and a: "setRemoteDescription pc d e = Some e'"
  show "handleSignalMessage pc payload s =
                   s\<lparr>status := Negotiating, statusMessage := ''Finalizing connection...'',
                     peerConnection := Some e',
                     engineCalls := engineCalls s @ [(SetRemoteDescription d, True)]\<rparr>"
    using assms h d a
    by (simp add: handle_answer processAnswer_def caught_def callEngine_def Let_def)
next
  assume "signalingState pc e \<noteq> HaveLocalOffer"
  then show "handleSignalMessage pc payload s =
              s\<lparr>status := Negotiating, statusMessage := ''Finalizing connection...''\<rparr>"
    using assms
    by (simp add: handle_answer processAnswer_def caught_def Let_def)
qed

theorem answer_needs_local_offer_witness:
  "senderId (answerFrom ''b1'') \<noteq> myId glareRoom
   \<and> msgType (answerFrom ''b1'') = Answer
   \<and> sdp (answerFrom ''b1'') = Some remoteAnswer
   \<and> peerConnection glareRoom =
       Some (readyRtc\<lparr>rtcSignaling := HaveLocalOffer, rtcLocal := Some localOffer\<rparr>)
   \<and> signalingState browser (readyRtc\<lparr>rtcSignaling := HaveLocalOffer, rtcLocal := Some localOffer\<rparr>)
       = HaveLocalOffer
   \<and> setRemoteDescription browser remoteAnswer
         (readyRtc\<lparr>rtcSignaling := HaveLocalOffer, rtcLocal := Some localOffer\<rparr>)
       = Some (readyRtc\<lparr>rtcSignaling := Stable, rtcLocal := Some localOffer,
                       rtcRemote := Some remoteAnswer\<rparr>)
   \<and> handleSignalMessage browser (answerFrom ''b1'') glareRoom =
       glareRoom\<lparr>status := Negotiating, statusMessage := ''Finalizing connection...'',
         peerConnection := Some (readyRtc\<lparr>rtcSignaling := Stable, rtcLocal := Some localOffer,
                                        rtcRemote := Some remoteAnswer\<rparr>),
         engineCalls := engineCalls glareRoom @ [(SetRemoteDescription remoteAnswer, True)]\<rparr>
   \<and> senderId (answerFrom ''b1'') \<noteq> myId (room ''a9'')
   \<and> peerConnection (room ''a9'') = Some readyRtc
   \<and> signalingState browser readyRtc \<noteq> HaveLocalOffer
   \<and> handleSignalMessage browser (answerFrom ''b1'') (room ''a9'') =
       (room ''a9'')\<lparr>status := Negotiating, statusMessage := ''Finalizing connection...''\<rparr>"
proof -
  have g: "myId glareRoom = ''a9''"
    "peerConnection glareRoom =
       Some (readyRtc\<lparr>rtcSignaling := HaveLocalOffer, rtcLocal := Some localOffer\<rparr>)"
    by (simp_all add: glareRoom_def initiateConnection_def room_def stopAnnouncing_eq callEngine_def
        callCreate_def browser_def rtcSetLocal_def readyRtc_def freshRtc_def send_def setTimer_def
        localOffer_def mkSignal_def)
  have s1: "senderId (answerFrom ''b1'') \<noteq> myId glareRoom"
    and s2: "senderId (answerFrom ''b1'') \<noteq> myId (room ''a9'')"
    and t: "msgType (answerFrom ''b1'') = Answer"
    and d: "sdp (answerFrom ''b1'') = Some remoteAnswer"
    and p2: "peerConnection (room ''a9'') = Some readyRtc"
    by (simp_all add: g answerFrom_def mkSignal_def room_def)
  have n1: "signalingState browser
              (readyRtc\<lparr>rtcSignaling := HaveLocalOffer, rtcLocal := Some localOffer\<rparr>)
              = HaveLocalOffer"
    and n2: "signalingState browser readyRtc \<noteq> HaveLocalOffer"
    and a: "setRemoteDescription browser remoteAnswer
         (readyRtc\<lparr>rtcSignaling := HaveLocalOffer, rtcLocal := Some localOffer\<rparr>)
       = Some (readyRtc\<lparr>rtcSignaling := Stable, rtcLocal := Some localOffer,
                       rtcRemote := Some remoteAnswer\<rparr>)"
    by (simp_all add: browser_def readyRtc_def freshRtc_def rtcSetRemote_def remoteAnswer_def)
  have r1: "handleSignalMessage browser (answerFrom ''b1'') glareRoom =
       glareRoom\<lparr>status := Negotiating, statusMessage := ''Finalizing connection...'',
         peerConnection := Some (readyRtc\<lparr>rtcSignaling := Stable, rtcLocal := Some localOffer,
                                        rtcRemote := Some remoteAnswer\<rparr>),
         engineCalls := engineCalls glareRoom @ [(SetRemoteDescription remoteAnswer, True)]\<rparr>"
    using answer_needs_local_offer [OF s1 t g(2), of browser remoteAnswer] n1 d a by blast
  have r2: "handleSignalMessage browser (answerFrom ''b1'') (room ''a9'') =
       (room ''a9'')\<lparr>status := Negotiating, statusMessage := ''Finalizing connection...''\<rparr>"
    using answer_needs_local_offer [OF s2 t p2, of browser] n2 by blast
  show ?thesis using s1 t d g(2) n1 a r1 s2 p2 n2 r2 by blast
qed

text \<open>
  The claim as stated fails on the words \<open>silently ignored\<close>: a room that shows
  Connected, with its engine in signaling state \<^verbatim>\<open>stable\<close>, shows Negotiating after a
  stray Answer, although nothing is being negotiated.
\<close>

lemma connectedRoom_eq:
  "connectedRoom =
     (room ''a9'')\<lparr>status := Connected, statusMessage := ''Securely connected'',
       peerConnected := True, timers := [(0, 500, InitialAnnounce)], announceInterval := None,
       peerConnection := Some (answeredRtc\<lparr>rtcConnection := PcConnected, rtcIce := IceConnected\<rparr>),
       engineCalls := engineCalls (room ''a9'') @
         [(SetRemoteDescription remoteOffer, True), (CreateAnswer, True),
          (SetLocalDescription localAnswer, True)],
       sent := [(mkSignal Answer ''a9'')\<lparr>sdp := Some localAnswer\<rparr>]\<rparr>"
  by (simp add: connectedRoom_def run_def step_def onconnectionstatechange_def
     handleSignalMessage_def signalBody_def processOffer_def applyRemoteOffer_def
     answerRemoteOffer_def stopAnnouncing_eq caught_def outcomeState_def
     offerFrom_def mkSignal_def remoteOffer_def room_def browser_def
     callEngine_def callCreate_def send_def drainQueue_Nil clearTimer_def
     rtcSetRemote_def rtcSetLocal_def readyRtc_def answeredRtc_def describedRtc_def localAnswer_def
     freshRtc_def Let_def)

theorem answer_silently_ignored_counterexample:
  "status connectedRoom = Connected
   \<and> statusMessage connectedRoom = ''Securely connected''
   \<and> map_option (signalingState browser) (peerConnection connectedRoom) = Some Stable
   \<and> senderId (answerFrom ''b1'') \<noteq> myId connectedRoom
   \<and> msgType (answerFrom ''b1'') = Answer
   \<and> status (handleSignalMessage browser (answerFrom ''b1'') connectedRoom) = Negotiating
   \<and> statusMessage (handleSignalMessage browser (answerFrom ''b1'') connectedRoom)
       = ''Finalizing connection...''
   \<and> handleSignalMessage browser (answerFrom ''b1'') connectedRoom \<noteq> connectedRoom"
  by (simp add: connectedRoom_eq handleSignalMessage_def signalBody_def processAnswer_def
     caught_def outcomeState_def answerFrom_def mkSignal_def room_def browser_def
     answeredRtc_def describedRtc_def readyRtc_def freshRtc_def Let_def)

section \<open>Failure policy\<close>

text \<open>
  Claim C6. For an Offer envelope from a peer, any failure on the way (no description,
  the rollback or the remote description refused, \<^verbatim>\<open>createAnswer\<close> or
  \<^verbatim>\<open>setLocalDescription\<close> of the answer refused, no channel to send on) ends in a full
  restart: the room afterwards is the room before with the old engine closed and
  replaced by a newly constructed engine to which the local tracks are added, the
  status Waiting for Peer, and the announcement loop started again. The same holds for
  an Answer envelope in signaling state \<^verbatim>\<open>have-local-offer\<close> whose description is missing
  or refused. A candidate that the engine refuses is only logged: applied directly,
  the room is unchanged but for the record of the call; queued, the drain hands every
  queued candidate to the engine in order, the refused ones leaving the engine as it
  was, and the handler goes on to answer as if none had been refused.
\<close>

theorem signaling_failure_policy:
  assumes "senderId payload \<noteq> myId s" and "peerConnection s = Some e"
  shows "(msgType payload = Offer \<and> offerCompletes pc s e payload = None \<longrightarrow>
            (\<exists>pre q.
               handleSignalMessage pc payload s =
                 s\<lparr>status := Waiting_for_Peer, statusMessage := ''Retrying connection...'',
                   iceCandidatesQueue := q,
                   peerConnection :=
                     Some (applyEach (addTrack pc) (localTracks s) (newPeerConnection pc)),
                   engineCalls := engineCalls s @ pre
                     @ (Close, True) # (NewPeerConnection, True)
                       # callsOfEach AddTrack (addTrack pc) (localTracks s) (newPeerConnection pc),
                   timers := filter (\<lambda>t. Some (fst t) \<noteq> announceInterval s) (timers s)
                               @ [(nextTimerId s, 500, InitialAnnounce),
                                  (Suc (nextTimerId s), 2000, AnnounceTick)],
                   nextTimerId := Suc (Suc (nextTimerId s)),
                   announceInterval := Some (Suc (nextTimerId s))\<rparr>
               \<and> (q = iceCandidatesQueue s \<or> q = [])))
       \<and> (msgType payload = Answer \<and> signalingState pc e = HaveLocalOffer
            \<and> (sdp payload = None
                \<or> (\<exists>d. sdp payload = Some d \<and> setRemoteDescription pc d e = None)) \<longrightarrow>
            handleSignalMessage pc payload s =
              s\<lparr>status := Waiting_for_Peer, statusMessage := ''Retrying connection...'',
                peerConnection :=
                  Some (applyEach (addTrack pc) (localTracks s) (newPeerConnection pc)),
                engineCalls := engineCalls s
                  @ (case sdp payload of None \<Rightarrow> []
                     | Some d \<Rightarrow> [(SetRemoteDescription d, False)])
                  @ (Close, True) # (NewPeerConnection, True)
                    # callsOfEach AddTrack (addTrack pc) (localTracks s) (newPeerConnection pc),
                timers := filter (\<lambda>t. Some (fst t) \<noteq> announceInterval s) (timers s)
                            @ [(nextTimerId s, 500, InitialAnnounce),
                               (Suc (nextTimerId s), 2000, AnnounceTick)],
                nextTimerId := Suc (Suc (nextTimerId s)),
                announceInterval := Some (Suc (nextTimerId s))\<rparr>)
       \<and> (msgType payload = IceCandidate \<and> candidate payload = Some c
            \<and> remoteDescription pc e \<noteq> None \<and> addIceCandidate pc c e = None \<longrightarrow>
            handleSignalMessage pc payload s =
              s\<lparr>engineCalls := engineCalls s @ [(AddIceCandidate c, False)]\<rparr>)
       \<and> (msgType payload = Offer \<and> sdp payload = Some d \<and> offerApplied pc e d = Some e2
            \<and> offerCompletes pc s e payload = Some (answer, e5) \<longrightarrow>
            handleSignalMessage pc payload s =
              s\<lparr>status := Negotiating, statusMessage := ''Accepting connection...'',
                timers := filter (\<lambda>t. Some (fst t) \<noteq> announceInterval s) (timers s),
                announceInterval := None,
                iceCandidatesQueue := [],
                peerConnection := Some e5,
                engineCalls := engineCalls s @ map (\<lambda>c. (c, True)) (offerCalls pc e d)
                  @ callsOfEach AddIceCandidate (addIceCandidate pc) (iceCandidatesQueue s) e2
                  @ [(CreateAnswer, True), (SetLocalDescription answer, True)],
                sent := sent s @ [(mkSignal Answer (myId s))\<lparr>sdp := Some answer\<rparr>]\<rparr>)
       \<and> (msgType payload = Offer \<and> sdp payload = Some d \<and> offerAccepted pc e d \<longrightarrow>
            (\<exists>cs. map fst (engineCalls (handleSignalMessage pc payload s)) =
                    map fst (engineCalls s) @ offerCalls pc e d
                      @ map AddIceCandidate (iceCandidatesQueue s) @ CreateAnswer # cs
                  \<and> (\<forall>c. AddIceCandidate c \<notin> set cs)))"
proof (intro conjI impI; (elim conjE)?)
  assume "msgType payload = Offer" and "offerCompletes pc s e payload = None"
  then show "\<exists>pre q.
               handleSignalMessage pc payload s =
                 s\<lparr>status := Waiting_for_Peer, statusMessage := ''Retrying connection...'',
                   iceCandidatesQueue := q,
                   peerConnection :=
                     Some (applyEach (addTrack pc) (localTracks s) (newPeerConnection pc)),
                   engineCalls := engineCalls s @ pre
                     @ (Close, True) # (NewPeerConnection, True)
                       # callsOfEach AddTrack (addTrack pc) (localTracks s) (newPeerConnection pc),
                   timers := filter (\<lambda>t. Some (fst t) \<noteq> announceInterval s) (timers s)
                               @ [(nextTimerId s, 500, InitialAnnounce),
                                  (Suc (nextTimerId s), 2000, AnnounceTick)],
                   nextTimerId := Suc (Suc (nextTimerId s)),
                   announceInterval := Some (Suc (nextTimerId s))\<rparr>
               \<and> (q = iceCandidatesQueue s \<or> q = [])"
    by (rule handle_offer_fails [OF assms(1) _ assms(2)])
next
  assume "msgType payload = Answer" and "signalingState pc e = HaveLocalOffer"
    and "sdp payload = None \<or> (\<exists>d. sdp payload = Some d \<and> setRemoteDescription pc d e = None)"
  then show "handleSignalMessage pc payload s =
              s\<lparr>status := Waiting_for_Peer, statusMessage := ''Retrying connection...'',
                peerConnection :=
                  Some (applyEach (addTrack pc) (localTracks s) (newPeerConnection pc)),
                engineCalls := engineCalls s
                  @ (case sdp payload of None \<Rightarrow> []
                     | Some d \<Rightarrow> [(SetRemoteDescription d, False)])
                  @ (Close, True) # (NewPeerConnection, True)
                    # callsOfEach AddTrack (addTrack pc) (localTracks s) (newPeerConnection pc),
                timers := filter (\<lambda>t. Some (fst t) \<noteq> announceInterval s) (timers s)
                            @ [(nextTimerId s, 500, InitialAnnounce),
                               (Suc (nextTimerId s), 2000, AnnounceTick)],
                nextTimerId := Suc (Suc (nextTimerId s)),
                announceInterval := Some (Suc (nextTimerId s))\<rparr>"
    by (rule handle_answer_fails [OF assms(1) _ assms(2)])
next
  assume "msgType payload = IceCandidate" and "candidate payload = Some c"
    and "remoteDescription pc e \<noteq> None" and "addIceCandidate pc c e = None"
  then show "handleSignalMessage pc payload s =
              s\<lparr>engineCalls := engineCalls s @ [(AddIceCandidate c, False)]\<rparr>"
    using handle_candidate [OF assms(1) _ assms(2), of pc] assms(2)
    by (simp add: callEngine_def del: not_None_eq)
next
  assume "msgType payload = Offer" and "sdp payload = Some d"
    and "offerApplied pc e d = Some e2" and "offerCompletes pc s e payload = Some (answer, e5)"
  then show "handleSignalMessage pc payload s =
              s\<lparr>status := Negotiating, statusMessage := ''Accepting connection...'',
                timers := filter (\<lambda>t. Some (fst t) \<noteq> announceInterval s) (timers s),
                announceInterval := None,
                iceCandidatesQueue := [],
                peerConnection := Some e5,
                engineCalls := engineCalls s @ map (\<lambda>c. (c, True)) (offerCalls pc e d)
                  @ callsOfEach AddIceCandidate (addIceCandidate pc) (iceCandidatesQueue s) e2
                  @ [(CreateAnswer, True), (SetLocalDescription answer, True)],
                sent := sent s @ [(mkSignal Answer (myId s))\<lparr>sdp := Some answer\<rparr>]\<rparr>"
    by (rule handle_offer_completes [OF assms(1) _ assms(2)])
next
  assume "msgType payload = Offer" and "sdp payload = Some d" and "offerAccepted pc e d"
  then show "\<exists>cs. map fst (engineCalls (handleSignalMessage pc payload s)) =
                    map fst (engineCalls s) @ offerCalls pc e d
                      @ map AddIceCandidate (iceCandidatesQueue s) @ CreateAnswer # cs
                  \<and> (\<forall>c. AddIceCandidate c \<notin> set cs)"
    using offer_calls_accepted(1) [OF assms(1) _ _ assms(2)] by blast
qed

theorem signaling_failure_policy_witness:
  "senderId (offerFrom ''b1'') \<noteq> myId queuedRoom
   \<and> peerConnection queuedRoom = Some readyRtc
   \<and> msgType (offerFrom ''b1'') = Offer
   \<and> offerApplied answerlessBrowser readyRtc remoteOffer = Some describedRtc
   \<and> offerCompletes answerlessBrowser queuedRoom readyRtc (offerFrom ''b1'') = None
   \<and> status (handleSignalMessage answerlessBrowser (offerFrom ''b1'') queuedRoom) = Waiting_for_Peer
   \<and> peerConnection (handleSignalMessage answerlessBrowser (offerFrom ''b1'') queuedRoom)
       = Some readyRtc
   \<and> (\<exists>pre. engineCalls (handleSignalMessage answerlessBrowser (offerFrom ''b1'') queuedRoom)
         = engineCalls queuedRoom @ pre @
             [(Close, True), (NewPeerConnection, True), (AddTrack ''audio'', True),
              (AddTrack ''video'', True)])
   \<and> senderId emptyOffer \<noteq> myId glareRoom
   \<and> peerConnection glareRoom =
       Some (readyRtc\<lparr>rtcSignaling := HaveLocalOffer, rtcLocal := Some localOffer\<rparr>)
   \<and> msgType emptyOffer = Offer
   \<and> offerCompletes browser glareRoom
         (readyRtc\<lparr>rtcSignaling := HaveLocalOffer, rtcLocal := Some localOffer\<rparr>) emptyOffer = None
   \<and> status (handleSignalMessage browser emptyOffer glareRoom) = Waiting_for_Peer
   \<and> peerConnection (handleSignalMessage browser emptyOffer glareRoom) = Some readyRtc
   \<and> senderId misplacedAnswer \<noteq> myId glareRoom
   \<and> msgType misplacedAnswer = Answer
   \<and> sdp misplacedAnswer = Some remoteOffer
   \<and> signalingState browser (readyRtc\<lparr>rtcSignaling := HaveLocalOffer, rtcLocal := Some localOffer\<rparr>)
       = HaveLocalOffer
   \<and> setRemoteDescription browser remoteOffer
         (readyRtc\<lparr>rtcSignaling := HaveLocalOffer, rtcLocal := Some localOffer\<rparr>) = None
   \<and> status (handleSignalMessage browser misplacedAnswer glareRoom) = Waiting_for_Peer
   \<and> peerConnection (handleSignalMessage browser misplacedAnswer glareRoom) = Some readyRtc
   \<and> engineCalls (handleSignalMessage browser misplacedAnswer glareRoom)
       = engineCalls glareRoom @
           [(SetRemoteDescription remoteOffer, False), (Close, True), (NewPeerConnection, True),
            (AddTrack ''audio'', True), (AddTrack ''video'', True)]
   \<and> senderId (candidateFrom ''b1'' ''bogus'') \<noteq> myId describedRoom
   \<and> peerConnection describedRoom = Some describedRtc
   \<and> msgType (candidateFrom ''b1'' ''bogus'') = IceCandidate
   \<and> candidate (candidateFrom ''b1'' ''bogus'') = Some ''bogus''
   \<and> remoteDescription browser describedRtc \<noteq> None
   \<and> addIceCandidate browser ''bogus'' describedRtc = None
   \<and> handleSignalMessage browser (candidateFrom ''b1'' ''bogus'') describedRoom =
       describedRoom\<lparr>engineCalls := engineCalls describedRoom @ [(AddIceCandidate ''bogus'', False)]\<rparr>
   \<and> sdp (offerFrom ''b1'') = Some remoteOffer
   \<and> offerApplied browser readyRtc remoteOffer = Some describedRtc
   \<and> offerCompletes browser queuedRoom readyRtc (offerFrom ''b1'')
       = Some (localAnswer, answeredRtc\<lparr>rtcCandidates := [''candidate:1'', ''candidate:3'']\<rparr>)
   \<and> status (handleSignalMessage browser (offerFrom ''b1'') queuedRoom) = Negotiating
   \<and> iceCandidatesQueue (handleSignalMessage browser (offerFrom ''b1'') queuedRoom) = []
   \<and> peerConnection (handleSignalMessage browser (offerFrom ''b1'') queuedRoom)
       = Some (answeredRtc\<lparr>rtcCandidates := [''candidate:1'', ''candidate:3'']\<rparr>)
   \<and> engineCalls (handleSignalMessage browser (offerFrom ''b1'') queuedRoom)
       = engineCalls queuedRoom @
           [(SetRemoteDescription remoteOffer, True), (AddIceCandidate ''candidate:1'', True),
            (AddIceCandidate ''bogus'', False), (AddIceCandidate ''candidate:3'', True),
            (CreateAnswer, True), (SetLocalDescription localAnswer, True)]
   \<and> offerAccepted browser readyRtc remoteOffer
   \<and> (\<exists>cs. map fst (engineCalls (handleSignalMessage browser (offerFrom ''b1'') queuedRoom)) =
          map fst (engineCalls queuedRoom) @
            [SetRemoteDescription remoteOffer, AddIceCandidate ''candidate:1'',
             AddIceCandidate ''bogus'', AddIceCandidate ''candidate:3'', CreateAnswer] @ cs)"
proof -
  let ?g = "readyRtc\<lparr>rtcSignaling := HaveLocalOffer, rtcLocal := Some localOffer\<rparr>"
  have g: "myId glareRoom = ''a9''" "peerConnection glareRoom = Some ?g"
    "localStream glareRoom = Some [''audio'', ''video'']"
    by (simp_all add: glareRoom_def initiateConnection_def room_def stopAnnouncing_eq callEngine_def
        callCreate_def browser_def rtcSetLocal_def readyRtc_def freshRtc_def send_def setTimer_def
        localOffer_def mkSignal_def)
  have s1: "senderId (offerFrom ''b1'') \<noteq> myId queuedRoom"
    and p1: "peerConnection queuedRoom = Some readyRtc"
    and t1: "msgType (offerFrom ''b1'') = Offer"
    and d1: "sdp (offerFrom ''b1'') = Some remoteOffer"
    and q1: "iceCandidatesQueue queuedRoom = [''candidate:1'', ''bogus'', ''candidate:3'']"
    and l1: "localStream queuedRoom = Some [''audio'', ''video'']"
    and c1: "channel queuedRoom"
    and s2: "senderId emptyOffer \<noteq> myId glareRoom"
    and t2: "msgType emptyOffer = Offer"
    and d2: "sdp emptyOffer = None"
    and s3: "senderId misplacedAnswer \<noteq> myId glareRoom"
    and t3: "msgType misplacedAnswer = Answer"
    and d3: "sdp misplacedAnswer = Some remoteOffer"
    and s4: "senderId (candidateFrom ''b1'' ''bogus'') \<noteq> myId describedRoom"
    and p4: "peerConnection describedRoom = Some describedRtc"
    and t4: "msgType (candidateFrom ''b1'' ''bogus'') = IceCandidate"
    and c4: "candidate (candidateFrom ''b1'' ''bogus'') = Some ''bogus''"
    by (simp_all add: g offerFrom_def emptyOffer_def misplacedAnswer_def candidateFrom_def
        mkSignal_def describedRoom_def queuedRoom_def room_def)
  have ap1: "offerApplied answerlessBrowser readyRtc remoteOffer = Some describedRtc"
    and ap5: "offerApplied browser readyRtc remoteOffer = Some describedRtc"
    and n3: "signalingState browser ?g = HaveLocalOffer"
    and r3: "setRemoteDescription browser remoteOffer ?g = None"
    and n4: "remoteDescription browser describedRtc \<noteq> None"
    and r4: "addIceCandidate browser ''bogus'' describedRtc = None"
    and a6: "offerAccepted browser readyRtc remoteOffer"
    and oc: "offerCalls browser readyRtc remoteOffer = [SetRemoteDescription remoteOffer]"
    by (simp_all add: offerApplied_def offerAccepted_def offerCalls_def answerlessBrowser_def
        browser_def describedRtc_def readyRtc_def freshRtc_def rtcSetLocal_def rtcSetRemote_def
        rtcAddIceCandidate_def rollback_def remoteOffer_def)
  have tr: "applyEach (addTrack answerlessBrowser) [''audio'', ''video'']
              (newPeerConnection answerlessBrowser) = readyRtc"
    "applyEach (addTrack browser) [''audio'', ''video''] (newPeerConnection browser) = readyRtc"
    "callsOfEach AddTrack (addTrack answerlessBrowser) [''audio'', ''video'']
       (newPeerConnection answerlessBrowser)
     = [(AddTrack ''audio'', True), (AddTrack ''video'', True)]"
    "callsOfEach AddTrack (addTrack browser) [''audio'', ''video''] (newPeerConnection browser)
     = [(AddTrack ''audio'', True), (AddTrack ''video'', True)]"
    by (simp_all add: answerlessBrowser_def browser_def rtcAddTrack_def readyRtc_def freshRtc_def)
  have lt: "localTracks queuedRoom = [''audio'', ''video'']"
    "localTracks glareRoom = [''audio'', ''video'']"
    by (simp_all add: localTracks_def l1 g)
  have oc1: "offerCompletes answerlessBrowser queuedRoom readyRtc (offerFrom ''b1'') = None"
  proof -
    have "answered answerlessBrowser x = None" for x
      by (simp add: answered_def answerlessBrowser_def)
    then show ?thesis
      by (simp add: offerCompletes_def d1 ap1 c1)
  qed
  have oc2: "offerCompletes browser glareRoom ?g emptyOffer = None"
    by (simp add: offerCompletes_def d2)
  have oc5: "offerCompletes browser queuedRoom readyRtc (offerFrom ''b1'')
       = Some (localAnswer, answeredRtc\<lparr>rtcCandidates := [''candidate:1'', ''candidate:3'']\<rparr>)"
  proof -
    have "applyEach (addIceCandidate browser) [''candidate:1'', ''bogus'', ''candidate:3'']
            describedRtc
          = describedRtc\<lparr>rtcCandidates := [''candidate:1'', ''candidate:3'']\<rparr>"
      by (simp add: browser_def rtcAddIceCandidate_def describedRtc_def readyRtc_def
          freshRtc_def)
    moreover have "answered browser
            (describedRtc\<lparr>rtcCandidates := [''candidate:1'', ''candidate:3'']\<rparr>)
          = Some (localAnswer,
                  answeredRtc\<lparr>rtcCandidates := [''candidate:1'', ''candidate:3'']\<rparr>)"
      by (simp add: answered_def browser_def rtcSetLocal_def describedRtc_def answeredRtc_def
          localAnswer_def readyRtc_def freshRtc_def)
    ultimately show ?thesis
      by (simp add: offerCompletes_def d1 ap5 c1 q1)
  qed
  note A = signaling_failure_policy [OF s1 p1, where pc = answerlessBrowser,
      THEN conjunct1, rule_format, OF conjI [OF t1 oc1]]
  obtain pre q where A': "handleSignalMessage answerlessBrowser (offerFrom ''b1'') queuedRoom =
      queuedRoom\<lparr>status := Waiting_for_Peer, statusMessage := ''Retrying connection...'',
        iceCandidatesQueue := q,
        peerConnection := Some readyRtc,
        engineCalls := engineCalls queuedRoom @ pre
          @ [(Close, True), (NewPeerConnection, True), (AddTrack ''audio'', True),
             (AddTrack ''video'', True)],
        timers := filter (\<lambda>t. Some (fst t) \<noteq> announceInterval queuedRoom) (timers queuedRoom)
                    @ [(nextTimerId queuedRoom, 500, InitialAnnounce),
                       (Suc (nextTimerId queuedRoom), 2000, AnnounceTick)],
        nextTimerId := Suc (Suc (nextTimerId queuedRoom)),
        announceInterval := Some (Suc (nextTimerId queuedRoom))\<rparr>"
    using A unfolding lt tr by auto
  have x1: "status (handleSignalMessage answerlessBrowser (offerFrom ''b1'') queuedRoom)
              = Waiting_for_Peer"
    and y1: "peerConnection (handleSignalMessage answerlessBrowser (offerFrom ''b1'') queuedRoom)
              = Some readyRtc"
    and z1: "\<exists>pre. engineCalls (handleSignalMessage answerlessBrowser (offerFrom ''b1'') queuedRoom)
         = engineCalls queuedRoom @ pre @
             [(Close, True), (NewPeerConnection, True), (AddTrack ''audio'', True),
              (AddTrack ''video'', True)]"
    by (simp_all add: A')
  note B = signaling_failure_policy [OF s2 g(2), where pc = browser,
      THEN conjunct1, rule_format, OF conjI [OF t2 oc2]]
  obtain pre2 q2 where B': "handleSignalMessage browser emptyOffer glareRoom =
      glareRoom\<lparr>status := Waiting_for_Peer, statusMessage := ''Retrying connection...'',
        iceCandidatesQueue := q2,
        peerConnection := Some readyRtc,
        engineCalls := engineCalls glareRoom @ pre2
          @ [(Close, True), (NewPeerConnection, True), (AddTrack ''audio'', True),
             (AddTrack ''video'', True)],
        timers := filter (\<lambda>t. Some (fst t) \<noteq> announceInterval glareRoom) (timers glareRoom)
                    @ [(nextTimerId glareRoom, 500, InitialAnnounce),
                       (Suc (nextTimerId glareRoom), 2000, AnnounceTick)],
        nextTimerId := Suc (Suc (nextTimerId glareRoom)),
        announceInterval := Some (Suc (nextTimerId glareRoom))\<rparr>"
    using B unfolding lt tr by auto
  have x2: "status (handleSignalMessage browser emptyOffer glareRoom) = Waiting_for_Peer"
    and y2: "peerConnection (handleSignalMessage browser emptyOffer glareRoom) = Some readyRtc"
    by (simp_all add: B')
  have r3': "sdp misplacedAnswer = None
             \<or> (\<exists>d. sdp misplacedAnswer = Some d \<and> setRemoteDescription browser d ?g = None)"
    using d3 r3 by simp
  note C = signaling_failure_policy [OF s3 g(2), where pc = browser,
      THEN conjunct2, THEN conjunct1, rule_format, OF conjI [OF t3 conjI [OF n3 r3']],
      unfolded lt tr d3 option.case]
  have x3: "status (handleSignalMessage browser misplacedAnswer glareRoom) = Waiting_for_Peer"
    and y3: "peerConnection (handleSignalMessage browser misplacedAnswer glareRoom) = Some readyRtc"
    and z3: "engineCalls (handleSignalMessage browser misplacedAnswer glareRoom)
       = engineCalls glareRoom @
           [(SetRemoteDescription remoteOffer, False), (Close, True), (NewPeerConnection, True),
            (AddTrack ''audio'', True), (AddTrack ''video'', True)]"
    by (simp_all add: C)
  have x4: "handleSignalMessage browser (candidateFrom ''b1'' ''bogus'') describedRoom =
       describedRoom\<lparr>engineCalls := engineCalls describedRoom @ [(AddIceCandidate ''bogus'', False)]\<rparr>"
    using signaling_failure_policy [OF s4 p4, where pc = browser and c = "''bogus''"]
      t4 c4 n4 r4 by blast
  note E = signaling_failure_policy [OF s1 p1, where pc = browser and d = remoteOffer,
      THEN conjunct2, THEN conjunct2, THEN conjunct2, THEN conjunct1, rule_format,
      OF conjI [OF t1 conjI [OF d1 conjI [OF ap5 oc5]]]]
  have x5: "status (handleSignalMessage browser (offerFrom ''b1'') queuedRoom) = Negotiating"
    and y5: "iceCandidatesQueue (handleSignalMessage browser (offerFrom ''b1'') queuedRoom) = []"
    and z5: "peerConnection (handleSignalMessage browser (offerFrom ''b1'') queuedRoom)
       = Some (answeredRtc\<lparr>rtcCandidates := [''candidate:1'', ''candidate:3'']\<rparr>)"
    by (simp_all add: E)
  have w5: "engineCalls (handleSignalMessage browser (offerFrom ''b1'') queuedRoom)
       = engineCalls queuedRoom @
           [(SetRemoteDescription remoteOffer, True), (AddIceCandidate ''candidate:1'', True),
            (AddIceCandidate ''bogus'', False), (AddIceCandidate ''candidate:3'', True),
            (CreateAnswer, True), (SetLocalDescription localAnswer, True)]"
    by (subst E)
      (simp add: offerCalls_def q1 browser_def rtcAddIceCandidate_def describedRtc_def
        readyRtc_def freshRtc_def)
  have "\<exists>cs. map fst (engineCalls (handleSignalMessage browser (offerFrom ''b1'') queuedRoom)) =
          map fst (engineCalls queuedRoom) @ offerCalls browser readyRtc remoteOffer
            @ map AddIceCandidate (iceCandidatesQueue queuedRoom) @ CreateAnswer # cs
          \<and> (\<forall>c. AddIceCandidate c \<notin> set cs)"
    using signaling_failure_policy [OF s1 p1, where pc = browser and d = remoteOffer] t1 d1 a6
    by blast
  then have x6: "\<exists>cs. map fst (engineCalls (handleSignalMessage browser (offerFrom ''b1'') queuedRoom)) =
          map fst (engineCalls queuedRoom) @
            [SetRemoteDescription remoteOffer, AddIceCandidate ''candidate:1'',
             AddIceCandidate ''bogus'', AddIceCandidate ''candidate:3'', CreateAnswer] @ cs"
    by (auto simp: oc q1)
  show ?thesis
    using s1 p1 t1 ap1 oc1 x1 y1 z1 s2 g(2) t2 oc2 x2 y2 s3 t3 d3 n3 r3 x3 y3 z3
      s4 p4 t4 c4 n4 r4 x4 d1 ap5 oc5 x5 y5 z5 w5 a6 x6
    by (intro conjI)
qed

section \<open>Properties: what a follower shows\<close>

lemma outcomeState_simps [simp]:
  "outcomeState (Inr s) = s"
  "outcomeState (Inl (err, s)) = s"
  by (simp_all add: outcomeState_def)

lemma followerView_eqI:
  "myId s' = myId s \<Longrightarrow> isInitiator s' = isInitiator s \<Longrightarrow> sent s' = sent s \<Longrightarrow>
   followerView s' = followerView s"
  by (simp add: followerView_def offersSent_def)

lemma followerView_send:
  "msgType m \<noteq> Offer \<Longrightarrow> followerView (send m s) = followerView s"
  by (simp add: followerView_def offersSent_def send_def)

lemma followerView_restartConnection [simp]:
  "followerView (restartConnection pc s) = followerView s"
  by (rule followerView_eqI) simp_all

lemma followerView_clearTimer [simp]: "followerView (clearTimer i s) = followerView s"
  by (rule followerView_eqI) simp_all

lemma followerView_callEngine [simp]:
  "followerView (snd (callEngine c f s)) = followerView s"
  by (rule followerView_eqI) simp_all

lemma followerView_applyRemoteOffer [simp]:
  "followerView (outcomeState (applyRemoteOffer pc d s)) = followerView s"
  by (rule followerView_eqI) simp_all

lemma followerView_drainQueue [simp]: "followerView (drainQueue pc s) = followerView s"
  by (rule followerView_eqI) simp_all

lemma followerView_stopAnnouncing [simp]: "followerView (stopAnnouncing s) = followerView s"
  by (rule followerView_eqI) simp_all

lemma followerView_answerRemoteOffer [simp]:
  "followerView (outcomeState (answerRemoteOffer pc s)) = followerView s"
  by (auto simp: answerRemoteOffer_def outcomeState_def split_beta Let_def followerView_def
      offersSent_def send_def mkSignal_def split: option.splits)

lemma followerView_caught [simp]:
  "followerView (caught pc p r) = followerView (outcomeState r)"
  by (auto simp: caught_def outcomeState_def split: sum.splits)

lemma followerView_processOffer [simp]:
  "followerView (outcomeState (processOffer pc p s)) = followerView s"
proof -
  let ?s1 = "s\<lparr>status := Negotiating, statusMessage := ''Accepting connection...''\<rparr>"
  let ?s2 = "stopAnnouncing ?s1"
  have v: "followerView ?s2 = followerView s"
    by (simp add: followerView_def offersSent_def)
  show ?thesis
  proof (cases "applyRemoteOffer pc (sdp p) ?s2")
    case (Inl x)
    then show ?thesis
      using followerView_applyRemoteOffer [of pc "sdp p" ?s2] v
      by (simp add: processOffer_def Let_def)
  next
    case (Inr s3)
    then have "followerView s3 = followerView s"
      using followerView_applyRemoteOffer [of pc "sdp p" ?s2] v by (simp add: outcomeState_def)
    then show ?thesis using Inr by (simp add: processOffer_def Let_def)
  qed
qed

lemma followerView_processAnswer [simp]:
  "followerView (outcomeState (processAnswer pc p s)) = followerView s"
  by (auto simp: processAnswer_def outcomeState_def split_beta Let_def followerView_def
      offersSent_def split: option.splits)

lemma followerView_processIceCandidate [simp]:
  "followerView (outcomeState (processIceCandidate pc p s)) = followerView s"
  by (auto simp: processIceCandidate_def outcomeState_def followerView_def offersSent_def
      split: option.splits)

lemma followerView_handleRemoteDisconnect [simp]:
  "followerView (handleRemoteDisconnect pc s) = followerView s"
  by (simp add: handleRemoteDisconnect_def) (simp add: followerView_def offersSent_def)

lemma followerView_processAnnounce:
  "\<not> senderId p < myId s \<Longrightarrow> followerView (outcomeState (processAnnounce pc p s)) = followerView s"
  by (simp add: processAnnounce_def outcomeState_def Let_def split: option.splits)

lemma followerView_receiveChat [simp]: "followerView (receiveChat cm s) = followerView s"
  by (simp add: receiveChat_def Let_def followerView_def offersSent_def)

lemma followerView_handleSignalMessage:
  assumes "\<not> senderId p < myId s"
  shows "followerView (handleSignalMessage pc p s) = followerView s"
proof -
  have "followerView (outcomeState (signalBody pc p s)) = followerView s"
    using followerView_processAnnounce [OF assms, of pc]
    by (cases "msgType p") (simp_all add: signalBody_def)
  then have "followerView (caught pc p (signalBody pc p s)) = followerView s"
    by simp
  then show ?thesis
    by (auto simp: handleSignalMessage_def caught_def split: sum.splits)
qed

lemma followerView_onconnectionstatechange [simp]:
  "followerView (onconnectionstatechange pc s) = followerView s"
  by (auto simp: onconnectionstatechange_def Let_def setTimer_def clearTimer_def followerView_def
      offersSent_def split: option.splits RTCPeerConnectionState.splits)

lemma followerView_broadcastPresence [simp]:
  "followerView (broadcastPresence s) = followerView s"
  by (simp add: broadcastPresence_def followerView_send mkSignal_def)

lemma followerView_fireTimer [simp]: "followerView (fireTimer pc i s) = followerView s"
  by (auto simp: fireTimer_def announceTick_def initialAnnounce_def negotiationCheck_def Let_def
      split: option.splits timer_callback.splits)

lemma followerView_onicecandidate [simp]: "followerView (onicecandidate c s) = followerView s"
  by (simp add: onicecandidate_def followerView_send mkSignal_def)

lemma followerView_step:
  assumes "\<forall>p. ev = Receive p \<longrightarrow> \<not> senderId p < myId s"
  shows "followerView (step pc ev s) = followerView s"
proof (cases ev)
  case (Receive p)
  then show ?thesis using assms by (simp add: step_def followerView_handleSignalMessage)
next
  case (EngineChange e')
  have "followerView (s\<lparr>peerConnection := Some e'\<rparr>) = followerView s"
    by (simp add: followerView_def offersSent_def)
  then show ?thesis using EngineChange by (simp add: step_def split: option.splits)
qed (simp_all add: step_def)

lemma followerView_run:
  "\<forall>p. Receive p \<in> set evs \<longrightarrow> \<not> senderId p < myId s \<Longrightarrow>
   followerView (run pc evs s) = followerView s"
proof (induction evs arbitrary: s)
  case Nil
  then show ?case by (simp add: run_def)
next
  case (Cons ev evs)
  have st: "followerView (step pc ev s) = followerView s"
    by (rule followerView_step) (use Cons.prems in auto)
  then have "myId (step pc ev s) = myId s" by (simp add: followerView_def)
  then have "followerView (run pc evs (step pc ev s)) = followerView (step pc ev s)"
    using Cons.prems by (intro Cons.IH) auto
  then show ?case using st by (simp add: run_def)
qed

lemma handle_announce:
  assumes "senderId p \<noteq> myId s" "msgType p = Announce" "peerConnection s = Some e"
  shows "handleSignalMessage pc p s =
           (if connectionState pc e = PcConnected then s
            else if senderId p < myId s then
              (if signalingState pc e \<noteq> Stable \<and> connectionState pc e \<noteq> PcFailed
                  \<and> connectionState pc e \<noteq> PcDisconnected
               then s else initiateConnection pc s)
            else s)"
  using assms
  by (simp add: handleSignalMessage_signal signalBody_def processAnnounce_def caught_def Let_def)

lemma initiateConnection_calls:
  assumes "peerConnection s = Some e"
  shows "prefix (engineCalls s @
                   [(CreateDataChannel ''keepalive'', createDataChannel pc ''keepalive'' e \<noteq> None)])
           (engineCalls (initiateConnection pc s))"
proof (cases "createDataChannel pc ''keepalive'' e")
  case None
  then show ?thesis using assms
    by (simp add: initiateConnection_def stopAnnouncing_eq callEngine_def Let_def)
next
  case (Some e1)
  let ?s3 = "snd (callEngine (CreateDataChannel ''keepalive'') (createDataChannel pc ''keepalive'')
                   ((stopAnnouncing s)\<lparr>status := Negotiating, statusMessage := ''Calling peer...'',
                       isInitiator := True\<rparr>))"
  have c3: "engineCalls ?s3 = engineCalls s @ [(CreateDataChannel ''keepalive'', True)]"
    using assms Some by (simp add: callEngine_def stopAnnouncing_eq)
  have "prefix (engineCalls ?s3) (engineCalls (initiateConnection pc s))"
    using assms Some
    by (auto simp: initiateConnection_def stopAnnouncing_eq callEngine_def callCreate_def Let_def
        send_def setTimer_def clearTimer_def prefix_def split: option.splits)
  then show ?thesis using Some c3 by simp
qed

section \<open>Role election\<close>

text \<open>
  Claim C1. An Announce envelope from a peer, handled while the engine is not in
  connection state \<^verbatim>\<open>connected\<close>: if the local identity is the greater one, the
  announcement is ignored when the signaling state is not stable and the connection
  state is neither \<^verbatim>\<open>failed\<close> nor \<^verbatim>\<open>disconnected\<close>; otherwise the handler runs
  \<^verbatim>\<open>initiateConnection\<close>, which sets the initiator flag, asks the engine for the data
  channel and, when the engine accepts the data channel, the offer and the local
  description and the channel is open, sends the Offer. If the local identity is the
  smaller one, nothing changes; and over every sequence of events in which all
  envelopes come from that greater peer, the smaller side never sets its initiator
  flag and never sends an Offer.
\<close>

theorem initiator_election:
  assumes "peerConnection (s :: 'e session) = Some e" and "connectionState pc e \<noteq> PcConnected"
    and "msgType payload = Announce" and "senderId payload \<noteq> myId s"
  shows "(senderId payload < myId s \<longrightarrow>
            (signalingState pc e \<noteq> Stable \<and> connectionState pc e \<noteq> PcFailed
               \<and> connectionState pc e \<noteq> PcDisconnected \<longrightarrow>
               handleSignalMessage pc payload s = s)
          \<and> (signalingState pc e = Stable \<or> connectionState pc e = PcFailed
               \<or> connectionState pc e = PcDisconnected \<longrightarrow>
               handleSignalMessage pc payload s = initiateConnection pc s
               \<and> isInitiator (handleSignalMessage pc payload s)
               \<and> prefix (engineCalls s @
                            [(CreateDataChannel ''keepalive'',
                              createDataChannel pc ''keepalive'' e \<noteq> None)])
                    (engineCalls (handleSignalMessage pc payload s))
               \<and> (createDataChannel pc ''keepalive'' e = Some e1
                    \<and> createOffer pc e1 = Some (offer, e2)
                    \<and> setLocalDescription pc offer e2 = Some e3 \<and> channel s \<longrightarrow>
                    sent (handleSignalMessage pc payload s) =
                      sent s @ [(mkSignal Offer (myId s))\<lparr>sdp := Some offer\<rparr>])))
       \<and> (myId s < senderId payload \<longrightarrow>
            handleSignalMessage pc payload s = s
          \<and> (\<forall>evs. (\<forall>q. Receive q \<in> set evs \<longrightarrow> senderId q = senderId payload) \<longrightarrow>
                 isInitiator (run pc evs s) = isInitiator s
               \<and> offersSent (run pc evs s) = offersSent s))"
proof (intro conjI impI allI; (elim conjE)?)
  assume "senderId payload < myId s" and "signalingState pc e \<noteq> Stable"
    and "connectionState pc e \<noteq> PcFailed" and "connectionState pc e \<noteq> PcDisconnected"
  then show "handleSignalMessage pc payload s = s"
    using assms by (simp add: handle_announce)
next
  assume lt: "senderId payload < myId s"
    and free: "signalingState pc e = Stable \<or> connectionState pc e = PcFailed
               \<or> connectionState pc e = PcDisconnected"
  show eq: "handleSignalMessage pc payload s = initiateConnection pc s"
    using assms lt free by (auto simp: handle_announce)
  show "isInitiator (handleSignalMessage pc payload s)"
    unfolding eq by (rule initiateConnection_isInitiator) (use assms in simp)
  show "prefix (engineCalls s @
                  [(CreateDataChannel ''keepalive'', createDataChannel pc ''keepalive'' e \<noteq> None)])
          (engineCalls (handleSignalMessage pc payload s))"
    unfolding eq by (rule initiateConnection_calls [OF assms(1)])
  assume "createDataChannel pc ''keepalive'' e = Some e1" "createOffer pc e1 = Some (offer, e2)"
    "setLocalDescription pc offer e2 = Some e3" "channel s"
  then show "sent (handleSignalMessage pc payload s) =
               sent s @ [(mkSignal Offer (myId s))\<lparr>sdp := Some offer\<rparr>]"
    unfolding eq using initiateConnection_accepted(1) [OF assms(1)] by blast
next
  assume "myId s < senderId payload"
  then show "handleSignalMessage pc payload s = s"
    using assms by (auto simp: handle_announce)
next
  fix evs :: "'e event list"
  assume gt: "myId s < senderId payload"
    and all: "\<forall>q. Receive q \<in> set evs \<longrightarrow> senderId q = senderId payload"
  have "followerView (run pc evs s) = followerView s"
    by (rule followerView_run) (use gt all in auto)
  then show "isInitiator (run pc evs s) = isInitiator s"
    and "offersSent (run pc evs s) = offersSent s"
    by (simp_all add: followerView_def)
qed


theorem initiator_election_witness:
  "peerConnection (room ''b1'') = Some readyRtc
   \<and> connectionState browser readyRtc \<noteq> PcConnected
   \<and> msgType (mkSignal Announce ''a9'') = Announce
   \<and> senderId (mkSignal Announce ''a9'') \<noteq> myId (room ''b1'')
   \<and> senderId (mkSignal Announce ''a9'') < myId (room ''b1'')
   \<and> signalingState browser readyRtc = Stable
   \<and> createDataChannel browser ''keepalive'' readyRtc = Some readyRtc
   \<and> createOffer browser readyRtc = Some (localOffer, readyRtc)
   \<and> setLocalDescription browser localOffer readyRtc =
       Some (readyRtc\<lparr>rtcSignaling := HaveLocalOffer, rtcLocal := Some localOffer\<rparr>)
   \<and> channel (room ''b1'')
   \<and> isInitiator (handleSignalMessage browser (mkSignal Announce ''a9'') (room ''b1''))
   \<and> sent (handleSignalMessage browser (mkSignal Announce ''a9'') (room ''b1'')) =
       [(mkSignal Offer ''b1'')\<lparr>sdp := Some localOffer\<rparr>]
   \<and> peerConnection callingRoom =
       Some (readyRtc\<lparr>rtcSignaling := HaveLocalOffer, rtcLocal := Some localOffer\<rparr>)
   \<and> senderId (mkSignal Announce ''a9'') \<noteq> myId callingRoom
   \<and> senderId (mkSignal Announce ''a9'') < myId callingRoom
   \<and> signalingState browser (readyRtc\<lparr>rtcSignaling := HaveLocalOffer, rtcLocal := Some localOffer\<rparr>)
       \<noteq> Stable
   \<and> connectionState browser (readyRtc\<lparr>rtcSignaling := HaveLocalOffer, rtcLocal := Some localOffer\<rparr>)
       = PcNew
   \<and> handleSignalMessage browser (mkSignal Announce ''a9'') callingRoom = callingRoom
   \<and> peerConnection (room ''a9'') = Some readyRtc
   \<and> msgType (mkSignal Announce ''b1'') = Announce
   \<and> senderId (mkSignal Announce ''b1'') \<noteq> myId (room ''a9'')
   \<and> myId (room ''a9'') < senderId (mkSignal Announce ''b1'')
   \<and> handleSignalMessage browser (mkSignal Announce ''b1'') (room ''a9'') = room ''a9''
   \<and> list_all (\<lambda>ev. case ev of Receive q \<Rightarrow> senderId q = ''b1'' | _ \<Rightarrow> True) followerEvents
   \<and> isInitiator (run browser followerEvents (room ''a9'')) = False
   \<and> offersSent (run browser followerEvents (room ''a9'')) = []"
proof -
  have c: "myId callingRoom = ''b1''"
    "peerConnection callingRoom =
       Some (readyRtc\<lparr>rtcSignaling := HaveLocalOffer, rtcLocal := Some localOffer\<rparr>)"
    by (simp_all add: callingRoom_def initiateConnection_def room_def stopAnnouncing_eq
        callEngine_def callCreate_def browser_def rtcSetLocal_def readyRtc_def freshRtc_def send_def
        setTimer_def localOffer_def mkSignal_def)
  have p1: "peerConnection (room ''b1'') = Some readyRtc"
    and p3: "peerConnection (room ''a9'') = Some readyRtc"
    and ch: "channel (room ''b1'')"
    and i0: "isInitiator (room ''a9'') = False" "offersSent (room ''a9'') = []"
      "sent (room ''b1'') = []" "myId (room ''b1'') = ''b1''"
    by (simp_all add: room_def offersSent_def)
  have n1: "connectionState browser readyRtc \<noteq> PcConnected"
    and n2: "connectionState browser
               (readyRtc\<lparr>rtcSignaling := HaveLocalOffer, rtcLocal := Some localOffer\<rparr>)
             \<noteq> PcConnected"
    and st1: "signalingState browser readyRtc = Stable"
    and st2: "signalingState browser
               (readyRtc\<lparr>rtcSignaling := HaveLocalOffer, rtcLocal := Some localOffer\<rparr>)
             \<noteq> Stable"
    and cn2: "connectionState browser
               (readyRtc\<lparr>rtcSignaling := HaveLocalOffer, rtcLocal := Some localOffer\<rparr>)
             = PcNew"
    and a1: "createDataChannel browser ''keepalive'' readyRtc = Some readyRtc"
    and a2: "createOffer browser readyRtc = Some (localOffer, readyRtc)"
    and a3: "setLocalDescription browser localOffer readyRtc =
       Some (readyRtc\<lparr>rtcSignaling := HaveLocalOffer, rtcLocal := Some localOffer\<rparr>)"
    by (simp_all add: browser_def readyRtc_def freshRtc_def rtcSetLocal_def localOffer_def)
  have t1: "msgType (mkSignal Announce ''a9'') = Announce"
    and t3: "msgType (mkSignal Announce ''b1'') = Announce"
    and s1: "senderId (mkSignal Announce ''a9'') \<noteq> myId (room ''b1'')"
    and s2: "senderId (mkSignal Announce ''a9'') \<noteq> myId callingRoom"
    and s3: "senderId (mkSignal Announce ''b1'') \<noteq> myId (room ''a9'')"
    and l1: "senderId (mkSignal Announce ''a9'') < myId (room ''b1'')"
    and l2: "senderId (mkSignal Announce ''a9'') < myId callingRoom"
    and l3: "myId (room ''a9'') < senderId (mkSignal Announce ''b1'')"
    by (simp_all add: mkSignal_def room_def c)
  have ev: "\<forall>q. Receive q \<in> set followerEvents \<longrightarrow> senderId q = senderId (mkSignal Announce ''b1'')"
    by (auto simp: followerEvents_def candidateFrom_def offerFrom_def mkSignal_def)
  note A = initiator_election [OF p1 n1 t1 s1, of readyRtc localOffer readyRtc
      "readyRtc\<lparr>rtcSignaling := HaveLocalOffer, rtcLocal := Some localOffer\<rparr>",
      THEN conjunct1, rule_format, OF l1, THEN conjunct2, rule_format, OF disjI1 [OF st1]]
  have r1: "isInitiator (handleSignalMessage browser (mkSignal Announce ''a9'') (room ''b1''))"
    using A by blast
  have "sent (handleSignalMessage browser (mkSignal Announce ''a9'') (room ''b1'')) =
          sent (room ''b1'') @ [(mkSignal Offer (myId (room ''b1'')))\<lparr>sdp := Some localOffer\<rparr>]"
    using A a1 a2 a3 ch by blast
  then have r2: "sent (handleSignalMessage browser (mkSignal Announce ''a9'') (room ''b1'')) =
       [(mkSignal Offer ''b1'')\<lparr>sdp := Some localOffer\<rparr>]"
    by (simp add: i0)
  have r3: "handleSignalMessage browser (mkSignal Announce ''a9'') callingRoom = callingRoom"
    using initiator_election [OF c(2) n2 t1 s2] l2 st2 cn2 by simp
  note C = initiator_election [OF p3 n1 t3 s3, THEN conjunct2, rule_format, OF l3]
  have r4: "handleSignalMessage browser (mkSignal Announce ''b1'') (room ''a9'') = room ''a9''"
    using C by blast
  have "isInitiator (run browser followerEvents (room ''a9'')) = isInitiator (room ''a9'')
        \<and> offersSent (run browser followerEvents (room ''a9'')) = offersSent (room ''a9'')"
    using C [THEN conjunct2, rule_format, of followerEvents] ev by blast
  then have r5: "isInitiator (run browser followerEvents (room ''a9'')) = False"
    and r6: "offersSent (run browser followerEvents (room ''a9'')) = []"
    by (simp_all add: i0)
  have ev': "list_all (\<lambda>ev. case ev of Receive q \<Rightarrow> senderId q = ''b1'' | _ \<Rightarrow> True)
               followerEvents"
    by (simp add: followerEvents_def candidateFrom_def offerFrom_def mkSignal_def)
  show ?thesis
    using p1 n1 t1 s1 l1 st1 a1 a2 a3 ch r1 r2 c(2) s2 l2 st2 cn2 r3 p3 t3 s3 l3 r4 ev' r5 r6
    by (intro conjI)
qed

end
